theory Spec2Isabelle
  imports Main "HOL-Library.Sublist" "HOL-Library.AList"
begin

section \<open>Python values: strings, formatting, exceptions\<close>

text \<open>
  Strings are \<^typ>\<open>string\<close>; one \<^typ>\<open>char\<close> stands for one character of a Python
  \<open>str\<close>. The characters outside ASCII that the source prints are written as their
  UTF-8 bytes.
\<close>

definition nl :: string where "nl = [CHR 0x0A]"

definition ok_mark :: string where "ok_mark = [CHR 0xE2, CHR 0x9C, CHR 0x85]"
definition cross_mark :: string where "cross_mark = [CHR 0xE2, CHR 0x9D, CHR 0x8C]"
definition excl_mark :: string where "excl_mark = [CHR 0xE2, CHR 0x9D, CHR 0x97]"
definition info_mark :: string where
  "info_mark = [CHR 0xE2, CHR 0x84, CHR 0xB9, CHR 0xEF, CHR 0xB8, CHR 0x8F]"
definition repeat_mark :: string where "repeat_mark = [CHR 0xF0, CHR 0x9F, CHR 0x94, CHR 0x81]"
definition memo_mark :: string where "memo_mark = [CHR 0xF0, CHR 0x9F, CHR 0x93, CHR 0x9D]"
definition party_mark :: string where "party_mark = [CHR 0xF0, CHR 0x9F, CHR 0x8E, CHR 0x89]"
definition package_mark :: string where "package_mark = [CHR 0xF0, CHR 0x9F, CHR 0x93, CHR 0xA6]"
definition envelope_mark :: string where "envelope_mark = [CHR 0xF0, CHR 0x9F, CHR 0x93, CHR 0xA8]"
definition target_mark :: string where "target_mark = [CHR 0xF0, CHR 0x9F, CHR 0x8E, CHR 0xAF]"
definition new_mark :: string where "new_mark = [CHR 0xF0, CHR 0x9F, CHR 0x86, CHR 0x95]"
definition cycle_mark :: string where "cycle_mark = [CHR 0xF0, CHR 0x9F, CHR 0x94, CHR 0x84]"
definition lens_mark :: string where "lens_mark = [CHR 0xF0, CHR 0x9F, CHR 0x94, CHR 0x8E]"
definition rocket_mark :: string where "rocket_mark = [CHR 0xF0, CHR 0x9F, CHR 0x9A, CHR 0x80]"

text \<open>\<open>sep.join(xs)\<close>\<close>

fun join :: "string \<Rightarrow> string list \<Rightarrow> string" where
  "join sep [] = []"
| "join sep [x] = x"
| "join sep (x # y # ys) = x @ sep @ join sep (y # ys)"

text \<open>\<open>chr(10).join("- " + c for c in checks)\<close>\<close>

definition bullet_list :: "string list \<Rightarrow> string" where
  "bullet_list checks = join nl (map (\<lambda>c. ''- '' @ c) checks)"

text \<open>Decimal rendering of numbers, as \<open>str(n)\<close> gives it.\<close>

definition digit_char :: "nat \<Rightarrow> char" where
  "digit_char d = char_of (48 + d)"

fun show_nat :: "nat \<Rightarrow> string" where
  "show_nat n = (if n < 10 then [digit_char n] else show_nat (n div 10) @ [digit_char (n mod 10)])"

declare show_nat.simps [simp del]

definition show_int :: "int \<Rightarrow> string" where
  "show_int i = (if i < 0 then CHR ''-'' # show_nat (nat (- i)) else show_nat (nat i))"

text \<open>
  \<open>repr\<close> of a \<open>str\<close>: single quotes unless the string holds a single quote and no
  double quote; backslash, the quote, tab, newline and carriage return are escaped, other
  control characters are written \<open>\xhh\<close>. Strings are sequences of bytes (UTF-8); a
  byte from 0x80 on is taken to belong to a printable character and is kept. This is what
  Python prints for ASCII strings and for printable characters beyond ASCII; Python
  escapes the characters beyond ASCII that are not printable (U+00A0 is written
  \<open>\xa0\<close>), which this definition does not. No statement below depends on what
  \<open>py_repr\<close> gives on such a string.
\<close>

definition hex_char :: "nat \<Rightarrow> char" where
  "hex_char d = (if d < 10 then char_of (48 + d) else char_of (87 + d))"

definition repr_char :: "char \<Rightarrow> char \<Rightarrow> string" where
  "repr_char q c =
     (if c = CHR 0x5C then [CHR 0x5C, CHR 0x5C]
      else if c = q then [CHR 0x5C, q]
      else if c = CHR 0x09 then [CHR 0x5C, CHR ''t'']
      else if c = CHR 0x0A then [CHR 0x5C, CHR ''n'']
      else if c = CHR 0x0D then [CHR 0x5C, CHR ''r'']
      else if (of_char c :: nat) < 32 \<or> c = CHR 0x7F
        then [CHR 0x5C, CHR ''x'', hex_char ((of_char c :: nat) div 16), hex_char ((of_char c :: nat) mod 16)]
      else [c])"

definition py_repr :: "string \<Rightarrow> string" where
  "py_repr s =
     (let q = (if CHR 0x27 \<in> set s \<and> CHR 0x22 \<notin> set s then CHR 0x22 else CHR 0x27)
      in q # concat (map (repr_char q) s) @ [q])"

text \<open>\<open>str\<close> of a list of strings, as an f-string renders it.\<close>

definition py_str_list :: "string list \<Rightarrow> string" where
  "py_str_list xs = ''['' @ join '', '' (map py_repr xs) @ '']''"

text \<open>
  \<open>os.getenv\<close> gives \<open>None\<close> for a variable that is not set, and an f-string renders
  \<open>None\<close> as the text \<open>None\<close>.
\<close>

definition fmt_opt :: "string option \<Rightarrow> string" where
  "fmt_opt v = (case v of None \<Rightarrow> ''None'' | Some s \<Rightarrow> s)"

text \<open>
  \<open>s.replace(old, new)\<close> for a non-empty \<open>old\<close>: every occurrence, left to right, not
  overlapping. The source only calls it with the literal \<open>https://\<close>.
\<close>

function py_replace :: "string \<Rightarrow> string \<Rightarrow> string \<Rightarrow> string" where
  "py_replace old new [] = []"
| "py_replace old new (c # cs) =
     (if old \<noteq> [] \<and> prefix old (c # cs)
      then new @ py_replace old new (drop (length old) (c # cs))
      else c # py_replace old new cs)"
  by pat_completeness auto
termination
  by (relation "measure (\<lambda>(old, new, s). length s)") auto

text \<open>The exceptions the code can meet, and \<open>str(e)\<close> as \<open>print\<close> shows it.\<close>

datatype py_exception =
    Exception string
  | CalledProcessError "string list" nat
  | HTTPError string
  | KeyError string
  | IndexError
  | UnboundLocalError string
  | DecodeError string

definition exc_str :: "py_exception \<Rightarrow> string" where
  "exc_str e =
     (case e of
        Exception m \<Rightarrow> m
      | CalledProcessError cmd rc \<Rightarrow>
          ''Command '' @ [CHR 0x27] @ py_str_list cmd @ [CHR 0x27]
            @ '' returned non-zero exit status '' @ show_nat rc @ ''.''
      | HTTPError m \<Rightarrow> m
      | KeyError k \<Rightarrow> py_repr k
      | IndexError \<Rightarrow> ''list index out of range''
      | UnboundLocalError v \<Rightarrow>
          ''cannot access local variable '' @ py_repr v
            @ '' where it is not associated with a value''
      | DecodeError m \<Rightarrow> m)"

section \<open>Data model (src/main.py)\<close>

record attachment =
  att_name :: string
  att_url :: string

text \<open>\<open>TaskRequest\<close>, as \<open>request.dict()\<close> hands it to the background pipeline.\<close>

record task_request =
  rq_email :: string
  rq_secret :: string
  rq_task :: string
  rq_round :: int
  rq_nonce :: string
  rq_brief :: string
  rq_checks :: "string list"
  rq_evaluation_url :: string
  rq_attachments :: "attachment list"

text \<open>The environment variables, \<open>None\<close> when unset.\<close>

record config =
  STUDENT_SECRET :: "string option"
  STUDENT_EMAIL :: "string option"
  GITHUB_TOKEN :: "string option"
  GITHUB_USERNAME :: "string option"

text \<open>The notification payload, and its \<open>repr\<close> as \<open>print(payload)\<close> shows it.\<close>

record payload =
  p_email :: string
  p_task :: string
  p_round :: int
  p_nonce :: string
  p_repo_url :: string
  p_commit_sha :: string
  p_pages_url :: string

definition payload_repr :: "payload \<Rightarrow> string" where
  "payload_repr p =
     ''{'' @ py_repr ''email'' @ '': '' @ py_repr (p_email p)
     @ '', '' @ py_repr ''task'' @ '': '' @ py_repr (p_task p)
     @ '', '' @ py_repr ''round'' @ '': '' @ show_int (p_round p)
     @ '', '' @ py_repr ''nonce'' @ '': '' @ py_repr (p_nonce p)
     @ '', '' @ py_repr ''repo_url'' @ '': '' @ py_repr (p_repo_url p)
     @ '', '' @ py_repr ''commit_sha'' @ '': '' @ py_repr (p_commit_sha p)
     @ '', '' @ py_repr ''pages_url'' @ '': '' @ py_repr (p_pages_url p) @ ''}''"

section \<open>The outside world and the machine state\<close>

text \<open>
  A working directory: its files, and the git repository in it when there is a
  \<open>.git\<close> directory. A tree maps paths to contents. A repository has the staged
  tree, the commits of the current branch (newest first), the URL of the remote
  \<open>origin\<close> when there is one, and the branch name.
\<close>

type_synonym tree = "(string \<times> string) list"

record commit =
  c_sha :: string
  c_tree :: tree

record repo =
  staged :: tree
  commits :: "commit list"
  origin :: "string option"
  cur_branch :: string

record folder =
  files :: tree
  dotgit :: "repo option"

definition empty_folder :: folder where
  "empty_folder = \<lparr>files = [], dotgit = None\<rparr>"

datatype http_reply = ConnectError string | Response nat string

datatype git_op =
  GitInit | GitConfig | GitAdd | GitStatus | GitCommit | GitRemoteSetUrl | GitRemoteAdd
  | GitBranch | GitPush | GitRevParse | GitClone

text \<open>The JSON body of a chat completion: its text form and the contents of its choices.\<close>

record chat_response =
  resp_repr :: string
  choices :: "string option list option"

text \<open>
  What the collaborators answer. None of it depends on the credential: a reply is
  looked up by URL, by prompt, or by attempt number.
\<close>

record world =
  http_get :: "string \<Rightarrow> http_reply"
  decode_content :: "string \<Rightarrow> py_exception + string"
  api_post :: "string \<Rightarrow> http_reply"
  chat_post :: "string \<Rightarrow> http_reply"
  status_error :: "nat \<Rightarrow> string"
  chat_json :: "string \<Rightarrow> py_exception + chat_response"
  evaluator_post :: "nat \<Rightarrow> http_reply"
  git_fault :: "git_op \<Rightarrow> bool"
  remote_commits :: "commit list"
  commit_hash :: "nat \<Rightarrow> string"
  tempdir :: string
  year :: nat

text \<open>The interactions with the outside, in the order they happen.\<close>

datatype call =
    HttpGet string
  | ApiPost string
  | ChatPost string
  | EvaluatorPost string payload
  | Sleep nat
  | Subprocess git_op nat

record machine =
  out :: "string list"
  calls :: "call list"
  tmp :: folder

definition machine0 :: machine where
  "machine0 = \<lparr>out = [], calls = [], tmp = empty_folder\<rparr>"

text \<open>
  A computation runs on the machine and either returns a value or raises; the state it
  leaves is kept in both cases.
\<close>

type_synonym 'a prog = "machine \<Rightarrow> (py_exception + 'a) \<times> machine"

definition ret :: "'a \<Rightarrow> 'a prog" where
  "ret x = (\<lambda>s. (Inr x, s))"

definition raise :: "py_exception \<Rightarrow> 'a prog" where
  "raise e = (\<lambda>s. (Inl e, s))"

definition bind :: "'a prog \<Rightarrow> ('a \<Rightarrow> 'b prog) \<Rightarrow> 'b prog" where
  "bind m f = (\<lambda>s. case m s of (Inl e, s') \<Rightarrow> (Inl e, s') | (Inr x, s') \<Rightarrow> f x s')"

text \<open>\<open>try: m except Exception as e: h e\<close>\<close>

definition try_catch :: "'a prog \<Rightarrow> (py_exception \<Rightarrow> 'a prog) \<Rightarrow> 'a prog" where
  "try_catch m h = (\<lambda>s. case m s of (Inl e, s') \<Rightarrow> h e s' | (Inr x, s') \<Rightarrow> (Inr x, s'))"

text \<open>\<open>try: m except subprocess.CalledProcessError: h\<close>\<close>

definition try_catch_cpe :: "'a prog \<Rightarrow> 'a prog \<Rightarrow> 'a prog" where
  "try_catch_cpe m h =
     (\<lambda>s. case m s of
             (Inl (CalledProcessError cmd rc), s') \<Rightarrow> h s'
           | (Inl e, s') \<Rightarrow> (Inl e, s')
           | (Inr x, s') \<Rightarrow> (Inr x, s'))"

definition print_line :: "string \<Rightarrow> unit prog" where
  "print_line l = (\<lambda>s. (Inr (), s\<lparr>out := out s @ [l]\<rparr>))"

definition record_call :: "call \<Rightarrow> unit prog" where
  "record_call c = (\<lambda>s. (Inr (), s\<lparr>calls := calls s @ [c]\<rparr>))"

text \<open>\<open>os.path.isdir(os.path.join(folder, ".git"))\<close>\<close>

definition isdir_dotgit :: "bool prog" where
  "isdir_dotgit = (\<lambda>s. (Inr (dotgit (tmp s) \<noteq> None), s))"

text \<open>Reading a local variable that no branch has assigned raises.\<close>

definition read_local :: "string \<Rightarrow> 'a option \<Rightarrow> 'a prog" where
  "read_local v x = (case x of None \<Rightarrow> raise (UnboundLocalError v) | Some y \<Rightarrow> ret y)"

text \<open>
  \<open>with tempfile.TemporaryDirectory() as tempdir\<close>: a fresh empty directory, removed on
  every way out of the block.
\<close>

definition with_tempdir :: "'a prog \<Rightarrow> 'a prog" where
  "with_tempdir body =
     (\<lambda>s. case body (s\<lparr>tmp := empty_folder\<rparr>) of (r, s') \<Rightarrow> (r, s'\<lparr>tmp := empty_folder\<rparr>))"

definition write_file :: "string \<Rightarrow> string \<Rightarrow> unit prog" where
  "write_file name content =
     (\<lambda>s. (Inr (), s\<lparr>tmp := (tmp s)\<lparr>files := AList.update name content (files (tmp s))\<rparr>\<rparr>))"

section \<open>git, as the pipeline uses it\<close>

definition head_tree :: "repo \<Rightarrow> tree" where
  "head_tree r = (case commits r of [] \<Rightarrow> [] | c # _ \<Rightarrow> c_tree c)"

text \<open>The paths on which two trees differ.\<close>

definition changed :: "tree \<Rightarrow> tree \<Rightarrow> string list" where
  "changed a b = filter (\<lambda>p. map_of a p \<noteq> map_of b p) (remdups (map fst a @ map fst b))"

text \<open>
  \<open>git status --porcelain\<close> prints one line for each path that differs between HEAD and
  the stage or between the stage and the working tree. Every line holds a status letter,
  so the stripped output is empty exactly when there is no line.
\<close>

definition status_porcelain :: "folder \<Rightarrow> string list" where
  "status_porcelain f =
     (case dotgit f of
        None \<Rightarrow> []
      | Some r \<Rightarrow> changed (head_tree r) (staged r) @ changed (staged r) (files f))"

definition git_init :: "folder \<Rightarrow> nat \<times> folder" where
  "git_init f =
     (0, f\<lparr>dotgit := Some \<lparr>staged = [], commits = [], origin = None, cur_branch = ''master''\<rparr>\<rparr>)"

definition git_config :: "folder \<Rightarrow> nat \<times> folder" where
  "git_config f = (case dotgit f of None \<Rightarrow> (128, f) | Some r \<Rightarrow> (0, f))"

definition git_add_all :: "folder \<Rightarrow> nat \<times> folder" where
  "git_add_all f =
     (case dotgit f of
        None \<Rightarrow> (128, f)
      | Some r \<Rightarrow> (0, f\<lparr>dotgit := Some (r\<lparr>staged := files f\<rparr>)\<rparr>))"

definition git_commit :: "world \<Rightarrow> folder \<Rightarrow> nat \<times> folder" where
  "git_commit w f =
     (case dotgit f of
        None \<Rightarrow> (128, f)
      | Some r \<Rightarrow>
          if changed (head_tree r) (staged r) = [] then (1, f)
          else (0, f\<lparr>dotgit := Some (r\<lparr>commits :=
                  \<lparr>c_sha = commit_hash w (length (commits r)), c_tree = staged r\<rparr> # commits r\<rparr>)\<rparr>))"

definition git_remote_set_url :: "string \<Rightarrow> folder \<Rightarrow> nat \<times> folder" where
  "git_remote_set_url url f =
     (case dotgit f of
        None \<Rightarrow> (128, f)
      | Some r \<Rightarrow>
          (case origin r of
             None \<Rightarrow> (2, f)
           | Some old \<Rightarrow> (0, f\<lparr>dotgit := Some (r\<lparr>origin := Some url\<rparr>)\<rparr>)))"

definition git_remote_add :: "string \<Rightarrow> folder \<Rightarrow> nat \<times> folder" where
  "git_remote_add url f =
     (case dotgit f of
        None \<Rightarrow> (128, f)
      | Some r \<Rightarrow>
          (case origin r of
             None \<Rightarrow> (0, f\<lparr>dotgit := Some (r\<lparr>origin := Some url\<rparr>)\<rparr>)
           | Some old \<Rightarrow> (3, f)))"

definition git_branch_move :: "string \<Rightarrow> folder \<Rightarrow> nat \<times> folder" where
  "git_branch_move name f =
     (case dotgit f of
        None \<Rightarrow> (128, f)
      | Some r \<Rightarrow> (0, f\<lparr>dotgit := Some (r\<lparr>cur_branch := name\<rparr>)\<rparr>))"

definition git_push :: "folder \<Rightarrow> nat \<times> folder" where
  "git_push f =
     (case dotgit f of
        None \<Rightarrow> (128, f)
      | Some r \<Rightarrow> if commits r = [] then (1, f) else if origin r = None then (128, f) else (0, f))"

definition git_clone :: "world \<Rightarrow> string \<Rightarrow> folder \<Rightarrow> nat \<times> folder" where
  "git_clone w url f =
     (if files f \<noteq> [] \<or> dotgit f \<noteq> None then (128, f)
      else (0, \<lparr>files = (case remote_commits w of [] \<Rightarrow> [] | c # _ \<Rightarrow> c_tree c),
                dotgit = Some \<lparr>staged = (case remote_commits w of [] \<Rightarrow> [] | c # _ \<Rightarrow> c_tree c),
                               commits = remote_commits w, origin = Some url,
                               cur_branch = ''main''\<rparr>\<rparr>))"

text \<open>
  \<open>subprocess.run(argv, cwd=folder, check=True)\<close>: the command runs in the temporary
  directory and a non-zero exit status raises \<open>CalledProcessError\<close>, whose message
  holds the command line. The world may fail any command (network, disk).
\<close>

definition subprocess_run ::
  "world \<Rightarrow> git_op \<Rightarrow> string list \<Rightarrow> (folder \<Rightarrow> nat \<times> folder) \<Rightarrow> unit prog" where
  "subprocess_run w op argv sem =
     (\<lambda>s. case (if git_fault w op then (128, tmp s) else sem (tmp s)) of
             (rc, f') \<Rightarrow>
               (if rc = 0 then Inr () else Inl (CalledProcessError argv rc),
                s\<lparr>calls := calls s @ [Subprocess op rc], tmp := f'\<rparr>))"

text \<open>
  \<open>subprocess.run(["git", "status", "--porcelain"], capture_output=True, text=True)\<close>:
  no \<open>check\<close>, so a failure is only an empty output.
\<close>

definition git_status :: "world \<Rightarrow> string list prog" where
  "git_status w =
     (\<lambda>s. if git_fault w GitStatus then (Inr [], s\<lparr>calls := calls s @ [Subprocess GitStatus 128]\<rparr>)
           else (Inr (status_porcelain (tmp s)), s\<lparr>calls := calls s @ [Subprocess GitStatus 0]\<rparr>))"

text \<open>\<open>subprocess.check_output(["git", "rev-parse", "HEAD"]).decode().strip()\<close>\<close>

definition git_rev_parse_head :: "world \<Rightarrow> string prog" where
  "git_rev_parse_head w =
     (\<lambda>s. case (if git_fault w GitRevParse then None
                 else (case dotgit (tmp s) of
                         None \<Rightarrow> None
                       | Some r \<Rightarrow> (case commits r of [] \<Rightarrow> None | c # _ \<Rightarrow> Some (c_sha c)))) of
             None \<Rightarrow> (Inl (CalledProcessError [''git'', ''rev-parse'', ''HEAD''] 128),
                      s\<lparr>calls := calls s @ [Subprocess GitRevParse 128]\<rparr>)
           | Some sha \<Rightarrow> (Inr sha, s\<lparr>calls := calls s @ [Subprocess GitRevParse 0]\<rparr>))"

section \<open>src/utils.py and src/aipipe_client.py\<close>

definition with_token :: "string option \<Rightarrow> string \<Rightarrow> string" where
  "with_token token repo_url = py_replace ''https://'' (''https://'' @ fmt_opt token @ ''@'') repo_url"

definition clone_repo ::
  "config \<Rightarrow> world \<Rightarrow> string \<Rightarrow> string option \<Rightarrow> string option \<Rightarrow> unit prog" where
  "clone_repo cfg w repo_name token username =
     (let username = (case username of None \<Rightarrow> GITHUB_USERNAME cfg | Some u \<Rightarrow> Some u);
          repo_url = ''https://github.com/'' @ fmt_opt username @ ''/'' @ repo_name;
          url_with_token = with_token token repo_url
      in subprocess_run w GitClone [''git'', ''clone'', url_with_token, tempdir w]
           (git_clone w url_with_token))"

definition fetch_github_file ::
  "config \<Rightarrow> world \<Rightarrow> string \<Rightarrow> string \<Rightarrow> string option \<Rightarrow> string \<Rightarrow> string option \<Rightarrow> string prog"
  where
  "fetch_github_file cfg w repo_name filename token branch username =
     (let username = (case username of None \<Rightarrow> GITHUB_USERNAME cfg | Some u \<Rightarrow> Some u);
          api_url = ''https://api.github.com/repos/'' @ fmt_opt username @ ''/'' @ repo_name
                    @ ''/contents/'' @ filename @ ''?ref='' @ branch
      in bind (record_call (HttpGet api_url)) (\<lambda>_.
         case http_get w api_url of
           ConnectError m \<Rightarrow> raise (HTTPError m)
         | Response status_code text \<Rightarrow>
             if status_code = 200
             then (case decode_content w text of Inl e \<Rightarrow> raise e | Inr content \<Rightarrow> ret content)
             else raise (Exception (''Cannot fetch '' @ filename @ '' from '' @ repo_name @ '': ''
                                     @ show_nat status_code @ '', '' @ text))))"

text \<open>One \<open>client.post\<close> of the notifier; a transport error raises.\<close>

definition client_post :: "world \<Rightarrow> string \<Rightarrow> payload \<Rightarrow> nat \<Rightarrow> (nat \<times> string) prog" where
  "client_post w url p attempt =
     bind (record_call (EvaluatorPost url p)) (\<lambda>_.
       case evaluator_post w attempt of
         ConnectError m \<Rightarrow> raise (HTTPError m)
       | Response status_code text \<Rightarrow> ret (status_code, text))"

text \<open>
  The body of \<open>for attempt in range(5)\<close>. The \<open>try\<close> block yields whether it ran into
  \<open>return True\<close>; otherwise the loop sleeps and goes on. After the loop: \<open>return False\<close>.
\<close>

fun notify_loop :: "world \<Rightarrow> string \<Rightarrow> payload \<Rightarrow> nat list \<Rightarrow> bool prog" where
  "notify_loop w url p [] = ret False"
| "notify_loop w url p (attempt # rest) =
     bind (try_catch
             (bind (client_post w url p attempt) (\<lambda>(status_code, text).
              bind (print_line (''Response status code: '' @ show_nat status_code)) (\<lambda>_.
              bind (print_line (''Response text: '' @ text)) (\<lambda>_.
              if status_code = 200
              then bind (print_line (ok_mark @ '' Notified evaluation server.'')) (\<lambda>_. ret True)
              else bind (print_line (excl_mark @ ''Evaluator returned status ''
                                      @ show_nat status_code @ '': '' @ text)) (\<lambda>_. ret False)))))
             (\<lambda>e. bind (print_line (excl_mark @ ''Notify attempt '' @ show_nat (attempt + 1)
                                     @ '' failed: '' @ exc_str e)) (\<lambda>_. ret False)))
       (\<lambda>returned.
          if returned then ret True
          else bind (record_call (Sleep (2 ^ attempt))) (\<lambda>_. notify_loop w url p rest))"

definition notify_evaluator :: "world \<Rightarrow> string \<Rightarrow> payload \<Rightarrow> bool prog" where
  "notify_evaluator w evaluation_url p = notify_loop w evaluation_url p [0..<5]"

definition enable_github_pages ::
  "config \<Rightarrow> world \<Rightarrow> string \<Rightarrow> string option \<Rightarrow> string \<Rightarrow> bool prog" where
  "enable_github_pages cfg w repo_name token branch =
     (let api_url = ''https://api.github.com/repos/'' @ fmt_opt (GITHUB_USERNAME cfg) @ ''/''
                    @ repo_name @ ''/pages''
      in bind (print_line (rocket_mark @ '' Enabling GitHub Pages at '' @ api_url)) (\<lambda>_.
         bind (record_call (ApiPost api_url)) (\<lambda>_.
         case api_post w api_url of
           ConnectError m \<Rightarrow> raise (HTTPError m)
         | Response status_code text \<Rightarrow>
             if status_code \<in> set [201, 204, 409]
             then bind (print_line (ok_mark @ '' GitHub Pages enabled or already active.''))
                    (\<lambda>_. ret True)
             else bind (print_line (cross_mark @ '' Failed to enable GitHub Pages: ''
                                     @ show_nat status_code @ '' '' @ text))
                    (\<lambda>_. ret False))))"

definition create_github_repo ::
  "config \<Rightarrow> world \<Rightarrow> string \<Rightarrow> string option \<Rightarrow> string \<Rightarrow> string prog" where
  "create_github_repo cfg w repo_name token description =
     (let api_url = ''https://api.github.com/user/repos''
      in bind (record_call (ApiPost api_url)) (\<lambda>_.
         case api_post w api_url of
           ConnectError m \<Rightarrow> raise (HTTPError m)
         | Response status_code text \<Rightarrow>
             if status_code \<in> set [201, 422]
             then bind (print_line (ok_mark @ '' Repo creation response: '' @ show_nat status_code))
                    (\<lambda>_. ret (''https://github.com/'' @ fmt_opt (GITHUB_USERNAME cfg) @ ''/''
                               @ repo_name))
             else raise (Exception (''Failed to create repo: '' @ text))))"

definition push_to_github :: "world \<Rightarrow> string \<Rightarrow> string option \<Rightarrow> string prog" where
  "push_to_github w repo_url gh_token =
     bind isdir_dotgit (\<lambda>has_git.
     bind (if \<not> has_git
           then subprocess_run w GitInit [''git'', ''init''] git_init
           else ret ()) (\<lambda>_.
     bind (subprocess_run w GitConfig
             [''git'', ''config'', ''user.email'', ''llm-bot@aiexample.com''] git_config) (\<lambda>_.
     bind (subprocess_run w GitConfig
             [''git'', ''config'', ''user.name'', ''llm-bot''] git_config) (\<lambda>_.
     bind (subprocess_run w GitAdd [''git'', ''add'', ''.''] git_add_all) (\<lambda>_.
     bind (git_status w) (\<lambda>status.
     bind (if status \<noteq> []
           then subprocess_run w GitCommit
                  [''git'', ''commit'', ''-m'', ''Automated commit''] (git_commit w)
           else print_line (info_mark @ '' No changes to commit; skipping git commit.'')) (\<lambda>_.
     let repo_url_with_token = with_token gh_token repo_url in
     bind (try_catch_cpe
             (subprocess_run w GitRemoteSetUrl
                [''git'', ''remote'', ''set-url'', ''origin'', repo_url_with_token]
                (git_remote_set_url repo_url_with_token))
             (subprocess_run w GitRemoteAdd
                [''git'', ''remote'', ''add'', ''origin'', repo_url_with_token]
                (git_remote_add repo_url_with_token))) (\<lambda>_.
     bind (subprocess_run w GitBranch [''git'', ''branch'', ''-M'', ''main'']
             (git_branch_move ''main'')) (\<lambda>_.
     bind (subprocess_run w GitPush
             [''git'', ''push'', ''-u'', ''origin'', ''main'', ''--force''] git_push) (\<lambda>_.
     git_rev_parse_head w))))))))))"

definition generate_readme :: "string \<Rightarrow> string list \<Rightarrow> string \<Rightarrow> string" where
  "generate_readme brief checks task_id =
     ''# '' @ task_id @ nl @ nl
     @ ''## Overview'' @ nl
     @ ''This project is a single-page app generated for the brief:'' @ nl @ nl
     @ ''> '' @ brief @ nl @ nl
     @ ''## Checks Implemented'' @ nl
     @ bullet_list checks @ nl @ nl
     @ ''## Usage'' @ nl
     @ ''Open '' @ [CHR 0x60] @ ''index.html'' @ [CHR 0x60]
     @ '' in your browser. All required logic, CSS and JS are included in this file.'' @ nl @ nl
     @ ''## License'' @ nl
     @ ''MIT'' @ nl"

definition generate_mit_license :: "world \<Rightarrow> string \<Rightarrow> string" where
  "generate_mit_license w author =
     ''MIT License'' @ nl
     @ nl
     @ ''Copyright (c) '' @ show_nat (year w) @ '' '' @ author @ nl
     @ nl
     @ ''Permission is hereby granted, free of charge, to any person obtaining a copy'' @ nl
     @ ''of this software and associated documentation files (the '' @ [CHR 0x22] @ ''Software'' @ [CHR 0x22] @ ''), to deal'' @ nl
     @ ''in the Software without restriction, including without limitation the rights'' @ nl
     @ ''to use, copy, modify, merge, publish, distribute, sublicense, and/or sell'' @ nl
     @ ''copies of the Software, and to permit persons to whom the Software is'' @ nl
     @ ''furnished to do so, subject to the following conditions:'' @ nl
     @ nl
     @ ''The above copyright notice and this permission notice shall be included in'' @ nl
     @ ''all copies or substantial portions of the Software.'' @ nl
     @ nl
     @ ''THE SOFTWARE IS PROVIDED '' @ [CHR 0x22] @ ''AS IS'' @ [CHR 0x22] @ '', WITHOUT WARRANTY OF ANY KIND, EXPRESS OR'' @ nl
     @ ''IMPLIED, INCLUDING BUT NOT LIMITED TO THE WARRANTIES OF MERCHANTABILITY,'' @ nl
     @ ''FITNESS FOR A PARTICULAR PURPOSE AND NONINFRINGEMENT. IN NO EVENT SHALL THE'' @ nl
     @ ''AUTHORS OR COPYRIGHT HOLDERS BE LIABLE FOR ANY CLAIM, DAMAGES OR OTHER'' @ nl
     @ ''LIABILITY, WHETHER IN AN ACTION OF CONTRACT, TORT OR OTHERWISE, ARISING FROM,'' @ nl
     @ ''OUT OF OR IN CONNECTION WITH THE SOFTWARE OR THE USE OR OTHER DEALINGS IN THE'' @ nl
     @ ''SOFTWARE.'' @ nl"

text \<open>
  \<open>call_aipipe\<close>: one POST; \<open>raise_for_status\<close> raises on every status outside 200..299,
  and \<open>response.json()\<close> may raise on a body that is not JSON.
\<close>

definition call_aipipe :: "world \<Rightarrow> string \<Rightarrow> chat_response prog" where
  "call_aipipe w prompt =
     bind (record_call (ChatPost prompt)) (\<lambda>_.
       case chat_post w prompt of
         ConnectError m \<Rightarrow> raise (HTTPError m)
       | Response status_code text \<Rightarrow>
           if 200 \<le> status_code \<and> status_code < 300
           then (case chat_json w text of Inl e \<Rightarrow> raise e | Inr j \<Rightarrow> ret j)
           else raise (HTTPError (status_error w status_code)))"

text \<open>\<open>response["choices"][0]["message"]["content"]\<close>\<close>

definition first_choice_content :: "chat_response \<Rightarrow> string prog" where
  "first_choice_content response =
     (case choices response of
        None \<Rightarrow> raise (KeyError ''choices'')
      | Some [] \<Rightarrow> raise IndexError
      | Some (None # _) \<Rightarrow> raise (KeyError ''message'')
      | Some (Some content # _) \<Rightarrow> ret content)"

section \<open>src/main.py: the background pipeline\<close>

text \<open>The round-1 prompt (the f-strings of \<open>process_task_background\<close>).\<close>

definition build_prompt :: "task_request \<Rightarrow> string" where
  "build_prompt task_data =
     ''You are an expert frontend developer. '' @ nl
     @ ''    Given these requirements:'' @ nl @ nl @ rq_brief task_data @ nl @ nl
     @ ''The following checks will be performed by the evaluator: '' @ nl
     @ ''    '' @ bullet_list (rq_checks task_data) @ nl @ nl
     @ ''You may be given file attachments, refer to them by the names below: ''
     @ py_str_list (map att_name (rq_attachments task_data)) @ nl @ nl
     @ ''Please output a single complete HTML file with embedded CSS and JS as required. '' @ nl
     @ ''    The HTML output must pass all checks. Start your output directly with <!DOCTYPE html> (no code fences).''"

text \<open>The round-2 prompt.\<close>

definition revision_prompt :: "string \<Rightarrow> string \<Rightarrow> string list \<Rightarrow> string" where
  "revision_prompt existing_code new_brief checks =
     ''You are updating a previously deployed static website. ''
     @ ''Below is the current code for the website (index.html):'' @ nl @ nl
     @ ''----- OLD CODE START -----'' @ nl
     @ existing_code @ nl
     @ ''----- OLD CODE END -----'' @ nl @ nl
     @ ''Your new instructions are:'' @ nl
     @ new_brief @ nl @ nl
     @ ''You must update the code to implement these new requirements ''
     @ ''while preserving all existing original features unless a change is requested. ''
     @ ''The following code checks will be used to automatically test your solution:'' @ nl
     @ bullet_list checks @ nl @ nl
     @ ''Return ONLY the complete updated HTML file, starting with <!DOCTYPE html>.''"

text \<open>
  The branch \<open>if round_number == 2\<close>, in two parts: the body of the
  \<open>with tempfile.TemporaryDirectory()\<close> block, and the \<open>try\<close> around everything.
  The local \<open>pages_url\<close> is assigned only when pages were enabled, so it is an option
  and the payload reads it.
\<close>

definition revision_workspace ::
  "config \<Rightarrow> world \<Rightarrow> task_request \<Rightarrow> string \<Rightarrow> unit prog" where
  "revision_workspace cfg w task_data revised_html =
     (let token = GITHUB_TOKEN cfg;
          repo_name = rq_task task_data;
          username = GITHUB_USERNAME cfg
      in
      bind (clone_repo cfg w repo_name token username) (\<lambda>_.
      let filename = tempdir w @ ''/index.html'' in
      bind (write_file ''index.html'' revised_html) (\<lambda>_.
      bind (print_line (ok_mark @ '' Revised index.html saved to '' @ filename)) (\<lambda>_.
      bind (push_to_github w
              (''https://github.com/'' @ fmt_opt username @ ''/'' @ repo_name) token)
        (\<lambda>commit_sha.
      bind (print_line (ok_mark @ '' Revision pushed. Commit SHA: '' @ commit_sha)) (\<lambda>_.
      bind (enable_github_pages cfg w repo_name token ''main'') (\<lambda>enabled.
      bind (if enabled
            then (let pages_url = ''https://'' @ fmt_opt username @ ''.github.io/''
                                  @ repo_name @ ''/''
                  in bind (print_line (party_mark
                             @ '' Your revised app should soon be live at '' @ pages_url))
                       (\<lambda>_. ret (Some pages_url)))
            else bind (print_line (excl_mark
                         @ ''Caution: Pages not enabled, check error above.''))
                   (\<lambda>_. ret None)) (\<lambda>pages_url.
      bind (read_local ''pages_url'' pages_url) (\<lambda>pages_url_value.
      let payload = \<lparr>p_email = rq_email task_data, p_task = repo_name,
                     p_round = rq_round task_data, p_nonce = rq_nonce task_data,
                     p_repo_url = ''https://github.com/'' @ fmt_opt username @ ''/''
                                  @ repo_name,
                     p_commit_sha = commit_sha, p_pages_url = pages_url_value\<rparr> in
      bind (print_line (package_mark @ '' Notifying evaluator with payload:'')) (\<lambda>_.
      bind (print_line (payload_repr payload)) (\<lambda>_.
      bind (print_line (envelope_mark @ '' Sending to: '' @ rq_evaluation_url task_data))
        (\<lambda>_.
      bind (notify_evaluator w (rq_evaluation_url task_data) payload) (\<lambda>success.
      print_line (if success
                  then target_mark @ '' Evaluation API notified successfully!''
                  else cross_mark @ '' Failed to notify evaluator after retries.'')
      )))))))))))))"

definition revision_flow :: "config \<Rightarrow> world \<Rightarrow> task_request \<Rightarrow> unit prog" where
  "revision_flow cfg w task_data =
     (let token = GITHUB_TOKEN cfg;
          repo_name = rq_task task_data;
          username = GITHUB_USERNAME cfg
      in
      bind (print_line (repeat_mark @ '' Detected Round 2 (Revision) request!'')) (\<lambda>_.
      try_catch
        (bind (fetch_github_file cfg w repo_name ''index.html'' token ''main'' username)
           (\<lambda>existing_code.
         bind (print_line (ok_mark @ '' Existing index.html fetched from GitHub repo.'')) (\<lambda>_.
         let prompt = revision_prompt existing_code (rq_brief task_data) (rq_checks task_data) in
         bind (print_line (memo_mark @ '' Revision prompt created, sending to LLM...'')) (\<lambda>_.
         bind (call_aipipe w prompt) (\<lambda>revision_response.
         bind (first_choice_content revision_response) (\<lambda>revised_html.
         bind (print_line (ok_mark @ '' Received revised HTML from LLM.'')) (\<lambda>_.
         with_tempdir (revision_workspace cfg w task_data revised_html))))))))
        (\<lambda>e. print_line (cross_mark @ '' Round 2 revision error: '' @ exc_str e))))"

text \<open>
  The \<open>else\<close> branch, in three parts: the inner \<open>try\<close> (push, pages, notification),
  the body of the \<open>with\<close> block, and the whole branch. \<open>call_aipipe\<close> is awaited
  before the outer \<open>try\<close> opens. The inner handler ends in \<open>return\<close>: the blocks
  yield whether the function has returned, and what follows them runs only when it has
  not.
\<close>

definition build_publish ::
  "config \<Rightarrow> world \<Rightarrow> task_request \<Rightarrow> string \<Rightarrow> bool prog" where
  "build_publish cfg w task_data repo_url =
     (let repo_name = rq_task task_data;
          token = GITHUB_TOKEN cfg
      in
      try_catch
        (bind (push_to_github w repo_url token) (\<lambda>commit_sha.
         bind (print_line (ok_mark @ '' Files pushed to repo. Commit SHA: ''
                 @ commit_sha)) (\<lambda>_.
         bind (enable_github_pages cfg w repo_name token ''main'') (\<lambda>enabled.
         bind (if enabled
               then (let pages_url = ''https://'' @ fmt_opt (GITHUB_USERNAME cfg)
                                     @ ''.github.io/'' @ repo_name @ ''/''
                     in bind (print_line (party_mark
                                @ '' Your app should soon be live at '' @ pages_url))
                          (\<lambda>_. ret (Some pages_url)))
               else bind (print_line (excl_mark
                            @ ''Caution: Pages not enabled, check error above.''))
                      (\<lambda>_. ret None)) (\<lambda>pages_url.
         bind (read_local ''pages_url'' pages_url) (\<lambda>pages_url_value.
         let payload = \<lparr>p_email = rq_email task_data, p_task = repo_name,
                        p_round = rq_round task_data,
                        p_nonce = rq_nonce task_data,
                        p_repo_url = repo_url, p_commit_sha = commit_sha,
                        p_pages_url = pages_url_value\<rparr> in
         bind (print_line (package_mark @ '' Notifying evaluator with payload:''))
           (\<lambda>_.
         bind (print_line (payload_repr payload)) (\<lambda>_.
         bind (print_line (envelope_mark @ '' Sending to: ''
                 @ rq_evaluation_url task_data)) (\<lambda>_.
         bind (notify_evaluator w (rq_evaluation_url task_data) payload)
           (\<lambda>success.
         bind (print_line
                 (if success
                  then target_mark @ '' Evaluation API notified successfully!''
                  else cross_mark @ '' Failed to notify evaluator after retries.''))
           (\<lambda>_. ret False)))))))))))
        (\<lambda>ex. bind (print_line (cross_mark @ '' Git push error: '' @ exc_str ex))
                (\<lambda>_. ret True)))"

definition build_workspace ::
  "config \<Rightarrow> world \<Rightarrow> task_request \<Rightarrow> string \<Rightarrow> bool prog" where
  "build_workspace cfg w task_data llm_message =
     (let brief = rq_brief task_data;
          checks = rq_checks task_data;
          filename = tempdir w @ ''/index.html''
      in
      bind (write_file ''index.html'' llm_message) (\<lambda>_.
      bind (print_line (ok_mark @ '' index.html saved to '' @ filename)) (\<lambda>_.
      let readme = generate_readme brief checks (rq_task task_data);
          license_text = generate_mit_license w
            (case STUDENT_EMAIL cfg of
               None \<Rightarrow> ''anonymous''
             | Some a \<Rightarrow> if a = [] then ''anonymous'' else a)
      in
      bind (write_file ''README.md'' readme) (\<lambda>_.
      bind (print_line (ok_mark @ '' README.md saved'')) (\<lambda>_.
      bind (write_file ''LICENSE'' license_text) (\<lambda>_.
      bind (print_line (ok_mark @ '' LICENSE saved'')) (\<lambda>_.
      let repo_name = rq_task task_data;
          token = GITHUB_TOKEN cfg;
          description = brief
      in
      bind (print_line (rocket_mark @ '' Creating GitHub repo: '' @ repo_name)) (\<lambda>_.
      bind (create_github_repo cfg w repo_name token description) (\<lambda>repo_url.
      bind (print_line (ok_mark @ '' GitHub repo created at: '' @ repo_url)) (\<lambda>_.
      bind (print_line (rocket_mark @ '' Pushing files to GitHub repo...'')) (\<lambda>_.
      bind (build_publish cfg w task_data repo_url) (\<lambda>returned.
      if returned then ret True
      else bind (print_line (party_mark @ '' SUCCESS: App deployed at '' @ repo_url))
             (\<lambda>_. ret False)))))))))))))"

definition build_flow :: "config \<Rightarrow> world \<Rightarrow> task_request \<Rightarrow> unit prog" where
  "build_flow cfg w task_data =
     bind (print_line (new_mark @ '' Detected Round 1 (Initial build) request!'')) (\<lambda>_.
     bind (print_line (cycle_mark @ '' Processing task for: '' @ rq_task task_data)) (\<lambda>_.
     let prompt = build_prompt task_data in
     bind (print_line (lens_mark
             @ '' Calling AI Pipe with full prompt to generate app code...'')) (\<lambda>_.
     bind (call_aipipe w prompt) (\<lambda>response.
     try_catch
       (bind (first_choice_content response) (\<lambda>llm_message.
        bind (with_tempdir (build_workspace cfg w task_data llm_message)) (\<lambda>returned.
        if returned then ret ()
        else print_line (memo_mark @ '' LLM output (trimmed): '' @ take 400 llm_message @ '' ''
                         @ (if length llm_message > 400 then ''...'' else [])))))
       (\<lambda>e. print_line (''LLM response parse error: '' @ exc_str e @ '' ''
                         @ resp_repr response))))))"

definition process_task_background :: "config \<Rightarrow> world \<Rightarrow> task_request \<Rightarrow> unit prog" where
  "process_task_background cfg w task_data =
     (if rq_round task_data = 2 then revision_flow cfg w task_data
      else build_flow cfg w task_data)"

section \<open>Observations on a run\<close>

text \<open>An evaluator reply counts as success only when it is a response with status 200.\<close>

definition succeeds :: "http_reply \<Rightarrow> bool" where
  "succeeds r = (case r of ConnectError m \<Rightarrow> False | Response status_code text \<Rightarrow> status_code = 200)"

definition is_post :: "call \<Rightarrow> bool" where
  "is_post c = (case c of EvaluatorPost u p \<Rightarrow> True | _ \<Rightarrow> False)"

definition attempts :: "call list \<Rightarrow> nat" where
  "attempts tr = length (filter is_post tr)"

text \<open>For each POST to the evaluator, in order, the time slept since the POST before it.\<close>

fun delays_acc :: "nat \<Rightarrow> call list \<Rightarrow> nat list" where
  "delays_acc d [] = []"
| "delays_acc d (Sleep n # cs) = delays_acc (d + n) cs"
| "delays_acc d (EvaluatorPost u p # cs) = d # delays_acc 0 cs"
| "delays_acc d (c # cs) = delays_acc d cs"

definition delays_before :: "call list \<Rightarrow> nat list" where
  "delays_before tr = delays_acc 0 tr"

text \<open>The time slept after the last POST to the evaluator, and the time slept in all.\<close>

fun trailing_acc :: "nat \<Rightarrow> call list \<Rightarrow> nat" where
  "trailing_acc d [] = d"
| "trailing_acc d (Sleep n # cs) = trailing_acc (d + n) cs"
| "trailing_acc d (EvaluatorPost u p # cs) = trailing_acc 0 cs"
| "trailing_acc d (c # cs) = trailing_acc d cs"

definition trailing_delay :: "call list \<Rightarrow> nat" where
  "trailing_delay tr = trailing_acc 0 tr"

definition total_delay :: "call list \<Rightarrow> nat" where
  "total_delay tr = sum_list (map (\<lambda>c. case c of Sleep n \<Rightarrow> n | _ \<Rightarrow> 0) tr)"

text \<open>What the notifier returns, prints and does, started on the initial machine.\<close>

definition notify_result :: "world \<Rightarrow> string \<Rightarrow> payload \<Rightarrow> nat list \<Rightarrow> py_exception + bool" where
  "notify_result w url p ks = fst (notify_loop w url p ks machine0)"

definition notify_out :: "world \<Rightarrow> string \<Rightarrow> payload \<Rightarrow> nat list \<Rightarrow> string list" where
  "notify_out w url p ks = out (snd (notify_loop w url p ks machine0))"

definition notify_calls :: "world \<Rightarrow> string \<Rightarrow> payload \<Rightarrow> nat list \<Rightarrow> call list" where
  "notify_calls w url p ks = calls (snd (notify_loop w url p ks machine0))"

text \<open>
  A computation is frame-local when it never reads the machine: it returns the same value
  from every state and only appends to the printed lines and to the calls.
\<close>

definition frame_local :: "'a prog \<Rightarrow> bool" where
  "frame_local m = (\<exists>r os cs. \<forall>s. m s = (r, s\<lparr>out := out s @ os, calls := calls s @ cs\<rparr>))"

section \<open>Sample inputs\<close>

definition demo_config :: config where
  "demo_config = \<lparr>STUDENT_SECRET = Some ''s3cret'', STUDENT_EMAIL = Some ''student@example.com'',
     GITHUB_TOKEN = Some ''ghp_TOKEN'', GITHUB_USERNAME = Some ''octo''\<rparr>"

definition demo_task :: task_request where
  "demo_task = \<lparr>rq_email = ''student@example.com'', rq_secret = ''s3cret'',
     rq_task = ''counter-app'', rq_round = 1, rq_nonce = ''n-1'',
     rq_brief = ''Build a counter app'', rq_checks = [''counter increments on click''],
     rq_evaluation_url = ''https://eval.example.com/notify'',
     rq_attachments = [\<lparr>att_name = ''logo.png'', att_url = ''data:image/png;base64,AAAA''\<rparr>]\<rparr>"

text \<open>A world in which every collaborator answers with success.\<close>

definition demo_world :: world where
  "demo_world = \<lparr>
     http_get = (\<lambda>u. Response 200 ''{}''),
     decode_content = (\<lambda>t. Inr ''<!DOCTYPE html><p>old</p>''),
     api_post = (\<lambda>u. Response 201 ''{}''),
     chat_post = (\<lambda>p. Response 200 ''{}''),
     status_error = (\<lambda>n. ''Server error''),
     chat_json = (\<lambda>t. Inr \<lparr>resp_repr = ''{}'',
                              choices = Some [Some ''<!DOCTYPE html><p>new</p>'']\<rparr>),
     evaluator_post = (\<lambda>k. Response 200 ''ok''),
     git_fault = (\<lambda>op. False),
     remote_commits = [\<lparr>c_sha = ''a1'',
                         c_tree = [(''index.html'', ''<!DOCTYPE html><p>old</p>'')]\<rparr>],
     commit_hash = (\<lambda>n. ''c'' @ show_nat n),
     tempdir = ''/tmp/tmpx'',
     year = 2025\<rparr>"

definition demo_payload :: payload where
  "demo_payload = \<lparr>p_email = ''student@example.com'', p_task = ''counter-app'', p_round = 1,
     p_nonce = ''n-1'', p_repo_url = ''https://github.com/octo/counter-app'',
     p_commit_sha = ''c0'', p_pages_url = ''https://octo.github.io/counter-app/''\<rparr>"

text \<open>The evaluator is down; the evaluator answers 200 to the third POST only.\<close>

definition world_evaluator_down :: world where
  "world_evaluator_down = demo_world\<lparr>evaluator_post := (\<lambda>k. Response 500 ''down'')\<rparr>"

definition world_evaluator_third :: world where
  "world_evaluator_third =
     demo_world\<lparr>evaluator_post := (\<lambda>k. if k = 2 then Response 200 ''ok'' else ConnectError ''timeout'')\<rparr>"

text \<open>
  Every computation of the pipeline reads and writes the temporary directory only, and
  appends to the printed lines and to the calls. For such a computation, what it returns,
  prints, calls and leaves in the directory are functions of the directory it starts on.
\<close>

definition tmp_local :: "'a prog \<Rightarrow> bool" where
  "tmp_local m =
     (\<exists>R Os Cs T. \<forall>s. m s = (R (tmp s),
        s\<lparr>out := out s @ Os (tmp s), calls := calls s @ Cs (tmp s), tmp := T (tmp s)\<rparr>))"

definition on_folder :: "folder \<Rightarrow> machine" where
  "on_folder f = \<lparr>out = [], calls = [], tmp = f\<rparr>"

definition res_on :: "'a prog \<Rightarrow> folder \<Rightarrow> py_exception + 'a" where
  "res_on m f = fst (m (on_folder f))"

definition out_on :: "'a prog \<Rightarrow> folder \<Rightarrow> string list" where
  "out_on m f = out (snd (m (on_folder f)))"

definition calls_on :: "'a prog \<Rightarrow> folder \<Rightarrow> call list" where
  "calls_on m f = calls (snd (m (on_folder f)))"

definition tmp_on :: "'a prog \<Rightarrow> folder \<Rightarrow> folder" where
  "tmp_on m f = tmp (snd (m (on_folder f)))"

definition is_fetch :: "call \<Rightarrow> bool" where
  "is_fetch c = (case c of HttpGet u \<Rightarrow> True | _ \<Rightarrow> False)"

definition is_generate :: "call \<Rightarrow> bool" where
  "is_generate c = (case c of ChatPost p \<Rightarrow> True | _ \<Rightarrow> False)"

definition is_subprocess :: "call \<Rightarrow> bool" where
  "is_subprocess c = (case c of Subprocess op rc \<Rightarrow> True | _ \<Rightarrow> False)"

definition is_push :: "call \<Rightarrow> bool" where
  "is_push c = (case c of Subprocess op rc \<Rightarrow> op = GitPush | _ \<Rightarrow> False)"

text \<open>The exit status of a git command, and what \<open>git rev-parse HEAD\<close> prints.\<close>

definition exit_code :: "world \<Rightarrow> git_op \<Rightarrow> (folder \<Rightarrow> nat \<times> folder) \<Rightarrow> folder \<Rightarrow> nat" where
  "exit_code w op sem t = (if git_fault w op then 128 else fst (sem t))"

definition head_sha :: "world \<Rightarrow> folder \<Rightarrow> string option" where
  "head_sha w t =
     (if git_fault w GitRevParse then None
      else (case dotgit t of
              None \<Rightarrow> None
            | Some r \<Rightarrow> (case commits r of [] \<Rightarrow> None | c # _ \<Rightarrow> Some (c_sha c))))"

text \<open>The URLs the pipeline talks to.\<close>

definition prior_document_url :: "config \<Rightarrow> task_request \<Rightarrow> string" where
  "prior_document_url cfg task_data =
     ''https://api.github.com/repos/'' @ fmt_opt (GITHUB_USERNAME cfg) @ ''/'' @ rq_task task_data
     @ ''/contents/'' @ ''index.html'' @ ''?ref='' @ ''main''"

definition pages_api_url :: "config \<Rightarrow> string \<Rightarrow> string" where
  "pages_api_url cfg repo_name =
     ''https://api.github.com/repos/'' @ fmt_opt (GITHUB_USERNAME cfg) @ ''/'' @ repo_name @ ''/pages''"

definition create_api_url :: string where
  "create_api_url = ''https://api.github.com/user/repos''"

text \<open>A computation that stays in the temporary directory and makes only calls of one kind.\<close>

definition only_calls :: "(call \<Rightarrow> bool) \<Rightarrow> 'a prog \<Rightarrow> bool" where
  "only_calls P m = (tmp_local m \<and> (\<forall>t. list_all P (calls_on m t)))"

text \<open>The sample task in rounds 2 and 3.\<close>

definition demo_task_round2 :: task_request where
  "demo_task_round2 = demo_task\<lparr>rq_round := 2\<rparr>"

definition demo_task_round3 :: task_request where
  "demo_task_round3 = demo_task\<lparr>rq_round := 3\<rparr>"

text \<open>
  Worlds with one failure each: the generation provider answers 500; pages activation is
  refused with 403 after the repository was created; \<open>git clone\<close> fails; the repository
  exists already (422); repository creation is refused (403).
\<close>

definition world_generation_down :: world where
  "world_generation_down = demo_world\<lparr>chat_post := (\<lambda>p. Response 500 ''Internal Server Error'')\<rparr>"

definition world_pages_forbidden :: world where
  "world_pages_forbidden =
     demo_world\<lparr>api_post := (\<lambda>u. if u = create_api_url then Response 201 ''{}''
                                  else Response 403 ''Forbidden'')\<rparr>"


definition world_repo_exists :: world where
  "world_repo_exists = demo_world\<lparr>api_post := (\<lambda>u. Response 422 ''name already exists'')\<rparr>"

definition world_create_forbidden :: world where
  "world_create_forbidden = demo_world\<lparr>api_post := (\<lambda>u. Response 403 ''Forbidden'')\<rparr>"

text \<open>
  The steps of \<open>push_to_github\<close>, grouped as its comments group them: initialise when
  there is no repository, set the user, stage; commit when there are changes; point
  \<open>origin\<close> at the URL; rename the branch, push and read the commit identifier.
\<close>

definition git_stage :: "world \<Rightarrow> unit prog" where
  "git_stage w =
     bind isdir_dotgit (\<lambda>has_git.
     bind (if \<not> has_git
           then subprocess_run w GitInit [''git'', ''init''] git_init
           else ret ()) (\<lambda>_.
     bind (subprocess_run w GitConfig
             [''git'', ''config'', ''user.email'', ''llm-bot@aiexample.com''] git_config) (\<lambda>_.
     bind (subprocess_run w GitConfig
             [''git'', ''config'', ''user.name'', ''llm-bot''] git_config) (\<lambda>_.
     subprocess_run w GitAdd [''git'', ''add'', ''.''] git_add_all))))"

definition git_commit_changes :: "world \<Rightarrow> unit prog" where
  "git_commit_changes w =
     bind (git_status w) (\<lambda>status.
     if status \<noteq> []
     then subprocess_run w GitCommit
            [''git'', ''commit'', ''-m'', ''Automated commit''] (git_commit w)
     else print_line (info_mark @ '' No changes to commit; skipping git commit.''))"

definition git_point_origin :: "world \<Rightarrow> string \<Rightarrow> unit prog" where
  "git_point_origin w repo_url_with_token =
     try_catch_cpe
       (subprocess_run w GitRemoteSetUrl
          [''git'', ''remote'', ''set-url'', ''origin'', repo_url_with_token]
          (git_remote_set_url repo_url_with_token))
       (subprocess_run w GitRemoteAdd
          [''git'', ''remote'', ''add'', ''origin'', repo_url_with_token]
          (git_remote_add repo_url_with_token))"

definition git_upload :: "world \<Rightarrow> string prog" where
  "git_upload w =
     bind (subprocess_run w GitBranch [''git'', ''branch'', ''-M'', ''main'']
             (git_branch_move ''main'')) (\<lambda>_.
     bind (subprocess_run w GitPush
             [''git'', ''push'', ''-u'', ''origin'', ''main'', ''--force''] git_push) (\<lambda>_.
     git_rev_parse_head w))"

text \<open>
  The commits of the repository in a directory; the directory after \<open>git add .\<close>; and
  the output of \<open>git status --porcelain\<close> after \<open>git add .\<close>, empty when the command
  fails.
\<close>

definition repo_commits :: "folder \<Rightarrow> commit list" where
  "repo_commits f = (case dotgit f of None \<Rightarrow> [] | Some r \<Rightarrow> commits r)"

definition staged_folder :: "folder \<Rightarrow> folder" where
  "staged_folder f =
     f\<lparr>dotgit := Some ((case dotgit f of
                          None \<Rightarrow> \<lparr>staged = [], commits = [], origin = None, cur_branch = ''master''\<rparr>
                        | Some r \<Rightarrow> r)\<lparr>staged := files f\<rparr>)\<rparr>"

definition staged_changes :: "world \<Rightarrow> folder \<Rightarrow> string list" where
  "staged_changes w f =
     (if git_fault w GitStatus then []
      else changed (case repo_commits f of [] \<Rightarrow> [] | c # _ \<Rightarrow> c_tree c) (files f))"

definition is_commit :: "call \<Rightarrow> bool" where
  "is_commit c = (case c of Subprocess op rc \<Rightarrow> op = GitCommit | _ \<Rightarrow> False)"

text \<open>A workspace with one file and no repository, and the machine that starts on it.\<close>

definition demo_workspace :: machine where
  "demo_workspace = on_folder \<lparr>files = [(''index.html'', ''<!DOCTYPE html><p>new</p>'')], dotgit = None\<rparr>"

text \<open>The tree that \<open>git clone\<close> checks out: the tree of the newest commit of the remote.\<close>

definition cloned_tree :: "world \<Rightarrow> tree" where
  "cloned_tree w = (case remote_commits w of [] \<Rightarrow> [] | c # _ \<Rightarrow> c_tree c)"







section \<open>The notifier\<close>

lemma frame_local_ret: "frame_local (ret x)"
  unfolding frame_local_def ret_def
  by (rule exI[of _ "Inr x"], rule exI[of _ "[]"], rule exI[of _ "[]"]) simp

lemma frame_local_raise: "frame_local (raise e)"
  unfolding frame_local_def raise_def
  by (rule exI[of _ "Inl e"], rule exI[of _ "[]"], rule exI[of _ "[]"]) simp

lemma frame_local_print: "frame_local (print_line l)"
  unfolding frame_local_def print_line_def
  by (rule exI[of _ "Inr ()"], rule exI[of _ "[l]"], rule exI[of _ "[]"]) simp

lemma frame_local_call: "frame_local (record_call c)"
  unfolding frame_local_def record_call_def
  by (rule exI[of _ "Inr ()"], rule exI[of _ "[]"], rule exI[of _ "[c]"]) simp

lemma frame_local_bind:
  assumes m: "frame_local m" and f: "\<And>x. frame_local (f x)"
  shows "frame_local (bind m f)"
proof -
  from m obtain r os cs where ms: "\<And>s. m s = (r, s\<lparr>out := out s @ os, calls := calls s @ cs\<rparr>)"
    unfolding frame_local_def by blast
  show ?thesis
  proof (cases r)
    case (Inl e)
    have "\<forall>s. bind m f s = (Inl e, s\<lparr>out := out s @ os, calls := calls s @ cs\<rparr>)"
      by (simp add: bind_def ms Inl)
    then show ?thesis unfolding frame_local_def by blast
  next
    case (Inr x)
    from f[of x] obtain r' os' cs' where
      fs: "\<And>s. f x s = (r', s\<lparr>out := out s @ os', calls := calls s @ cs'\<rparr>)"
      unfolding frame_local_def by blast
    have "\<forall>s. bind m f s = (r', s\<lparr>out := out s @ (os @ os'), calls := calls s @ (cs @ cs')\<rparr>)"
      by (simp add: bind_def ms Inr fs)
    then show ?thesis unfolding frame_local_def by blast
  qed
qed

lemma frame_local_try:
  assumes m: "frame_local m" and h: "\<And>e. frame_local (h e)"
  shows "frame_local (try_catch m h)"
proof -
  from m obtain r os cs where ms: "\<And>s. m s = (r, s\<lparr>out := out s @ os, calls := calls s @ cs\<rparr>)"
    unfolding frame_local_def by blast
  show ?thesis
  proof (cases r)
    case (Inr x)
    have "\<forall>s. try_catch m h s = (Inr x, s\<lparr>out := out s @ os, calls := calls s @ cs\<rparr>)"
      by (simp add: try_catch_def ms Inr)
    then show ?thesis unfolding frame_local_def by blast
  next
    case (Inl e)
    from h[of e] obtain r' os' cs' where
      fs: "\<And>s. h e s = (r', s\<lparr>out := out s @ os', calls := calls s @ cs'\<rparr>)"
      unfolding frame_local_def by blast
    have "\<forall>s. try_catch m h s = (r', s\<lparr>out := out s @ (os @ os'), calls := calls s @ (cs @ cs')\<rparr>)"
      by (simp add: try_catch_def ms Inl fs)
    then show ?thesis unfolding frame_local_def by blast
  qed
qed

lemma frame_local_if: "frame_local a \<Longrightarrow> frame_local b \<Longrightarrow> frame_local (if c then a else b)"
  by simp

lemma frame_local_client_post: "frame_local (client_post w url p k)"
  unfolding client_post_def
  by (cases "evaluator_post w k")
     (simp_all add: frame_local_bind frame_local_call frame_local_raise frame_local_ret)

lemma frame_local_notify_loop: "frame_local (notify_loop w url p ks)"
proof (induction ks)
  case Nil
  show ?case by (simp add: frame_local_ret)
next
  case (Cons k ks)
  show ?case
    unfolding notify_loop.simps
    by (intro frame_local_bind frame_local_try frame_local_client_post frame_local_if
          frame_local_print frame_local_ret frame_local_call Cons.IH)
       (simp_all only: split_beta,
        intro frame_local_bind frame_local_try frame_local_client_post frame_local_if
          frame_local_print frame_local_ret frame_local_call)
qed

lemma notify_loop_frame:
  "notify_loop w url p ks s =
     (notify_result w url p ks,
      s\<lparr>out := out s @ notify_out w url p ks, calls := calls s @ notify_calls w url p ks\<rparr>)"
proof -
  from frame_local_notify_loop[of w url p ks] obtain r os cs where
    a: "\<And>s. notify_loop w url p ks s = (r, s\<lparr>out := out s @ os, calls := calls s @ cs\<rparr>)"
    unfolding frame_local_def by blast
  show ?thesis
    by (simp add: notify_result_def notify_out_def notify_calls_def a machine0_def)
qed


lemma notify_Nil:
  "notify_result w url p [] = Inr False" "notify_calls w url p [] = []"
  by (simp_all add: notify_result_def notify_calls_def ret_def machine0_def)

lemma notify_Cons_result:
  "notify_result w url p (k # ks) =
     (if succeeds (evaluator_post w k) then Inr True else notify_result w url p ks)"
  unfolding notify_result_def [of w url p "k # ks"]
  apply (subst notify_loop.simps)
  apply (cases "evaluator_post w k")
   apply (simp_all add: bind_def ret_def raise_def try_catch_def print_line_def record_call_def
      client_post_def succeeds_def notify_loop_frame)
  done

lemma notify_Cons_calls:
  "notify_calls w url p (k # ks) =
     (if succeeds (evaluator_post w k) then [EvaluatorPost url p]
      else EvaluatorPost url p # Sleep (2 ^ k) # notify_calls w url p ks)"
  unfolding notify_calls_def [of w url p "k # ks"]
  apply (subst notify_loop.simps)
  apply (cases "evaluator_post w k")
   apply (simp_all add: bind_def ret_def raise_def try_catch_def print_line_def record_call_def
      client_post_def succeeds_def notify_loop_frame machine0_def)
  done

lemma range5: "[0..<5] = [0, 1, 2, 3, 4::nat]"
  by (simp add: upt_rec)

lemma notify_evaluator_run:
  "notify_evaluator w url p s =
     (notify_result w url p [0, 1, 2, 3, 4],
      s\<lparr>out := out s @ notify_out w url p [0, 1, 2, 3, 4],
        calls := calls s @ notify_calls w url p [0, 1, 2, 3, 4]\<rparr>)"
  by (simp only: notify_evaluator_def range5 notify_loop_frame)

lemmas notify_eval = notify_Nil notify_Cons_result notify_Cons_calls

text \<open>
  Claim C3. The notifier never raises and posts at most five times. Only a response with
  status 200 counts as success; any other status and a transport error are failed attempts
  and the loop goes on. When all five attempts fail it returns false after five POSTs, and
  the time slept before the POSTs is 0, 1, 2, 4, 8. When the first success is attempt \<open>k\<close>
  it returns true after exactly \<open>k\<close> POSTs, with the first \<open>k\<close> of those delays.
\<close>

theorem notify_evaluator_bounded_retry:
  fixes w url p s
  defines "r \<equiv> fst (notify_evaluator w url p s)"
    and "tr \<equiv> drop (length (calls s)) (calls (snd (notify_evaluator w url p s)))"
  shows "calls (snd (notify_evaluator w url p s)) = calls s @ tr
    \<and> attempts tr \<le> 5
    \<and> (\<exists>b. r = Inr b)
    \<and> ((\<forall>k<5. \<not> succeeds (evaluator_post w k)) \<longrightarrow>
          r = Inr False \<and> attempts tr = 5 \<and> delays_before tr = [0, 1, 2, 4, 8])
    \<and> (\<forall>k. 1 \<le> k \<and> k \<le> 5 \<and> succeeds (evaluator_post w (k - 1))
            \<and> (\<forall>j<k - 1. \<not> succeeds (evaluator_post w j)) \<longrightarrow>
          r = Inr True \<and> attempts tr = k \<and> delays_before tr = take k [0, 1, 2, 4, 8])"
proof -
  have tr: "tr = notify_calls w url p [0, 1, 2, 3, 4]"
    by (simp add: tr_def notify_evaluator_run)
  have r: "r = notify_result w url p [0, 1, 2, 3, 4]"
    by (simp add: r_def notify_evaluator_run)
  have c1: "calls (snd (notify_evaluator w url p s)) = calls s @ tr"
    by (simp add: tr notify_evaluator_run)
  have c2: "attempts tr \<le> 5"
    by (simp add: tr notify_eval attempts_def is_post_def)
  have c3: "\<exists>b. r = Inr b"
    by (auto simp add: r notify_eval)
  have c4: "r = Inr False \<and> attempts tr = 5 \<and> delays_before tr = [0, 1, 2, 4, 8]"
    if "\<forall>k<5. \<not> succeeds (evaluator_post w k)"
  proof -
    from that have "\<not> succeeds (evaluator_post w 0)" "\<not> succeeds (evaluator_post w 1)"
      "\<not> succeeds (evaluator_post w 2)" "\<not> succeeds (evaluator_post w 3)"
      "\<not> succeeds (evaluator_post w 4)" by simp_all
    then show ?thesis
      by (simp add: r tr notify_eval attempts_def is_post_def delays_before_def)
  qed
  have c5: "r = Inr True \<and> attempts tr = k \<and> delays_before tr = take k [0, 1, 2, 4, 8]"
    if k: "1 \<le> k" "k \<le> 5" and ok: "succeeds (evaluator_post w (k - 1))"
      and before: "\<forall>j<k - 1. \<not> succeeds (evaluator_post w j)" for k
  proof -
    from k consider "k = 1" | "k = 2" | "k = 3" | "k = 4" | "k = 5" by linarith
    then show ?thesis
    proof cases
      case 1
      with ok show ?thesis
        by (simp add: r tr notify_eval attempts_def is_post_def delays_before_def)
    next
      case 2
      with before have "\<not> succeeds (evaluator_post w 0)" by simp
      with 2 ok show ?thesis
        by (simp add: r tr notify_eval attempts_def is_post_def delays_before_def)
    next
      case 3
      with before have "\<not> succeeds (evaluator_post w 0)" "\<not> succeeds (evaluator_post w 1)"
        by simp_all
      with 3 ok show ?thesis
        by (simp add: r tr notify_eval attempts_def is_post_def delays_before_def)
    next
      case 4
      with before have "\<not> succeeds (evaluator_post w 0)" "\<not> succeeds (evaluator_post w 1)"
        "\<not> succeeds (evaluator_post w 2)" by simp_all
      with 4 ok show ?thesis
        by (simp add: r tr notify_eval attempts_def is_post_def delays_before_def)
    next
      case 5
      with before have "\<not> succeeds (evaluator_post w 0)" "\<not> succeeds (evaluator_post w 1)"
        "\<not> succeeds (evaluator_post w 2)" "\<not> succeeds (evaluator_post w 3)" by simp_all
      with 5 ok show ?thesis
        by (simp add: r tr notify_eval attempts_def is_post_def delays_before_def)
    qed
  qed
  from c1 c2 c3 c4 c5 show ?thesis by blast
qed


theorem notify_evaluator_bounded_retry_witness:
  "\<not> succeeds (evaluator_post world_evaluator_down 0)
   \<and> \<not> succeeds (evaluator_post world_evaluator_down 4)
   \<and> fst (notify_evaluator world_evaluator_down ''https://eval.example.com/notify'' demo_payload machine0)
       = Inr False
   \<and> attempts (calls (snd (notify_evaluator world_evaluator_down
         ''https://eval.example.com/notify'' demo_payload machine0))) = 5
   \<and> delays_before (calls (snd (notify_evaluator world_evaluator_down
         ''https://eval.example.com/notify'' demo_payload machine0))) = [0, 1, 2, 4, 8]
   \<and> succeeds (evaluator_post world_evaluator_third 2)
   \<and> \<not> succeeds (evaluator_post world_evaluator_third 0)
   \<and> \<not> succeeds (evaluator_post world_evaluator_third 1)
   \<and> fst (notify_evaluator world_evaluator_third ''https://eval.example.com/notify'' demo_payload machine0)
       = Inr True
   \<and> attempts (calls (snd (notify_evaluator world_evaluator_third
         ''https://eval.example.com/notify'' demo_payload machine0))) = 3
   \<and> delays_before (calls (snd (notify_evaluator world_evaluator_third
         ''https://eval.example.com/notify'' demo_payload machine0))) = [0, 1, 2]"
proof -
  have down: "\<forall>k<5. \<not> succeeds (evaluator_post world_evaluator_down k)"
    by (simp add: world_evaluator_down_def succeeds_def)
  have third: "succeeds (evaluator_post world_evaluator_third 2)"
    "\<forall>j<2. \<not> succeeds (evaluator_post world_evaluator_third j)"
    by (simp_all add: world_evaluator_third_def succeeds_def)
  have m0: "calls machine0 = []"
    by (simp add: machine0_def)
  note a = notify_evaluator_bounded_retry
    [of world_evaluator_down "''https://eval.example.com/notify''" demo_payload machine0]
  note b = notify_evaluator_bounded_retry
    [of world_evaluator_third "''https://eval.example.com/notify''" demo_payload machine0]
  from a down have a': "fst (notify_evaluator world_evaluator_down ''https://eval.example.com/notify'' demo_payload machine0)
       = Inr False
   \<and> attempts (calls (snd (notify_evaluator world_evaluator_down
         ''https://eval.example.com/notify'' demo_payload machine0))) = 5
   \<and> delays_before (calls (snd (notify_evaluator world_evaluator_down
         ''https://eval.example.com/notify'' demo_payload machine0))) = [0, 1, 2, 4, 8]"
    unfolding m0 by simp
  from b have "1 \<le> (3::nat) \<and> (3::nat) \<le> 5 \<and> succeeds (evaluator_post world_evaluator_third (3 - 1))
            \<and> (\<forall>j<3 - 1. \<not> succeeds (evaluator_post world_evaluator_third j)) \<longrightarrow>
     fst (notify_evaluator world_evaluator_third ''https://eval.example.com/notify'' demo_payload machine0)
       = Inr True
   \<and> attempts (calls (snd (notify_evaluator world_evaluator_third
         ''https://eval.example.com/notify'' demo_payload machine0))) = 3
   \<and> delays_before (calls (snd (notify_evaluator world_evaluator_third
         ''https://eval.example.com/notify'' demo_payload machine0))) = take 3 [0, 1, 2, 4, 8]"
    unfolding m0 by (elim conjE allE[of _ "3::nat"]) simp
  with third have b': "fst (notify_evaluator world_evaluator_third ''https://eval.example.com/notify'' demo_payload machine0)
       = Inr True
   \<and> attempts (calls (snd (notify_evaluator world_evaluator_third
         ''https://eval.example.com/notify'' demo_payload machine0))) = 3
   \<and> delays_before (calls (snd (notify_evaluator world_evaluator_third
         ''https://eval.example.com/notify'' demo_payload machine0))) = [0, 1, 2]"
    by simp
  have "\<not> succeeds (evaluator_post world_evaluator_down 0)"
    "\<not> succeeds (evaluator_post world_evaluator_down 4)"
    "\<not> succeeds (evaluator_post world_evaluator_third 0)"
    "\<not> succeeds (evaluator_post world_evaluator_third 1)"
    using down third by simp_all
  with third a' b' show ?thesis by blast
qed

text \<open>
  Claim C10. The sleep of \<open>2 ^ k\<close> follows every failed attempt \<open>k\<close>, the fifth included:
  when all five attempts fail the notifier sleeps 1, 2, 4, 8 and 16, the last of them after
  the last POST, 31 in all, and then returns false. A successful attempt returns true at
  once: nothing is slept after the last POST.
\<close>

theorem notify_evaluator_trailing_sleep:
  fixes w url p s
  defines "r \<equiv> fst (notify_evaluator w url p s)"
    and "tr \<equiv> drop (length (calls s)) (calls (snd (notify_evaluator w url p s)))"
  shows "(\<forall>k<5. (\<forall>j\<le>k. \<not> succeeds (evaluator_post w j)) \<longrightarrow>
            2 * k + 1 < length tr \<and> tr ! (2 * k) = EvaluatorPost url p
            \<and> tr ! (2 * k + 1) = Sleep (2 ^ k))
    \<and> ((\<forall>k<5. \<not> succeeds (evaluator_post w k)) \<longrightarrow>
          r = Inr False
          \<and> tr = [EvaluatorPost url p, Sleep 1, EvaluatorPost url p, Sleep 2,
                  EvaluatorPost url p, Sleep 4, EvaluatorPost url p, Sleep 8,
                  EvaluatorPost url p, Sleep 16]
          \<and> trailing_delay tr = 16 \<and> total_delay tr = 31)
    \<and> (r = Inr True \<longrightarrow> trailing_delay tr = 0 \<and> last tr = EvaluatorPost url p)"
proof -
  have tr: "tr = notify_calls w url p [0, 1, 2, 3, 4]"
    by (simp add: tr_def notify_evaluator_run)
  have r: "r = notify_result w url p [0, 1, 2, 3, 4]"
    by (simp add: r_def notify_evaluator_run)
  have c1: "2 * k + 1 < length tr \<and> tr ! (2 * k) = EvaluatorPost url p
            \<and> tr ! (2 * k + 1) = Sleep (2 ^ k)"
    if k: "k < 5" and f: "\<forall>j\<le>k. \<not> succeeds (evaluator_post w j)" for k
  proof -
    from k consider "k = 0" | "k = 1" | "k = 2" | "k = 3" | "k = 4" by linarith
    then show ?thesis
    proof cases
      case 1
      with f have "\<not> succeeds (evaluator_post w 0)" by simp
      with 1 show ?thesis by (simp add: tr notify_eval)
    next
      case 2
      with f have "\<not> succeeds (evaluator_post w 0)" "\<not> succeeds (evaluator_post w 1)"
        by simp_all
      with 2 show ?thesis by (simp add: tr notify_eval)
    next
      case 3
      with f have "\<not> succeeds (evaluator_post w 0)" "\<not> succeeds (evaluator_post w 1)"
        "\<not> succeeds (evaluator_post w 2)" by simp_all
      with 3 show ?thesis by (simp add: tr notify_eval)
    next
      case 4
      with f have "\<not> succeeds (evaluator_post w 0)" "\<not> succeeds (evaluator_post w 1)"
        "\<not> succeeds (evaluator_post w 2)" "\<not> succeeds (evaluator_post w 3)" by simp_all
      with 4 show ?thesis by (simp add: tr notify_eval)
    next
      case 5
      with f have "\<not> succeeds (evaluator_post w 0)" "\<not> succeeds (evaluator_post w 1)"
        "\<not> succeeds (evaluator_post w 2)" "\<not> succeeds (evaluator_post w 3)"
        "\<not> succeeds (evaluator_post w 4)" by simp_all
      with 5 show ?thesis by (simp add: tr notify_eval)
    qed
  qed
  have c2: "r = Inr False
          \<and> tr = [EvaluatorPost url p, Sleep 1, EvaluatorPost url p, Sleep 2,
                  EvaluatorPost url p, Sleep 4, EvaluatorPost url p, Sleep 8,
                  EvaluatorPost url p, Sleep 16]
          \<and> trailing_delay tr = 16 \<and> total_delay tr = 31"
    if "\<forall>k<5. \<not> succeeds (evaluator_post w k)"
  proof -
    from that have "\<not> succeeds (evaluator_post w 0)" "\<not> succeeds (evaluator_post w 1)"
      "\<not> succeeds (evaluator_post w 2)" "\<not> succeeds (evaluator_post w 3)"
      "\<not> succeeds (evaluator_post w 4)" by simp_all
    then show ?thesis
      by (simp add: r tr notify_eval trailing_delay_def total_delay_def)
  qed
  have c3: "trailing_delay tr = 0 \<and> last tr = EvaluatorPost url p" if "r = Inr True"
    using that
    by (simp add: r tr notify_eval trailing_delay_def split: if_splits)
  from c1 c2 c3 show ?thesis by blast
qed

theorem notify_evaluator_trailing_sleep_witness:
  "\<not> succeeds (evaluator_post world_evaluator_down 0)
   \<and> \<not> succeeds (evaluator_post world_evaluator_down 4)
   \<and> fst (notify_evaluator world_evaluator_down ''https://eval.example.com/notify''
            demo_payload machine0) = Inr False
   \<and> trailing_delay (calls (snd (notify_evaluator world_evaluator_down
         ''https://eval.example.com/notify'' demo_payload machine0))) = 16
   \<and> total_delay (calls (snd (notify_evaluator world_evaluator_down
         ''https://eval.example.com/notify'' demo_payload machine0))) = 31
   \<and> calls (snd (notify_evaluator world_evaluator_down
         ''https://eval.example.com/notify'' demo_payload machine0)) ! 9 = Sleep 16
   \<and> fst (notify_evaluator world_evaluator_third ''https://eval.example.com/notify''
            demo_payload machine0) = Inr True
   \<and> trailing_delay (calls (snd (notify_evaluator world_evaluator_third
         ''https://eval.example.com/notify'' demo_payload machine0))) = 0"
proof -
  have down: "\<forall>k<5. \<not> succeeds (evaluator_post world_evaluator_down k)"
    by (simp add: world_evaluator_down_def succeeds_def)
  have m0: "calls machine0 = []"
    by (simp add: machine0_def)
  have third: "fst (notify_evaluator world_evaluator_third ''https://eval.example.com/notify''
            demo_payload machine0) = Inr True"
    by (simp add: notify_evaluator_run notify_eval world_evaluator_third_def succeeds_def)
  note a = notify_evaluator_trailing_sleep
    [where w = world_evaluator_down and url = "''https://eval.example.com/notify''"
       and p = demo_payload and s = machine0]
  note b = notify_evaluator_trailing_sleep
    [where w = world_evaluator_third and url = "''https://eval.example.com/notify''"
       and p = demo_payload and s = machine0]
  from a down have a0: "fst (notify_evaluator world_evaluator_down ''https://eval.example.com/notify''
            demo_payload machine0) = Inr False
   \<and> calls (snd (notify_evaluator world_evaluator_down
         ''https://eval.example.com/notify'' demo_payload machine0)) =
       [EvaluatorPost ''https://eval.example.com/notify'' demo_payload, Sleep 1,
        EvaluatorPost ''https://eval.example.com/notify'' demo_payload, Sleep 2,
        EvaluatorPost ''https://eval.example.com/notify'' demo_payload, Sleep 4,
        EvaluatorPost ''https://eval.example.com/notify'' demo_payload, Sleep 8,
        EvaluatorPost ''https://eval.example.com/notify'' demo_payload, Sleep 16]
   \<and> trailing_delay (calls (snd (notify_evaluator world_evaluator_down
         ''https://eval.example.com/notify'' demo_payload machine0))) = 16
   \<and> total_delay (calls (snd (notify_evaluator world_evaluator_down
         ''https://eval.example.com/notify'' demo_payload machine0))) = 31"
    unfolding m0 list.size drop_0 by blast
  then have "calls (snd (notify_evaluator world_evaluator_down
         ''https://eval.example.com/notify'' demo_payload machine0)) ! 9 = Sleep 16"
    by simp
  with a0 have a': "fst (notify_evaluator world_evaluator_down ''https://eval.example.com/notify''
            demo_payload machine0) = Inr False
   \<and> trailing_delay (calls (snd (notify_evaluator world_evaluator_down
         ''https://eval.example.com/notify'' demo_payload machine0))) = 16
   \<and> total_delay (calls (snd (notify_evaluator world_evaluator_down
         ''https://eval.example.com/notify'' demo_payload machine0))) = 31
   \<and> calls (snd (notify_evaluator world_evaluator_down
         ''https://eval.example.com/notify'' demo_payload machine0)) ! 9 = Sleep 16"
    by blast
  from b third have b': "trailing_delay (calls (snd (notify_evaluator world_evaluator_third
         ''https://eval.example.com/notify'' demo_payload machine0))) = 0"
    unfolding m0 list.size drop_0 by blast
  have "\<not> succeeds (evaluator_post world_evaluator_down 0)"
    "\<not> succeeds (evaluator_post world_evaluator_down 4)"
    using down by simp_all
  with third a' b' show ?thesis by blast
qed

section \<open>Observing a computation on its directory\<close>

lemma tmp_localI:
  assumes "\<And>s. m s = (R (tmp s),
        s\<lparr>out := out s @ Os (tmp s), calls := calls s @ Cs (tmp s), tmp := T (tmp s)\<rparr>)"
  shows "tmp_local m"
  unfolding tmp_local_def using assms by blast

lemma tmp_local_run:
  assumes "tmp_local m"
  shows "m s = (res_on m (tmp s),
     s\<lparr>out := out s @ out_on m (tmp s), calls := calls s @ calls_on m (tmp s),
       tmp := tmp_on m (tmp s)\<rparr>)"
proof -
  from assms obtain R Os Cs T where
    a: "\<And>s. m s = (R (tmp s),
        s\<lparr>out := out s @ Os (tmp s), calls := calls s @ Cs (tmp s), tmp := T (tmp s)\<rparr>)"
    unfolding tmp_local_def by blast
  show ?thesis
    by (simp add: res_on_def out_on_def calls_on_def tmp_on_def a on_folder_def)
qed

lemma frame_local_tmp_local: "frame_local m \<Longrightarrow> tmp_local m"
proof -
  assume "frame_local m"
  then obtain r os cs where
    a: "\<And>s. m s = (r, s\<lparr>out := out s @ os, calls := calls s @ cs\<rparr>)"
    unfolding frame_local_def by blast
  show ?thesis
    by (rule tmp_localI[where R = "\<lambda>f. r" and Os = "\<lambda>f. os" and Cs = "\<lambda>f. cs" and T = "\<lambda>f. f"])
       (simp add: a)
qed

lemma tmp_local_bind:
  assumes m: "tmp_local m" and f: "\<And>x. tmp_local (f x)"
  shows "tmp_local (bind m f)"
proof -
  note m' = tmp_local_run[OF m]
  note f' = tmp_local_run[OF f]
  show ?thesis
    apply (rule tmp_localI[where
          R = "\<lambda>t. case res_on m t of Inl e \<Rightarrow> Inl e | Inr x \<Rightarrow> res_on (f x) (tmp_on m t)"
      and Os = "\<lambda>t. case res_on m t of Inl e \<Rightarrow> out_on m t
                     | Inr x \<Rightarrow> out_on m t @ out_on (f x) (tmp_on m t)"
      and Cs = "\<lambda>t. case res_on m t of Inl e \<Rightarrow> calls_on m t
                     | Inr x \<Rightarrow> calls_on m t @ calls_on (f x) (tmp_on m t)"
      and T = "\<lambda>t. case res_on m t of Inl e \<Rightarrow> tmp_on m t
                     | Inr x \<Rightarrow> tmp_on (f x) (tmp_on m t)"])
    apply (simp add: bind_def)
    apply (subst m')
    apply (simp split: sum.split)
    apply (intro allI impI)
    apply (subst f')
    apply simp
    done
qed

lemma tmp_local_try:
  assumes m: "tmp_local m" and h: "\<And>e. tmp_local (h e)"
  shows "tmp_local (try_catch m h)"
proof -
  note m' = tmp_local_run[OF m]
  note h' = tmp_local_run[OF h]
  show ?thesis
    apply (rule tmp_localI[where
          R = "\<lambda>t. case res_on m t of Inr x \<Rightarrow> Inr x | Inl e \<Rightarrow> res_on (h e) (tmp_on m t)"
      and Os = "\<lambda>t. case res_on m t of Inr x \<Rightarrow> out_on m t
                     | Inl e \<Rightarrow> out_on m t @ out_on (h e) (tmp_on m t)"
      and Cs = "\<lambda>t. case res_on m t of Inr x \<Rightarrow> calls_on m t
                     | Inl e \<Rightarrow> calls_on m t @ calls_on (h e) (tmp_on m t)"
      and T = "\<lambda>t. case res_on m t of Inr x \<Rightarrow> tmp_on m t
                     | Inl e \<Rightarrow> tmp_on (h e) (tmp_on m t)"])
    apply (simp add: try_catch_def)
    apply (subst m')
    apply (simp split: sum.split)
    apply (intro allI impI)
    apply (subst h')
    apply simp
    done
qed


lemma on_folder_simps [simp]:
  "tmp (on_folder f) = f" "out (on_folder f) = []" "calls (on_folder f) = []"
  by (simp_all add: on_folder_def)

lemma bind_on:
  assumes m: "tmp_local m" and f: "\<And>x. tmp_local (f x)"
  shows "res_on (bind m f) t = (case res_on m t of Inl e \<Rightarrow> Inl e | Inr x \<Rightarrow> res_on (f x) (tmp_on m t))"
    and "out_on (bind m f) t = (case res_on m t of Inl e \<Rightarrow> out_on m t
                     | Inr x \<Rightarrow> out_on m t @ out_on (f x) (tmp_on m t))"
    and "calls_on (bind m f) t = (case res_on m t of Inl e \<Rightarrow> calls_on m t
                     | Inr x \<Rightarrow> calls_on m t @ calls_on (f x) (tmp_on m t))"
    and "tmp_on (bind m f) t = (case res_on m t of Inl e \<Rightarrow> tmp_on m t
                     | Inr x \<Rightarrow> tmp_on (f x) (tmp_on m t))"
proof -
  have "bind m f (on_folder t) =
     (case res_on m t of
        Inl e \<Rightarrow> (Inl e, \<lparr>out = out_on m t, calls = calls_on m t, tmp = tmp_on m t\<rparr>)
      | Inr x \<Rightarrow> (res_on (f x) (tmp_on m t),
                  \<lparr>out = out_on m t @ out_on (f x) (tmp_on m t),
                   calls = calls_on m t @ calls_on (f x) (tmp_on m t),
                   tmp = tmp_on (f x) (tmp_on m t)\<rparr>))"
    apply (simp add: bind_def)
    apply (subst tmp_local_run[OF m])
    apply (simp split: sum.split add: on_folder_def)
    apply (intro allI impI)
    apply (subst tmp_local_run[OF f])
    apply simp
    done
  then show
    "res_on (bind m f) t = (case res_on m t of Inl e \<Rightarrow> Inl e | Inr x \<Rightarrow> res_on (f x) (tmp_on m t))"
    "out_on (bind m f) t = (case res_on m t of Inl e \<Rightarrow> out_on m t
                     | Inr x \<Rightarrow> out_on m t @ out_on (f x) (tmp_on m t))"
    "calls_on (bind m f) t = (case res_on m t of Inl e \<Rightarrow> calls_on m t
                     | Inr x \<Rightarrow> calls_on m t @ calls_on (f x) (tmp_on m t))"
    "tmp_on (bind m f) t = (case res_on m t of Inl e \<Rightarrow> tmp_on m t
                     | Inr x \<Rightarrow> tmp_on (f x) (tmp_on m t))"
    unfolding res_on_def[of "bind m f"] out_on_def[of "bind m f"] calls_on_def[of "bind m f"]
      tmp_on_def[of "bind m f"]
    by (simp_all split: sum.split)
qed

lemma try_on:
  assumes m: "tmp_local m" and h: "\<And>e. tmp_local (h e)"
  shows "res_on (try_catch m h) t = (case res_on m t of Inr x \<Rightarrow> Inr x | Inl e \<Rightarrow> res_on (h e) (tmp_on m t))"
    and "out_on (try_catch m h) t = (case res_on m t of Inr x \<Rightarrow> out_on m t
                     | Inl e \<Rightarrow> out_on m t @ out_on (h e) (tmp_on m t))"
    and "calls_on (try_catch m h) t = (case res_on m t of Inr x \<Rightarrow> calls_on m t
                     | Inl e \<Rightarrow> calls_on m t @ calls_on (h e) (tmp_on m t))"
    and "tmp_on (try_catch m h) t = (case res_on m t of Inr x \<Rightarrow> tmp_on m t
                     | Inl e \<Rightarrow> tmp_on (h e) (tmp_on m t))"
proof -
  have "try_catch m h (on_folder t) =
     (case res_on m t of
        Inr x \<Rightarrow> (Inr x, \<lparr>out = out_on m t, calls = calls_on m t, tmp = tmp_on m t\<rparr>)
      | Inl e \<Rightarrow> (res_on (h e) (tmp_on m t),
                  \<lparr>out = out_on m t @ out_on (h e) (tmp_on m t),
                   calls = calls_on m t @ calls_on (h e) (tmp_on m t),
                   tmp = tmp_on (h e) (tmp_on m t)\<rparr>))"
    apply (simp add: try_catch_def)
    apply (subst tmp_local_run[OF m])
    apply (simp split: sum.split add: on_folder_def)
    apply (intro allI impI)
    apply (subst tmp_local_run[OF h])
    apply simp
    done
  then show
    "res_on (try_catch m h) t = (case res_on m t of Inr x \<Rightarrow> Inr x | Inl e \<Rightarrow> res_on (h e) (tmp_on m t))"
    "out_on (try_catch m h) t = (case res_on m t of Inr x \<Rightarrow> out_on m t
                     | Inl e \<Rightarrow> out_on m t @ out_on (h e) (tmp_on m t))"
    "calls_on (try_catch m h) t = (case res_on m t of Inr x \<Rightarrow> calls_on m t
                     | Inl e \<Rightarrow> calls_on m t @ calls_on (h e) (tmp_on m t))"
    "tmp_on (try_catch m h) t = (case res_on m t of Inr x \<Rightarrow> tmp_on m t
                     | Inl e \<Rightarrow> tmp_on (h e) (tmp_on m t))"
    unfolding res_on_def[of "try_catch m h"] out_on_def[of "try_catch m h"]
      calls_on_def[of "try_catch m h"] tmp_on_def[of "try_catch m h"]
    by (simp_all split: sum.split)
qed

lemma with_tempdir_local:
  assumes "tmp_local b" shows "tmp_local (with_tempdir b)"
  apply (rule tmp_localI[where R = "\<lambda>t. res_on b empty_folder"
        and Os = "\<lambda>t. out_on b empty_folder" and Cs = "\<lambda>t. calls_on b empty_folder"
        and T = "\<lambda>t. empty_folder"])
  apply (simp add: with_tempdir_def)
  apply (subst tmp_local_run[OF assms])
  apply simp
  done

lemma with_tempdir_on:
  assumes b: "tmp_local b"
  shows "res_on (with_tempdir b) t = res_on b empty_folder"
    and "out_on (with_tempdir b) t = out_on b empty_folder"
    and "calls_on (with_tempdir b) t = calls_on b empty_folder"
    and "tmp_on (with_tempdir b) t = empty_folder"
proof -
  have "with_tempdir b (on_folder t) =
     (res_on b empty_folder,
      \<lparr>out = out_on b empty_folder, calls = calls_on b empty_folder, tmp = empty_folder\<rparr>)"
    apply (simp add: with_tempdir_def)
    apply (subst tmp_local_run[OF b])
    apply (simp add: on_folder_def)
    done
  then show "res_on (with_tempdir b) t = res_on b empty_folder"
    and "out_on (with_tempdir b) t = out_on b empty_folder"
    and "calls_on (with_tempdir b) t = calls_on b empty_folder"
    and "tmp_on (with_tempdir b) t = empty_folder"
    unfolding res_on_def[of "with_tempdir b"] out_on_def[of "with_tempdir b"]
      calls_on_def[of "with_tempdir b"] tmp_on_def[of "with_tempdir b"]
    by simp_all
qed

lemma prim_local:
  "tmp_local (ret x)" "tmp_local (raise e)" "tmp_local (print_line l)"
  "tmp_local (record_call c)" "tmp_local isdir_dotgit" "tmp_local (write_file n v)"
  "tmp_local (read_local v y)"
  by (simp_all add: frame_local_tmp_local frame_local_ret frame_local_raise frame_local_print
      frame_local_call)
     ((rule tmp_localI[where R = "\<lambda>t. Inr (dotgit t \<noteq> None)" and Os = "\<lambda>t. []" and Cs = "\<lambda>t. []"
          and T = "\<lambda>t. t"], simp add: isdir_dotgit_def),
      (rule tmp_localI[where R = "\<lambda>t. Inr ()" and Os = "\<lambda>t. []" and Cs = "\<lambda>t. []"
          and T = "\<lambda>t. t\<lparr>files := AList.update n v (files t)\<rparr>"], simp add: write_file_def),
      (cases y; simp add: read_local_def frame_local_tmp_local frame_local_ret frame_local_raise))

lemma prim_on:
  "res_on (ret x) t = Inr x" "out_on (ret x) t = []" "calls_on (ret x) t = []" "tmp_on (ret x) t = t"
  "res_on (raise e) t = Inl e" "out_on (raise e) t = []" "calls_on (raise e) t = []"
  "tmp_on (raise e) t = t"
  "res_on (print_line l) t = Inr ()" "out_on (print_line l) t = [l]"
  "calls_on (print_line l) t = []" "tmp_on (print_line l) t = t"
  "res_on (record_call c) t = Inr ()" "out_on (record_call c) t = []"
  "calls_on (record_call c) t = [c]" "tmp_on (record_call c) t = t"
  "res_on isdir_dotgit t = Inr (dotgit t \<noteq> None)" "out_on isdir_dotgit t = []"
  "calls_on isdir_dotgit t = []" "tmp_on isdir_dotgit t = t"
  "res_on (write_file n v) t = Inr ()" "out_on (write_file n v) t = []"
  "calls_on (write_file n v) t = []"
  "tmp_on (write_file n v) t = t\<lparr>files := AList.update n v (files t)\<rparr>"
  by (simp_all add: res_on_def out_on_def calls_on_def tmp_on_def ret_def raise_def
      print_line_def record_call_def isdir_dotgit_def write_file_def on_folder_def)

lemma read_local_on:
  "res_on (read_local v y) t = (case y of None \<Rightarrow> Inl (UnboundLocalError v) | Some z \<Rightarrow> Inr z)"
  "out_on (read_local v y) t = []" "calls_on (read_local v y) t = []"
  "tmp_on (read_local v y) t = t"
  by (cases y; simp add: read_local_def prim_on)+

lemma try_cpe_local:
  assumes m: "tmp_local m" and h: "tmp_local h"
  shows "tmp_local (try_catch_cpe m h)"
proof -
  have "try_catch_cpe m h =
    try_catch m (\<lambda>e. case e of CalledProcessError cmd rc \<Rightarrow> h | _ \<Rightarrow> raise e)"
    by (auto simp add: try_catch_cpe_def try_catch_def raise_def fun_eq_iff
        split: prod.splits sum.splits py_exception.splits)
  moreover have "tmp_local (try_catch m (\<lambda>e. case e of CalledProcessError cmd rc \<Rightarrow> h | _ \<Rightarrow> raise e))"
    by (rule tmp_local_try[OF m]) (simp add: h prim_local split: py_exception.split)
  ultimately show ?thesis by simp
qed

lemma try_cpe_on:
  assumes m: "tmp_local m" and h: "tmp_local h"
  shows "res_on (try_catch_cpe m h) t =
           (case res_on m t of Inr x \<Rightarrow> Inr x
            | Inl e \<Rightarrow> (case e of CalledProcessError cmd rc \<Rightarrow> res_on h (tmp_on m t) | _ \<Rightarrow> Inl e))"
    and "out_on (try_catch_cpe m h) t =
           (case res_on m t of Inr x \<Rightarrow> out_on m t
            | Inl e \<Rightarrow> (case e of CalledProcessError cmd rc \<Rightarrow> out_on m t @ out_on h (tmp_on m t)
                         | _ \<Rightarrow> out_on m t))"
    and "calls_on (try_catch_cpe m h) t =
           (case res_on m t of Inr x \<Rightarrow> calls_on m t
            | Inl e \<Rightarrow> (case e of CalledProcessError cmd rc \<Rightarrow> calls_on m t @ calls_on h (tmp_on m t)
                         | _ \<Rightarrow> calls_on m t))"
    and "tmp_on (try_catch_cpe m h) t =
           (case res_on m t of Inr x \<Rightarrow> tmp_on m t
            | Inl e \<Rightarrow> (case e of CalledProcessError cmd rc \<Rightarrow> tmp_on h (tmp_on m t)
                         | _ \<Rightarrow> tmp_on m t))"
proof -
  have eq: "try_catch_cpe m h =
    try_catch m (\<lambda>e. case e of CalledProcessError cmd rc \<Rightarrow> h | _ \<Rightarrow> raise e)"
    by (auto simp add: try_catch_cpe_def try_catch_def raise_def fun_eq_iff
        split: prod.splits sum.splits py_exception.splits)
  have hl: "\<And>e. tmp_local (case e of CalledProcessError cmd rc \<Rightarrow> h | _ \<Rightarrow> raise e)"
    by (simp add: h prim_local split: py_exception.split)
  show "res_on (try_catch_cpe m h) t =
           (case res_on m t of Inr x \<Rightarrow> Inr x
            | Inl e \<Rightarrow> (case e of CalledProcessError cmd rc \<Rightarrow> res_on h (tmp_on m t) | _ \<Rightarrow> Inl e))"
    and "out_on (try_catch_cpe m h) t =
           (case res_on m t of Inr x \<Rightarrow> out_on m t
            | Inl e \<Rightarrow> (case e of CalledProcessError cmd rc \<Rightarrow> out_on m t @ out_on h (tmp_on m t)
                         | _ \<Rightarrow> out_on m t))"
    and "calls_on (try_catch_cpe m h) t =
           (case res_on m t of Inr x \<Rightarrow> calls_on m t
            | Inl e \<Rightarrow> (case e of CalledProcessError cmd rc \<Rightarrow> calls_on m t @ calls_on h (tmp_on m t)
                         | _ \<Rightarrow> calls_on m t))"
    and "tmp_on (try_catch_cpe m h) t =
           (case res_on m t of Inr x \<Rightarrow> tmp_on m t
            | Inl e \<Rightarrow> (case e of CalledProcessError cmd rc \<Rightarrow> tmp_on h (tmp_on m t)
                         | _ \<Rightarrow> tmp_on m t))"
    unfolding eq
    by (simp_all add: try_on[OF m hl] prim_on split: sum.split py_exception.split)
qed

lemma subprocess_local: "tmp_local (subprocess_run w op argv sem)"
  by (rule tmp_localI[where
        R = "\<lambda>t. if fst (if git_fault w op then (128, t) else sem t) = 0 then Inr ()
                  else Inl (CalledProcessError argv (fst (if git_fault w op then (128, t) else sem t)))"
    and Os = "\<lambda>t. []"
    and Cs = "\<lambda>t. [Subprocess op (fst (if git_fault w op then (128, t) else sem t))]"
    and T = "\<lambda>t. snd (if git_fault w op then (128, t) else sem t)"])
     (simp add: subprocess_run_def split: prod.split)

lemma subprocess_on:
  "res_on (subprocess_run w op argv sem) t =
     (if exit_code w op sem t = 0 then Inr () else Inl (CalledProcessError argv (exit_code w op sem t)))"
  "out_on (subprocess_run w op argv sem) t = []"
  "calls_on (subprocess_run w op argv sem) t = [Subprocess op (exit_code w op sem t)]"
  "tmp_on (subprocess_run w op argv sem) t = (if git_fault w op then t else snd (sem t))"
  by (simp_all add: res_on_def out_on_def calls_on_def tmp_on_def subprocess_run_def exit_code_def
      split: prod.split)

lemma git_status_local: "tmp_local (git_status w)"
  by (rule tmp_localI[where
        R = "\<lambda>t. Inr (if git_fault w GitStatus then [] else status_porcelain t)"
    and Os = "\<lambda>t. []"
    and Cs = "\<lambda>t. [Subprocess GitStatus (if git_fault w GitStatus then 128 else 0)]"
    and T = "\<lambda>t. t"])
     (simp add: git_status_def)

lemma git_status_on:
  "res_on (git_status w) t = Inr (if git_fault w GitStatus then [] else status_porcelain t)"
  "out_on (git_status w) t = []"
  "calls_on (git_status w) t = [Subprocess GitStatus (if git_fault w GitStatus then 128 else 0)]"
  "tmp_on (git_status w) t = t"
  by (simp_all add: res_on_def out_on_def calls_on_def tmp_on_def git_status_def)

lemma rev_parse_local: "tmp_local (git_rev_parse_head w)"
  by (rule tmp_localI[where
        R = "\<lambda>t. case head_sha w t of
                    None \<Rightarrow> Inl (CalledProcessError [''git'', ''rev-parse'', ''HEAD''] 128)
                  | Some sha \<Rightarrow> Inr sha"
    and Os = "\<lambda>t. []"
    and Cs = "\<lambda>t. [Subprocess GitRevParse (case head_sha w t of None \<Rightarrow> 128 | Some sha \<Rightarrow> 0)]"
    and T = "\<lambda>t. t"])
     (simp add: git_rev_parse_head_def head_sha_def split: option.split list.split)

lemma rev_parse_on:
  "res_on (git_rev_parse_head w) t =
     (case head_sha w t of
        None \<Rightarrow> Inl (CalledProcessError [''git'', ''rev-parse'', ''HEAD''] 128)
      | Some sha \<Rightarrow> Inr sha)"
  "out_on (git_rev_parse_head w) t = []"
  "calls_on (git_rev_parse_head w) t =
     [Subprocess GitRevParse (case head_sha w t of None \<Rightarrow> 128 | Some sha \<Rightarrow> 0)]"
  "tmp_on (git_rev_parse_head w) t = t"
  by (simp_all add: res_on_def out_on_def calls_on_def tmp_on_def git_rev_parse_head_def
      head_sha_def split: option.split list.split)

lemmas local_intros = tmp_local_bind tmp_local_try try_cpe_local with_tempdir_local prim_local
  subprocess_local git_status_local rev_parse_local

lemma if_local: "tmp_local a \<Longrightarrow> tmp_local b \<Longrightarrow> tmp_local (if c then a else b)"
  by simp

lemma push_local: "tmp_local (push_to_github w repo_url gh_token)"
  unfolding push_to_github_def Let_def
  by (intro local_intros if_local)

lemma clone_local: "tmp_local (clone_repo cfg w repo_name token username)"
  unfolding clone_repo_def Let_def
  by (intro local_intros if_local)

lemma frame_local_fetch: "frame_local (fetch_github_file cfg w repo_name filename token branch username)"
  unfolding fetch_github_file_def Let_def
  by (intro frame_local_bind frame_local_call)
     (simp add: frame_local_raise frame_local_ret split: http_reply.split sum.split)

lemma frame_local_call_aipipe: "frame_local (call_aipipe w prompt)"
  unfolding call_aipipe_def
  by (intro frame_local_bind frame_local_call)
     (simp add: frame_local_raise frame_local_ret split: http_reply.split sum.split)

lemma frame_local_first_choice: "frame_local (first_choice_content response)"
  unfolding first_choice_content_def
  by (simp add: frame_local_raise frame_local_ret split: option.split list.split)

lemma frame_local_pages: "frame_local (enable_github_pages cfg w repo_name token branch)"
  unfolding enable_github_pages_def Let_def
  by (intro frame_local_bind frame_local_call frame_local_print)
     (auto intro!: frame_local_bind frame_local_print frame_local_raise frame_local_ret
        split: http_reply.split)

lemma frame_local_create: "frame_local (create_github_repo cfg w repo_name token description)"
  unfolding create_github_repo_def Let_def
  by (intro frame_local_bind frame_local_call frame_local_print)
     (auto intro!: frame_local_bind frame_local_print frame_local_raise frame_local_ret
        split: http_reply.split)

lemma frame_local_notify: "frame_local (notify_evaluator w url p)"
  by (simp add: notify_evaluator_def frame_local_notify_loop)

lemmas util_local = push_local clone_local
  frame_local_fetch[THEN frame_local_tmp_local] frame_local_call_aipipe[THEN frame_local_tmp_local]
  frame_local_first_choice[THEN frame_local_tmp_local] frame_local_pages[THEN frame_local_tmp_local]
  frame_local_create[THEN frame_local_tmp_local] frame_local_notify[THEN frame_local_tmp_local]

lemma revision_workspace_local: "tmp_local (revision_workspace cfg w task_data revised_html)"
  unfolding revision_workspace_def Let_def
  by (intro local_intros util_local if_local)

lemma build_publish_local: "tmp_local (build_publish cfg w task_data repo_url)"
  unfolding build_publish_def Let_def
  by (intro local_intros util_local if_local)

lemma build_workspace_local: "tmp_local (build_workspace cfg w task_data llm_message)"
  unfolding build_workspace_def Let_def
  by (intro local_intros util_local if_local build_publish_local)

section \<open>What the functions of utils.py return and call\<close>

lemmas exec = bind_on try_on try_cpe_on with_tempdir_on prim_on read_local_on subprocess_on
  git_status_on rev_parse_on local_intros util_local if_local

lemma resolve_username:
  "(case GITHUB_USERNAME cfg of None \<Rightarrow> GITHUB_USERNAME cfg | Some u \<Rightarrow> Some u) = GITHUB_USERNAME cfg"
  by (cases "GITHUB_USERNAME cfg") simp_all

lemma fetch_on:
  "res_on (fetch_github_file cfg w repo_name filename token branch (GITHUB_USERNAME cfg)) t =
     (case http_get w (''https://api.github.com/repos/'' @ fmt_opt (GITHUB_USERNAME cfg) @ ''/''
                        @ repo_name @ ''/contents/'' @ filename @ ''?ref='' @ branch) of
        ConnectError m \<Rightarrow> Inl (HTTPError m)
      | Response status_code text \<Rightarrow>
          if status_code = 200 then decode_content w text
          else Inl (Exception (''Cannot fetch '' @ filename @ '' from '' @ repo_name @ '': ''
                                     @ show_nat status_code @ '', '' @ text)))"
  "out_on (fetch_github_file cfg w repo_name filename token branch (GITHUB_USERNAME cfg)) t = []"
  "calls_on (fetch_github_file cfg w repo_name filename token branch (GITHUB_USERNAME cfg)) t =
     [HttpGet (''https://api.github.com/repos/'' @ fmt_opt (GITHUB_USERNAME cfg) @ ''/''
                        @ repo_name @ ''/contents/'' @ filename @ ''?ref='' @ branch)]"
  "tmp_on (fetch_github_file cfg w repo_name filename token branch (GITHUB_USERNAME cfg)) t = t"
  unfolding fetch_github_file_def Let_def resolve_username
  by (simp_all only: res_on_def out_on_def calls_on_def tmp_on_def bind_def record_call_def)
     (simp_all add: raise_def ret_def on_folder_def split: http_reply.split sum.split)


lemma call_aipipe_on:
  "res_on (call_aipipe w prompt) t =
     (case chat_post w prompt of
        ConnectError m \<Rightarrow> Inl (HTTPError m)
      | Response status_code text \<Rightarrow>
          if 200 \<le> status_code \<and> status_code < 300 then chat_json w text
          else Inl (HTTPError (status_error w status_code)))"
  "out_on (call_aipipe w prompt) t = []"
  "calls_on (call_aipipe w prompt) t = [ChatPost prompt]"
  "tmp_on (call_aipipe w prompt) t = t"
  unfolding call_aipipe_def
  by (simp_all only: res_on_def out_on_def calls_on_def tmp_on_def bind_def record_call_def)
     (simp_all add: raise_def ret_def on_folder_def split: http_reply.split sum.split)

lemma first_choice_on:
  "res_on (first_choice_content response) t =
     (case choices response of
        None \<Rightarrow> Inl (KeyError ''choices'')
      | Some [] \<Rightarrow> Inl IndexError
      | Some (None # _) \<Rightarrow> Inl (KeyError ''message'')
      | Some (Some content # _) \<Rightarrow> Inr content)"
  "out_on (first_choice_content response) t = []"
  "calls_on (first_choice_content response) t = []"
  "tmp_on (first_choice_content response) t = t"
  unfolding first_choice_content_def
  by (simp_all add: res_on_def out_on_def calls_on_def tmp_on_def raise_def ret_def on_folder_def
      split: option.split list.split)

lemma pages_on:
  "res_on (enable_github_pages cfg w repo_name token branch) t =
     (case api_post w (pages_api_url cfg repo_name) of
        ConnectError m \<Rightarrow> Inl (HTTPError m)
      | Response status_code text \<Rightarrow> Inr (status_code \<in> set [201, 204, 409]))"
  "calls_on (enable_github_pages cfg w repo_name token branch) t =
     [ApiPost (pages_api_url cfg repo_name)]"
  "tmp_on (enable_github_pages cfg w repo_name token branch) t = t"
  unfolding enable_github_pages_def Let_def pages_api_url_def
  by (simp_all only: res_on_def out_on_def calls_on_def tmp_on_def bind_def record_call_def
      print_line_def)
     (simp_all add: raise_def ret_def on_folder_def bind_def print_line_def split: http_reply.split)

lemma pages_out_on:
  "out_on (enable_github_pages cfg w repo_name token branch) t =
     (rocket_mark @ '' Enabling GitHub Pages at '' @ pages_api_url cfg repo_name) #
     (case api_post w (pages_api_url cfg repo_name) of
        ConnectError m \<Rightarrow> []
      | Response status_code text \<Rightarrow>
          if status_code \<in> set [201, 204, 409]
          then [ok_mark @ '' GitHub Pages enabled or already active.'']
          else [cross_mark @ '' Failed to enable GitHub Pages: '' @ show_nat status_code @ '' '' @ text])"
  unfolding enable_github_pages_def Let_def pages_api_url_def
  by (simp_all only: res_on_def out_on_def calls_on_def tmp_on_def bind_def record_call_def
      print_line_def)
     (simp_all add: raise_def ret_def on_folder_def bind_def print_line_def split: http_reply.split)

lemma create_on:
  "res_on (create_github_repo cfg w repo_name token description) t =
     (case api_post w create_api_url of
        ConnectError m \<Rightarrow> Inl (HTTPError m)
      | Response status_code text \<Rightarrow>
          if status_code \<in> set [201, 422]
          then Inr (''https://github.com/'' @ fmt_opt (GITHUB_USERNAME cfg) @ ''/'' @ repo_name)
          else Inl (Exception (''Failed to create repo: '' @ text)))"
  "calls_on (create_github_repo cfg w repo_name token description) t = [ApiPost create_api_url]"
  "tmp_on (create_github_repo cfg w repo_name token description) t = t"
  unfolding create_github_repo_def Let_def create_api_url_def
  by (simp_all only: res_on_def out_on_def calls_on_def tmp_on_def bind_def record_call_def
      print_line_def)
     (simp_all add: raise_def ret_def on_folder_def bind_def print_line_def split: http_reply.split)

lemma create_out_on:
  "out_on (create_github_repo cfg w repo_name token description) t =
     (case api_post w create_api_url of
        ConnectError m \<Rightarrow> []
      | Response status_code text \<Rightarrow>
          if status_code \<in> set [201, 422]
          then [ok_mark @ '' Repo creation response: '' @ show_nat status_code]
          else [])"
  unfolding create_github_repo_def Let_def create_api_url_def
  by (simp_all only: res_on_def out_on_def calls_on_def tmp_on_def bind_def record_call_def
      print_line_def)
     (simp_all add: raise_def ret_def on_folder_def bind_def print_line_def split: http_reply.split)

lemma notify_on:
  "res_on (notify_evaluator w url p) t = notify_result w url p [0, 1, 2, 3, 4]"
  "out_on (notify_evaluator w url p) t = notify_out w url p [0, 1, 2, 3, 4]"
  "calls_on (notify_evaluator w url p) t = notify_calls w url p [0, 1, 2, 3, 4]"
  "tmp_on (notify_evaluator w url p) t = t"
  by (simp_all add: res_on_def out_on_def calls_on_def tmp_on_def notify_evaluator_run)

lemma notify_result_total: "\<exists>b. notify_result w url p ks = Inr b"
  by (induction ks) (auto simp add: notify_eval)

lemma notify_calls_all:
  assumes "P (EvaluatorPost url p)" and "\<And>n. P (Sleep n)"
  shows "list_all P (notify_calls w url p ks)"
  by (induction ks) (simp_all add: notify_eval assms)

lemma only_callsI: "tmp_local m \<Longrightarrow> (\<And>t. list_all P (calls_on m t)) \<Longrightarrow> only_calls P m"
  by (simp add: only_calls_def)

lemma only_calls_local: "only_calls P m \<Longrightarrow> tmp_local m"
  by (simp add: only_calls_def)

lemma only_calls_all: "only_calls P m \<Longrightarrow> list_all P (calls_on m t)"
  by (simp add: only_calls_def)

lemma only_calls_bind:
  assumes m: "only_calls P m" and f: "\<And>x. only_calls P (f x)"
  shows "only_calls P (bind m f)"
proof (rule only_callsI)
  show "tmp_local (bind m f)"
    by (intro tmp_local_bind only_calls_local[OF m] only_calls_local[OF f])
  show "list_all P (calls_on (bind m f) t)" for t
    by (simp add: bind_on[OF only_calls_local[OF m] only_calls_local[OF f]]
        only_calls_all[OF m] only_calls_all[OF f] split: sum.split)
qed

lemma only_calls_try:
  assumes m: "only_calls P m" and h: "\<And>e. only_calls P (h e)"
  shows "only_calls P (try_catch m h)"
proof (rule only_callsI)
  show "tmp_local (try_catch m h)"
    by (intro tmp_local_try only_calls_local[OF m] only_calls_local[OF h])
  show "list_all P (calls_on (try_catch m h) t)" for t
    by (simp add: try_on[OF only_calls_local[OF m] only_calls_local[OF h]]
        only_calls_all[OF m] only_calls_all[OF h] split: sum.split)
qed

lemma only_calls_try_cpe:
  assumes m: "only_calls P m" and h: "only_calls P h"
  shows "only_calls P (try_catch_cpe m h)"
proof (rule only_callsI)
  show "tmp_local (try_catch_cpe m h)"
    by (intro try_cpe_local only_calls_local[OF m] only_calls_local[OF h])
  show "list_all P (calls_on (try_catch_cpe m h) t)" for t
    by (simp add: try_cpe_on[OF only_calls_local[OF m] only_calls_local[OF h]]
        only_calls_all[OF m] only_calls_all[OF h] split: sum.split py_exception.split)
qed

lemma only_calls_with_tempdir:
  assumes b: "only_calls P b"
  shows "only_calls P (with_tempdir b)"
  by (rule only_callsI)
     (simp_all add: with_tempdir_local only_calls_local[OF b]
        with_tempdir_on[OF only_calls_local[OF b]] only_calls_all[OF b])

lemma only_calls_prim:
  "only_calls P (ret x)" "only_calls P (raise e)" "only_calls P (print_line l)"
  "only_calls P isdir_dotgit" "only_calls P (write_file n v)" "only_calls P (read_local v y)"
  by (rule only_callsI; simp add: prim_local prim_on read_local_on)+

lemma only_calls_if: "only_calls P a \<Longrightarrow> only_calls P b \<Longrightarrow> only_calls P (if c then a else b)"
  by simp

lemma only_calls_subprocess:
  "(\<And>op rc. P (Subprocess op rc)) \<Longrightarrow> only_calls P (subprocess_run w op argv sem)"
  "(\<And>op rc. P (Subprocess op rc)) \<Longrightarrow> only_calls P (git_status w)"
  "(\<And>op rc. P (Subprocess op rc)) \<Longrightarrow> only_calls P (git_rev_parse_head w)"
  by (rule only_callsI; simp add: local_intros subprocess_on git_status_on rev_parse_on)+

lemmas only_calls_intros = only_calls_bind only_calls_try only_calls_try_cpe
  only_calls_with_tempdir only_calls_prim only_calls_if

lemma only_calls_push:
  assumes "\<And>op rc. P (Subprocess op rc)"
  shows "only_calls P (push_to_github w repo_url gh_token)"
  unfolding push_to_github_def Let_def
  by (intro only_calls_intros only_calls_subprocess assms)

lemma only_calls_clone:
  assumes "\<And>op rc. P (Subprocess op rc)"
  shows "only_calls P (clone_repo cfg w repo_name token username)"
  unfolding clone_repo_def Let_def
  by (intro only_calls_intros only_calls_subprocess assms)

lemma only_calls_pages:
  assumes "\<And>u. P (ApiPost u)"
  shows "only_calls P (enable_github_pages cfg w repo_name token branch)"
  by (rule only_callsI) (simp_all add: util_local pages_on assms)

lemma only_calls_create:
  assumes "\<And>u. P (ApiPost u)"
  shows "only_calls P (create_github_repo cfg w repo_name token description)"
  by (rule only_callsI) (simp_all add: util_local create_on assms)

lemma only_calls_notify:
  assumes "\<And>u p. P (EvaluatorPost u p)" and "\<And>n. P (Sleep n)"
  shows "only_calls P (notify_evaluator w url p)"
  by (rule only_callsI) (simp_all add: util_local notify_on notify_calls_all assms)

lemma revision_workspace_calls:
  assumes "\<And>op rc. P (Subprocess op rc)" and "\<And>u. P (ApiPost u)"
    and "\<And>u p. P (EvaluatorPost u p)" and "\<And>n. P (Sleep n)"
  shows "only_calls P (revision_workspace cfg w task_data revised_html)"
  unfolding revision_workspace_def Let_def
  by (intro only_calls_intros only_calls_push only_calls_clone only_calls_pages
        only_calls_notify assms)

lemma build_publish_calls:
  assumes "\<And>op rc. P (Subprocess op rc)" and "\<And>u. P (ApiPost u)"
    and "\<And>u p. P (EvaluatorPost u p)" and "\<And>n. P (Sleep n)"
  shows "only_calls P (build_publish cfg w task_data repo_url)"
  unfolding build_publish_def Let_def
  by (intro only_calls_intros only_calls_push only_calls_pages only_calls_notify assms)

lemma build_workspace_calls:
  assumes "\<And>op rc. P (Subprocess op rc)" and "\<And>u. P (ApiPost u)"
    and "\<And>u p. P (EvaluatorPost u p)" and "\<And>n. P (Sleep n)"
  shows "only_calls P (build_workspace cfg w task_data llm_message)"
  unfolding build_workspace_def Let_def
  by (intro only_calls_intros only_calls_create build_publish_calls assms)

section \<open>The two flows of the background pipeline\<close>

lemma revision_flow_local: "tmp_local (revision_flow cfg w task_data)"
  unfolding revision_flow_def Let_def
  by (intro local_intros util_local if_local revision_workspace_local)

lemma build_flow_local: "tmp_local (build_flow cfg w task_data)"
  unfolding build_flow_def Let_def
  by (intro local_intros util_local if_local build_workspace_local)



lemma revision_flow_calls:
  "calls_on (revision_flow cfg w task_data) t =
     HttpGet (prior_document_url cfg task_data) #
     (case res_on (fetch_github_file cfg w (rq_task task_data) ''index.html'' (GITHUB_TOKEN cfg)
                     ''main'' (GITHUB_USERNAME cfg)) t of
        Inl e \<Rightarrow> []
      | Inr existing_code \<Rightarrow>
          ChatPost (revision_prompt existing_code (rq_brief task_data) (rq_checks task_data)) #
          (case res_on (call_aipipe w
                   (revision_prompt existing_code (rq_brief task_data) (rq_checks task_data))) t of
             Inl e \<Rightarrow> []
           | Inr revision_response \<Rightarrow>
               (case res_on (first_choice_content revision_response) t of
                  Inl e \<Rightarrow> []
                | Inr revised_html \<Rightarrow>
                    calls_on (revision_workspace cfg w task_data revised_html) empty_folder)))"
  unfolding revision_flow_def Let_def prior_document_url_def
  by (simp add: exec revision_workspace_local fetch_on(2-4) call_aipipe_on(2-4) first_choice_on(2-4)
      split: sum.split)


lemma build_flow_calls:
  "calls_on (build_flow cfg w task_data) t =
     ChatPost (build_prompt task_data) #
     (case res_on (call_aipipe w (build_prompt task_data)) t of
        Inl e \<Rightarrow> []
      | Inr response \<Rightarrow>
          (case res_on (first_choice_content response) t of
             Inl e \<Rightarrow> []
           | Inr llm_message \<Rightarrow>
               calls_on (build_workspace cfg w task_data llm_message) empty_folder))"
  unfolding build_flow_def Let_def
  by (simp add: exec build_workspace_local call_aipipe_on(2-4) first_choice_on(2-4)
      split: sum.split)

lemma revision_flow_res: "res_on (revision_flow cfg w task_data) t = Inr ()"
  unfolding revision_flow_def Let_def
  by (simp add: exec revision_workspace_local fetch_on(2-4) call_aipipe_on(2-4) first_choice_on(2-4)
      split: sum.split)

lemma build_flow_res:
  "res_on (build_flow cfg w task_data) t =
     (case res_on (call_aipipe w (build_prompt task_data)) t of
        Inl e \<Rightarrow> Inl e
      | Inr response \<Rightarrow> Inr ())"
  unfolding build_flow_def Let_def
  by (simp add: exec build_workspace_local call_aipipe_on(2-4) first_choice_on(2-4)
      split: sum.split)

lemma build_flow_out_generation_failure:
  "res_on (call_aipipe w (build_prompt task_data)) t = Inl e \<Longrightarrow>
   out_on (build_flow cfg w task_data) t =
     [new_mark @ '' Detected Round 1 (Initial build) request!'',
      cycle_mark @ '' Processing task for: '' @ rq_task task_data,
      lens_mark @ '' Calling AI Pipe with full prompt to generate app code...'']"
  unfolding build_flow_def Let_def
  by (simp add: exec build_workspace_local call_aipipe_on(2-4) first_choice_on(2-4)
      split: sum.split)

lemma flow_out_head:
  "\<exists>rest. out_on (revision_flow cfg w task_data) t =
     (repeat_mark @ '' Detected Round 2 (Revision) request!'') # rest"
  "\<exists>rest. out_on (build_flow cfg w task_data) t =
     (new_mark @ '' Detected Round 1 (Initial build) request!'') # rest"
  unfolding revision_flow_def build_flow_def Let_def
  by (simp_all add: exec revision_workspace_local build_workspace_local fetch_on(2-4)
      call_aipipe_on(2-4) first_choice_on(2-4) split: sum.split)

lemma no_fetch_no_generate:
  "\<not> is_fetch (Subprocess op rc) \<and> \<not> is_generate (Subprocess op rc)"
  "\<not> is_fetch (ApiPost u) \<and> \<not> is_generate (ApiPost u)"
  "\<not> is_fetch (EvaluatorPost u p) \<and> \<not> is_generate (EvaluatorPost u p)"
  "\<not> is_fetch (Sleep n) \<and> \<not> is_generate (Sleep n)"
  by (simp_all add: is_fetch_def is_generate_def)

lemma workspace_tail:
  "list_all (\<lambda>c. \<not> is_fetch c \<and> \<not> is_generate c)
     (calls_on (revision_workspace cfg w task_data revised_html) t)"
  "list_all (\<lambda>c. \<not> is_fetch c \<and> \<not> is_generate c)
     (calls_on (build_workspace cfg w task_data llm_message) t)"
  by (rule only_calls_all, rule revision_workspace_calls, simp_all add: no_fetch_no_generate)
     (rule only_calls_all, rule build_workspace_calls, simp_all add: no_fetch_no_generate)

text \<open>The calls of the build flow: the generation call first, and no fetch after it.\<close>

lemma build_flow_shape:
  "\<exists>rest. calls_on (build_flow cfg w task_data) t = ChatPost (build_prompt task_data) # rest
     \<and> list_all (\<lambda>c. \<not> is_fetch c \<and> \<not> is_generate c) rest"
  by (simp add: build_flow_calls workspace_tail split: sum.split)

text \<open>
  The calls of the revision flow: the fetch alone when it fails, otherwise the fetch, the
  generation call on the revision prompt built from the fetched document, and then
  neither a fetch nor a generation call.
\<close>

lemma revision_flow_shape:
  "calls_on (revision_flow cfg w task_data) t = [HttpGet (prior_document_url cfg task_data)]
   \<or> (\<exists>text existing_code rest.
         http_get w (prior_document_url cfg task_data) = Response 200 text
         \<and> decode_content w text = Inr existing_code
         \<and> calls_on (revision_flow cfg w task_data) t =
             HttpGet (prior_document_url cfg task_data)
             # ChatPost (revision_prompt existing_code (rq_brief task_data) (rq_checks task_data))
             # rest
         \<and> list_all (\<lambda>c. \<not> is_fetch c \<and> \<not> is_generate c) rest)"
proof (cases "res_on (fetch_github_file cfg w (rq_task task_data) ''index.html'' (GITHUB_TOKEN cfg)
                     ''main'' (GITHUB_USERNAME cfg)) t")
  case (Inl e)
  then show ?thesis by (simp add: revision_flow_calls)
next
  case (Inr existing_code)
  then obtain body where "http_get w (prior_document_url cfg task_data) = Response 200 body"
    and "decode_content w body = Inr existing_code"
    unfolding fetch_on prior_document_url_def
    by (auto split: http_reply.splits if_splits)
  moreover have "\<exists>rest. calls_on (revision_flow cfg w task_data) t =
             HttpGet (prior_document_url cfg task_data)
             # ChatPost (revision_prompt existing_code (rq_brief task_data) (rq_checks task_data))
             # rest
         \<and> list_all (\<lambda>c. \<not> is_fetch c \<and> \<not> is_generate c) rest"
    using Inr by (simp add: revision_flow_calls workspace_tail split: sum.split)
  ultimately show ?thesis by blast
qed


section \<open>Round dispatch\<close>

lemma filter_fetch_tail:
  "list_all (\<lambda>c. \<not> is_fetch c \<and> \<not> is_generate c) rest \<Longrightarrow> filter is_fetch rest = []"
  by (induction rest) simp_all

lemma not_fetch_tail:
  "list_all (\<lambda>c. \<not> is_fetch c \<and> \<not> is_generate c) rest \<Longrightarrow> list_all (\<lambda>c. \<not> is_fetch c) rest"
  by (induction rest) simp_all

lemma process_round:
  "rq_round task_data = 2 \<Longrightarrow>
     process_task_background cfg w task_data = revision_flow cfg w task_data"
  "rq_round task_data \<noteq> 2 \<Longrightarrow>
     process_task_background cfg w task_data = build_flow cfg w task_data"
  by (simp_all add: process_task_background_def)

lemma local_run:
  assumes "tmp_local m"
  shows "calls (snd (m s)) = calls s @ calls_on m (tmp s)"
    and "out (snd (m s)) = out s @ out_on m (tmp s)"
    and "fst (m s) = res_on m (tmp s)"
  by (subst tmp_local_run[OF assms], simp)+

lemmas flow_run = local_run[OF revision_flow_local] local_run[OF build_flow_local]

lemma tmp_machine0: "tmp machine0 = empty_folder"
  by (simp add: machine0_def)

text \<open>
  Claim C1, as the code has it. The dispatch tests \<open>round == 2\<close>: a task of round 2 runs the
  revision flow (it announces a revision and its first call fetches the published
  document); a task of any other round, 3 and above included, runs the build flow (it
  announces an initial build, its first call is the generation call on the build prompt,
  and it never fetches the published document).
\<close>

theorem round_dispatch_tests_round_two:
  "(rq_round task_data = 2 \<longrightarrow>
      (\<exists>rest. calls (snd (process_task_background cfg w task_data s)) =
         calls s @ HttpGet (prior_document_url cfg task_data) # rest)
      \<and> (\<exists>rest. out (snd (process_task_background cfg w task_data s)) =
         out s @ (repeat_mark @ '' Detected Round 2 (Revision) request!'') # rest))
   \<and> (rq_round task_data \<noteq> 2 \<longrightarrow>
      (\<exists>rest. calls (snd (process_task_background cfg w task_data s)) =
         calls s @ ChatPost (build_prompt task_data) # rest
         \<and> list_all (\<lambda>c. \<not> is_fetch c) rest)
      \<and> (\<exists>rest. out (snd (process_task_background cfg w task_data s)) =
         out s @ (new_mark @ '' Detected Round 1 (Initial build) request!'') # rest))"
proof (intro conjI impI)
  assume r: "rq_round task_data = 2"
  from revision_flow_shape[of cfg w task_data "tmp s"]
  show "\<exists>rest. calls (snd (process_task_background cfg w task_data s)) =
         calls s @ HttpGet (prior_document_url cfg task_data) # rest"
    unfolding process_round(1)[OF r] flow_run by auto
  from flow_out_head(1)[of cfg w task_data "tmp s"]
  show "\<exists>rest. out (snd (process_task_background cfg w task_data s)) =
         out s @ (repeat_mark @ '' Detected Round 2 (Revision) request!'') # rest"
    unfolding process_round(1)[OF r] flow_run by auto
next
  assume r: "rq_round task_data \<noteq> 2"
  from build_flow_shape[of cfg w task_data "tmp s"] obtain rest where
    a: "calls_on (build_flow cfg w task_data) (tmp s) = ChatPost (build_prompt task_data) # rest"
    and b: "list_all (\<lambda>c. \<not> is_fetch c \<and> \<not> is_generate c) rest" by blast
  from a not_fetch_tail[OF b]
  show "\<exists>rest. calls (snd (process_task_background cfg w task_data s)) =
         calls s @ ChatPost (build_prompt task_data) # rest
         \<and> list_all (\<lambda>c. \<not> is_fetch c) rest"
    unfolding process_round(2)[OF r] flow_run by auto
  from flow_out_head(2)[of cfg w task_data "tmp s"]
  show "\<exists>rest. out (snd (process_task_background cfg w task_data s)) =
         out s @ (new_mark @ '' Detected Round 1 (Initial build) request!'') # rest"
    unfolding process_round(2)[OF r] flow_run by auto
qed

theorem round_dispatch_tests_round_two_witness:
  "rq_round demo_task_round2 = 2
   \<and> hd (calls (snd (process_task_background demo_config demo_world demo_task_round2 machine0)))
       = HttpGet (prior_document_url demo_config demo_task_round2)
   \<and> rq_round demo_task \<noteq> 2
   \<and> hd (calls (snd (process_task_background demo_config demo_world demo_task machine0)))
       = ChatPost (build_prompt demo_task)"
proof -
  have r2: "rq_round demo_task_round2 = 2" and r1: "rq_round demo_task \<noteq> 2"
    by (simp_all add: demo_task_round2_def demo_task_def)
  have m0: "calls machine0 = []" by (simp add: machine0_def)
  from round_dispatch_tests_round_two
    [where task_data = demo_task_round2 and cfg = demo_config and w = demo_world and s = machine0] r2
  have a: "hd (calls (snd (process_task_background demo_config demo_world demo_task_round2 machine0)))
       = HttpGet (prior_document_url demo_config demo_task_round2)"
    unfolding m0 by auto
  from round_dispatch_tests_round_two
    [where task_data = demo_task and cfg = demo_config and w = demo_world and s = machine0] r1
  have b: "hd (calls (snd (process_task_background demo_config demo_world demo_task machine0)))
       = ChatPost (build_prompt demo_task)"
    unfolding m0 by auto
  from r2 r1 a b show ?thesis by blast
qed

text \<open>
  The claim as stated fails at round 3: the task is of a round from 2 on, yet its first
  call is the generation call on the build prompt and it never fetches the published
  document.
\<close>

theorem round_three_runs_build_flow:
  "2 \<le> rq_round demo_task_round3
   \<and> hd (calls (snd (process_task_background demo_config demo_world demo_task_round3 machine0)))
       = ChatPost (build_prompt demo_task_round3)
   \<and> filter is_fetch
        (calls (snd (process_task_background demo_config demo_world demo_task_round3 machine0))) = []"
proof -
  have r: "rq_round demo_task_round3 = 3"
    by (simp add: demo_task_round3_def demo_task_def)
  have r': "rq_round demo_task_round3 \<noteq> 2"
    by (simp add: r)
  from build_flow_shape[of demo_config demo_world demo_task_round3 empty_folder] obtain rest where
    a: "calls_on (build_flow demo_config demo_world demo_task_round3) empty_folder
          = ChatPost (build_prompt demo_task_round3) # rest"
    and b: "list_all (\<lambda>c. \<not> is_fetch c \<and> \<not> is_generate c) rest" by blast
  have c: "calls (snd (process_task_background demo_config demo_world demo_task_round3 machine0))
     = ChatPost (build_prompt demo_task_round3) # rest"
    unfolding process_round(2)[OF r'] flow_run by (simp add: a tmp_machine0) (simp add: machine0_def)
  show ?thesis
    by (simp add: r c filter_fetch_tail[OF b] is_fetch_def)
qed

section \<open>The prompts\<close>

lemma sublist_right: "sublist x b \<Longrightarrow> sublist x (a @ b)"
  by (metis sublist_append_leftI sublist_order.order.trans)

lemma sublist_join_member: "x \<in> set xs \<Longrightarrow> sublist x (join sep xs)"
proof (induction sep xs rule: join.induct)
  case (1 sep)
  then show ?case by simp
next
  case (2 sep y)
  then show ?case by simp
next
  case (3 sep y z zs)
  show ?case
  proof (cases "x = y")
    case True
    then show ?thesis by simp
  next
    case False
    with 3 have "sublist x (join sep (z # zs))" by simp
    then show ?thesis by (simp add: sublist_right)
  qed
qed

lemma sublist_bullet_member: "c \<in> set checks \<Longrightarrow> sublist c (bullet_list checks)"
proof -
  assume "c \<in> set checks"
  then have "''- '' @ c \<in> set (map (\<lambda>c. ''- '' @ c) checks)"
    unfolding set_map by (rule imageI)
  then have "sublist (''- '' @ c) (bullet_list checks)"
    unfolding bullet_list_def by (rule sublist_join_member)
  moreover have "sublist c (''- '' @ c)" by (rule sublist_append_leftI)
  ultimately show ?thesis by (metis sublist_order.order.trans)
qed

lemma sublist_chunk: "sublist x chunk \<Longrightarrow> sublist x (chunk @ rest)"
  by (metis sublist_append_rightI sublist_order.order.trans)

lemma build_prompt_parts:
  "sublist (rq_brief task_data) (build_prompt task_data)"
  "sublist (bullet_list (rq_checks task_data)) (build_prompt task_data)"
  "sublist (py_str_list (map att_name (rq_attachments task_data))) (build_prompt task_data)"
  unfolding build_prompt_def
  by (rule sublist_append_rightI | rule sublist_right)+

lemma build_prompt_instruction:
  "sublist ''Please output a single complete HTML file'' (build_prompt task_data)"
  "sublist ''Start your output directly with <!DOCTYPE html> (no code fences).''
     (build_prompt task_data)"
proof -
  have a: "sublist ''Please output a single complete HTML file''
     ''Please output a single complete HTML file with embedded CSS and JS as required. ''"
    by (simp add: sublist_Cons_right)
  have b: "sublist ''Start your output directly with <!DOCTYPE html> (no code fences).''
     ''    The HTML output must pass all checks. Start your output directly with <!DOCTYPE html> (no code fences).''"
    by (simp add: sublist_Cons_right)
  show "sublist ''Please output a single complete HTML file'' (build_prompt task_data)"
    unfolding build_prompt_def
    by (rule sublist_chunk[OF a] | rule sublist_right)+
  show "sublist ''Start your output directly with <!DOCTYPE html> (no code fences).''
     (build_prompt task_data)"
    unfolding build_prompt_def
    by (rule b | rule sublist_right)+
qed

lemma revision_prompt_parts:
  "sublist existing_code (revision_prompt existing_code new_brief checks)"
  "sublist new_brief (revision_prompt existing_code new_brief checks)"
  "sublist (bullet_list checks) (revision_prompt existing_code new_brief checks)"
  unfolding revision_prompt_def
  by (rule sublist_append_rightI | rule sublist_right)+


text \<open>
  Claim C7. For a round-1 task the first call of the pipeline is the generation call, on
  a prompt that holds the brief verbatim, every check verbatim, the checks as a bulleted
  list, one per line and in input order, and the list of the attachment names; the prompt
  does not depend on anything else of the attachments; and it asks for a single complete
  HTML file, started directly with the token \<open><!DOCTYPE html>\<close> and without code fences.
\<close>

theorem build_prompt_embeds_brief_and_checks:
  "(rq_round task_data = 1 \<longrightarrow>
      (\<exists>rest. calls (snd (process_task_background cfg w task_data s)) =
         calls s @ ChatPost (build_prompt task_data) # rest))
   \<and> sublist (rq_brief task_data) (build_prompt task_data)
   \<and> (\<forall>c \<in> set (rq_checks task_data). sublist c (build_prompt task_data))
   \<and> sublist (join nl (map (\<lambda>c. ''- '' @ c) (rq_checks task_data))) (build_prompt task_data)
   \<and> sublist (py_str_list (map att_name (rq_attachments task_data))) (build_prompt task_data)
   \<and> (\<forall>other. rq_brief other = rq_brief task_data \<and> rq_checks other = rq_checks task_data
          \<and> map att_name (rq_attachments other) = map att_name (rq_attachments task_data)
          \<longrightarrow> build_prompt other = build_prompt task_data)
   \<and> sublist ''Please output a single complete HTML file'' (build_prompt task_data)
   \<and> sublist ''Start your output directly with <!DOCTYPE html> (no code fences).''
        (build_prompt task_data)"
proof -
  have first: "\<exists>rest. calls (snd (process_task_background cfg w task_data s)) =
         calls s @ ChatPost (build_prompt task_data) # rest" if "rq_round task_data = 1"
  proof -
    from that have r: "rq_round task_data \<noteq> 2" by simp
    from build_flow_shape[of cfg w task_data "tmp s"] show ?thesis
      unfolding process_round(2)[OF r] flow_run by auto
  qed
  have each: "sublist c (build_prompt task_data)" if "c \<in> set (rq_checks task_data)" for c
    using sublist_bullet_member[OF that] build_prompt_parts(2)[of task_data]
    by (metis sublist_order.order.trans)
  have bullets: "sublist (join nl (map (\<lambda>c. ''- '' @ c) (rq_checks task_data)))
     (build_prompt task_data)"
    using build_prompt_parts(2)[of task_data] unfolding bullet_list_def .
  have names: "build_prompt other = build_prompt task_data"
    if "rq_brief other = rq_brief task_data \<and> rq_checks other = rq_checks task_data
          \<and> map att_name (rq_attachments other) = map att_name (rq_attachments task_data)"
    for other
    using that unfolding build_prompt_def by simp
  from first each bullets names build_prompt_parts(1,3)[of task_data]
    build_prompt_instruction[of task_data]
  show ?thesis by blast
qed

theorem build_prompt_embeds_brief_and_checks_witness:
  "rq_round demo_task = 1
   \<and> ''counter increments on click'' \<in> set (rq_checks demo_task)
   \<and> hd (calls (snd (process_task_background demo_config demo_world demo_task machine0)))
       = ChatPost (build_prompt demo_task)
   \<and> sublist ''Build a counter app'' (build_prompt demo_task)
   \<and> sublist ''counter increments on click'' (build_prompt demo_task)
   \<and> build_prompt (demo_task\<lparr>rq_attachments :=
         [\<lparr>att_name = ''logo.png'', att_url = ''https://example.com/other''\<rparr>]\<rparr>)
       = build_prompt demo_task"
proof -
  note t = build_prompt_embeds_brief_and_checks
    [where task_data = demo_task and cfg = demo_config and w = demo_world and s = machine0]
  have r: "rq_round demo_task = 1" and c: "''counter increments on click'' \<in> set (rq_checks demo_task)"
    and b: "rq_brief demo_task = ''Build a counter app''"
    by (simp_all add: demo_task_def)
  have m0: "calls machine0 = []" by (simp add: machine0_def)
  from t r have "\<exists>rest. calls (snd (process_task_background demo_config demo_world demo_task machine0)) =
         calls machine0 @ ChatPost (build_prompt demo_task) # rest" by blast
  then have first: "hd (calls (snd (process_task_background demo_config demo_world demo_task machine0)))
       = ChatPost (build_prompt demo_task)"
    unfolding m0 by auto
  from t have "sublist (rq_brief demo_task) (build_prompt demo_task)" by blast
  then have brief: "sublist ''Build a counter app'' (build_prompt demo_task)"
    unfolding b .
  from t c have check: "sublist ''counter increments on click'' (build_prompt demo_task)" by blast
  have other: "rq_brief (demo_task\<lparr>rq_attachments :=
         [\<lparr>att_name = ''logo.png'', att_url = ''https://example.com/other''\<rparr>]\<rparr>) = rq_brief demo_task
     \<and> rq_checks (demo_task\<lparr>rq_attachments :=
         [\<lparr>att_name = ''logo.png'', att_url = ''https://example.com/other''\<rparr>]\<rparr>) = rq_checks demo_task
     \<and> map att_name (rq_attachments (demo_task\<lparr>rq_attachments :=
         [\<lparr>att_name = ''logo.png'', att_url = ''https://example.com/other''\<rparr>]\<rparr>))
       = map att_name (rq_attachments demo_task)"
    by (simp add: demo_task_def)
  from t other have names: "build_prompt (demo_task\<lparr>rq_attachments :=
         [\<lparr>att_name = ''logo.png'', att_url = ''https://example.com/other''\<rparr>]\<rparr>)
       = build_prompt demo_task" by blast
  from r c first brief check names show ?thesis by blast
qed

section \<open>Repository creation and pages activation\<close>

text \<open>
  Claim C8. On a response of status 201 or 422 (the repository exists already)
  \<open>create_github_repo\<close> returns the repository URL and does not raise; on a response of
  any other status it raises, with the response text in the message.
\<close>

theorem create_github_repo_tolerates_existing:
  assumes "api_post w create_api_url = Response status_code body"
  shows "(status_code = 201 \<or> status_code = 422 \<longrightarrow>
            fst (create_github_repo cfg w repo_name token description s) =
              Inr (''https://github.com/'' @ fmt_opt (GITHUB_USERNAME cfg) @ ''/'' @ repo_name))
       \<and> (status_code \<noteq> 201 \<and> status_code \<noteq> 422 \<longrightarrow>
            fst (create_github_repo cfg w repo_name token description s) =
              Inl (Exception (''Failed to create repo: '' @ body)))"
  unfolding local_run(3)[OF util_local(7)] create_on(1) assms
  by simp

theorem create_github_repo_tolerates_existing_witness:
  "api_post world_repo_exists create_api_url = Response 422 ''name already exists''
   \<and> fst (create_github_repo demo_config world_repo_exists ''counter-app'' (Some ''ghp_TOKEN'')
            ''Build a counter app'' machine0) = Inr ''https://github.com/octo/counter-app''
   \<and> api_post world_create_forbidden create_api_url = Response 403 ''Forbidden''
   \<and> fst (create_github_repo demo_config world_create_forbidden ''counter-app'' (Some ''ghp_TOKEN'')
            ''Build a counter app'' machine0) = Inl (Exception ''Failed to create repo: Forbidden'')"
proof -
  have a: "api_post world_repo_exists create_api_url = Response 422 ''name already exists''"
    and b: "api_post world_create_forbidden create_api_url = Response 403 ''Forbidden''"
    by (simp_all add: world_repo_exists_def world_create_forbidden_def)
  from create_github_repo_tolerates_existing
    [OF a, where cfg = demo_config and repo_name = "''counter-app''"
       and token = "Some ''ghp_TOKEN''" and description = "''Build a counter app''" and s = machine0]
  have c: "fst (create_github_repo demo_config world_repo_exists ''counter-app'' (Some ''ghp_TOKEN'')
            ''Build a counter app'' machine0) = Inr ''https://github.com/octo/counter-app''"
    by (simp add: demo_config_def fmt_opt_def)
  from create_github_repo_tolerates_existing
    [OF b, where cfg = demo_config and repo_name = "''counter-app''"
       and token = "Some ''ghp_TOKEN''" and description = "''Build a counter app''" and s = machine0]
  have d: "fst (create_github_repo demo_config world_create_forbidden ''counter-app'' (Some ''ghp_TOKEN'')
            ''Build a counter app'' machine0) = Inl (Exception ''Failed to create repo: Forbidden'')"
    by simp
  from a b c d show ?thesis by blast
qed

text \<open>
  \<open>enable_github_pages\<close> returns true exactly on the statuses 201, 204 and 409, false on
  every other status, and raises only when no response arrives.
\<close>

lemma enable_github_pages_statuses:
  "api_post w (pages_api_url cfg repo_name) = Response status_code body \<Longrightarrow>
     fst (enable_github_pages cfg w repo_name token branch s) =
       Inr (status_code = 201 \<or> status_code = 204 \<or> status_code = 409)"
  unfolding local_run(3)[OF util_local(6)] pages_on(1)
  by simp

section \<open>Failures of the background pipeline\<close>

text \<open>
  The pipeline raises to its caller in one case only: in the build flow, when the
  generation call raises. The revision flow never raises.
\<close>

lemma process_task_background_result:
  "fst (process_task_background cfg w task_data s) =
     (if rq_round task_data = 2 then Inr ()
      else (case res_on (call_aipipe w (build_prompt task_data)) (tmp s) of
              Inl e \<Rightarrow> Inl e
            | Inr response \<Rightarrow> Inr ()))"
  by (simp add: process_round flow_run revision_flow_res build_flow_res)

lemma generation_down:
  "res_on (call_aipipe world_generation_down prompt) t = Inl (HTTPError ''Server error'')"
  by (simp add: call_aipipe_on world_generation_down_def demo_world_def)

text \<open>
  Claim C4 fails on the code. On the sample round-1 task, with the generation provider
  answering 500, the pipeline raises the error to its caller and prints nothing about it:
  the three lines printed are the ones that precede the generation call. The same failure
  in round 2 is caught: the pipeline returns.
\<close>

theorem generation_failure_escapes_build_flow:
  "rq_round demo_task = 1
   \<and> chat_post world_generation_down (build_prompt demo_task) = Response 500 ''Internal Server Error''
   \<and> fst (process_task_background demo_config world_generation_down demo_task machine0)
       = Inl (HTTPError ''Server error'')
   \<and> out (snd (process_task_background demo_config world_generation_down demo_task machine0))
       = [new_mark @ '' Detected Round 1 (Initial build) request!'',
          cycle_mark @ '' Processing task for: counter-app'',
          lens_mark @ '' Calling AI Pipe with full prompt to generate app code...'']
   \<and> calls (snd (process_task_background demo_config world_generation_down demo_task machine0))
       = [ChatPost (build_prompt demo_task)]
   \<and> fst (process_task_background demo_config world_generation_down demo_task_round2 machine0)
       = Inr ()"
proof -
  have r: "rq_round demo_task = 1" and r': "rq_round demo_task \<noteq> 2"
    and r2: "rq_round demo_task_round2 = 2" and n: "rq_task demo_task = ''counter-app''"
    by (simp_all add: demo_task_def demo_task_round2_def)
  have c: "chat_post world_generation_down (build_prompt demo_task) = Response 500 ''Internal Server Error''"
    by (simp add: world_generation_down_def)
  have a: "fst (process_task_background demo_config world_generation_down demo_task machine0)
       = Inl (HTTPError ''Server error'')"
    by (simp add: process_task_background_result r' generation_down)
  have b: "out (snd (process_task_background demo_config world_generation_down demo_task machine0))
       = [new_mark @ '' Detected Round 1 (Initial build) request!'',
          cycle_mark @ '' Processing task for: counter-app'',
          lens_mark @ '' Calling AI Pipe with full prompt to generate app code...'']"
    unfolding process_round(2)[OF r'] flow_run
      build_flow_out_generation_failure[OF generation_down] n
    by (simp add: machine0_def)
  have d: "calls (snd (process_task_background demo_config world_generation_down demo_task machine0))
       = [ChatPost (build_prompt demo_task)]"
    unfolding process_round(2)[OF r'] flow_run build_flow_calls generation_down
    by (simp add: machine0_def)
  have e: "fst (process_task_background demo_config world_generation_down demo_task_round2 machine0)
       = Inr ()"
    by (simp add: process_task_background_result r2)
  from r c a b d e show ?thesis by blast
qed

section \<open>Publishing with git\<close>

lemmas git_sems = git_init_def git_config_def git_add_all_def git_commit_def
  git_remote_set_url_def git_remote_add_def git_branch_move_def git_push_def git_clone_def
  exit_code_def head_sha_def status_porcelain_def head_tree_def

lemma changed_same: "changed a a = []"
  by (simp add: changed_def)

lemma changed_from_empty: "fs \<noteq> [] \<Longrightarrow> changed [] fs \<noteq> []"
proof (cases fs)
  case Nil
  then show "fs \<noteq> [] \<Longrightarrow> changed [] fs \<noteq> []" by simp
next
  case (Cons kv rest)
  obtain k v where kv: "kv = (k, v)" by (cases kv)
  have "k \<in> set (changed [] fs)"
    by (simp add: changed_def Cons kv)
  then show "changed [] fs \<noteq> []" by auto
qed

lemma bind_assoc: "bind (bind m f) g = bind m (\<lambda>x. bind (f x) g)"
  by (simp add: bind_def fun_eq_iff split: prod.split sum.split)

lemma bind_if: "bind (if c then a else b) g = (if c then bind a g else bind b g)"
  by simp

lemma push_to_github_steps:
  "push_to_github w repo_url gh_token =
     bind (git_stage w) (\<lambda>_.
     bind (git_commit_changes w) (\<lambda>_.
     bind (git_point_origin w (with_token gh_token repo_url)) (\<lambda>_.
     git_upload w)))"
  unfolding push_to_github_def git_stage_def git_commit_changes_def git_point_origin_def
    git_upload_def Let_def bind_assoc
  by (rule refl)

lemma steps_local:
  "tmp_local (git_stage w)" "tmp_local (git_commit_changes w)"
  "tmp_local (git_point_origin w u)" "tmp_local (git_upload w)"
  unfolding git_stage_def git_commit_changes_def git_point_origin_def git_upload_def
  by (intro local_intros if_local)+


lemma if_exit:
  "((if c then 128 else (0::nat)) = 0) = (\<not> c)"
  "((if c then 128 else fst p) = (0::nat)) = (\<not> c \<and> fst p = 0)"
  by simp_all

lemma obs_if:
  "res_on (if c then a else b) t = (if c then res_on a t else res_on b t)"
  "out_on (if c then a else b) t = (if c then out_on a t else out_on b t)"
  "calls_on (if c then a else b) t = (if c then calls_on a t else calls_on b t)"
  "tmp_on (if c then a else b) t = (if c then tmp_on a t else tmp_on b t)"
  by simp_all

lemmas step_exec = exec git_sems if_exit obs_if changed_same

lemma stage_ok:
  assumes "res_on (git_stage w) f = Inr ()"
  shows "tmp_on (git_stage w) f = staged_folder f"
proof (cases "dotgit f")
  case None
  with assms show ?thesis
    unfolding git_stage_def staged_folder_def
    by (simp add: step_exec split: if_splits)
next
  case (Some r)
  with assms show ?thesis
    unfolding git_stage_def staged_folder_def
    by (simp add: step_exec split: if_splits)
qed

lemma stage_no_commit: "list_all (\<lambda>c. \<not> is_commit c) (calls_on (git_stage w) f)"
  unfolding git_stage_def
  by (cases "dotgit f") (simp_all add: step_exec is_commit_def)

lemma staged_folder_simps:
  "files (staged_folder f) = files f"
  "repo_commits (staged_folder f) = repo_commits f"
  "\<exists>r. dotgit (staged_folder f) = Some r \<and> staged r = files f"
  by (cases "dotgit f"; simp add: staged_folder_def repo_commits_def)+

lemma staged_changes_staged: "staged_changes w (staged_folder f) = staged_changes w f"
  by (simp add: staged_changes_def staged_folder_simps)

lemma commit_skipped:
  assumes "dotgit g = Some r" and "staged r = files g" and "staged_changes w g = []"
  shows "res_on (git_commit_changes w) g = Inr ()"
    and "tmp_on (git_commit_changes w) g = g"
    and "list_all (\<lambda>c. \<not> is_commit c) (calls_on (git_commit_changes w) g)"
  using assms unfolding git_commit_changes_def staged_changes_def repo_commits_def
  by (simp_all add: step_exec is_commit_def split: if_splits)

lemma commit_made:
  assumes "dotgit g = Some r" and "staged r = files g" and "staged_changes w g \<noteq> []"
    and "res_on (git_commit_changes w) g = Inr ()"
  shows "tmp_on (git_commit_changes w) g =
           g\<lparr>dotgit := Some (r\<lparr>commits :=
              \<lparr>c_sha = commit_hash w (length (commits r)), c_tree = files g\<rparr> # commits r\<rparr>)\<rparr>"
    and "calls_on (git_commit_changes w) g = [Subprocess GitStatus 0, Subprocess GitCommit 0]"
  using assms unfolding git_commit_changes_def staged_changes_def repo_commits_def
  by (simp_all add: step_exec split: if_splits)


lemma point_origin_keeps:
  "files (tmp_on (git_point_origin w u) g) = files g"
  "repo_commits (tmp_on (git_point_origin w u) g) = repo_commits g"
  "map_option staged (dotgit (tmp_on (git_point_origin w u) g)) = map_option staged (dotgit g)"
  "list_all (\<lambda>c. \<not> is_commit c) (calls_on (git_point_origin w u) g)"
  unfolding git_point_origin_def repo_commits_def
  by (cases "dotgit g"; cases "origin (the (dotgit g))";
      simp add: step_exec is_commit_def split: if_splits)+

lemma upload_keeps:
  "files (tmp_on (git_upload w) g) = files g"
  "repo_commits (tmp_on (git_upload w) g) = repo_commits g"
  "map_option staged (dotgit (tmp_on (git_upload w) g)) = map_option staged (dotgit g)"
  "list_all (\<lambda>c. \<not> is_commit c) (calls_on (git_upload w) g)"
  unfolding git_upload_def repo_commits_def
  by (cases "dotgit g"; simp add: step_exec is_commit_def split: if_splits option.splits list.splits)+

lemma upload_sha:
  assumes "res_on (git_upload w) g = Inr sha"
  shows "repo_commits g \<noteq> [] \<and> sha = c_sha (hd (repo_commits g))"
  using assms unfolding git_upload_def repo_commits_def
  by (cases "dotgit g")
     (auto simp add: step_exec split: if_splits option.splits list.splits)


lemma bind_ok:
  assumes m: "tmp_local m" and k: "\<And>x. tmp_local (K x)"
    and ok: "res_on (bind m K) f = Inr y"
  obtains x where "res_on m f = Inr x" and "res_on (K x) (tmp_on m f) = Inr y"
    and "tmp_on (bind m K) f = tmp_on (K x) (tmp_on m f)"
    and "calls_on (bind m K) f = calls_on m f @ calls_on (K x) (tmp_on m f)"
proof (cases "res_on m f")
  case (Inl e)
  with ok show ?thesis by (simp add: bind_on[OF m k])
next
  case (Inr x)
  with ok that[of x] show ?thesis by (simp add: bind_on[OF m k])
qed

lemma push_effect:
  assumes ok: "res_on (push_to_github w repo_url gh_token) f = Inr sha"
  shows "files (tmp_on (push_to_github w repo_url gh_token) f) = files f"
    and "map_option staged (dotgit (tmp_on (push_to_github w repo_url gh_token) f)) = Some (files f)"
    and "repo_commits (tmp_on (push_to_github w repo_url gh_token) f) =
           (if staged_changes w f = [] then repo_commits f
            else \<lparr>c_sha = commit_hash w (length (repo_commits f)), c_tree = files f\<rparr>
                 # repo_commits f)"
    and "repo_commits (tmp_on (push_to_github w repo_url gh_token) f) \<noteq> []"
    and "sha = c_sha (hd (repo_commits (tmp_on (push_to_github w repo_url gh_token) f)))"
    and "filter is_commit (calls_on (push_to_github w repo_url gh_token) f) =
           (if staged_changes w f = [] then [] else [Subprocess GitCommit 0])"
proof -
  let ?u = "with_token gh_token repo_url"
  let ?K3 = "\<lambda>_::unit. git_upload w"
  let ?K2 = "\<lambda>_::unit. bind (git_point_origin w ?u) ?K3"
  let ?K1 = "\<lambda>_::unit. bind (git_commit_changes w) ?K2"
  have l3: "\<And>x. tmp_local (?K3 x)" by (simp add: steps_local)
  have l2: "\<And>x. tmp_local (?K2 x)" by (intro tmp_local_bind steps_local)
  have l1: "\<And>x. tmp_local (?K1 x)" by (intro tmp_local_bind steps_local)
  from ok have ok1: "res_on (bind (git_stage w) ?K1) f = Inr sha"
    by (simp only: push_to_github_steps)
  from bind_ok[OF steps_local(1) l1 ok1] obtain x1 where
    a1: "res_on (git_stage w) f = Inr x1"
    and a2: "res_on (?K1 x1) (tmp_on (git_stage w) f) = Inr sha"
    and a3: "tmp_on (bind (git_stage w) ?K1) f = tmp_on (?K1 x1) (tmp_on (git_stage w) f)"
    and a4: "calls_on (bind (git_stage w) ?K1) f =
               calls_on (git_stage w) f @ calls_on (?K1 x1) (tmp_on (git_stage w) f)"
    by blast
  define g1 where "g1 = staged_folder f"
  from a1 have g1: "tmp_on (git_stage w) f = g1"
    unfolding g1_def by (simp add: stage_ok)
  from bind_ok[OF steps_local(2) l2 a2[unfolded g1]] obtain x2 where
    b1: "res_on (git_commit_changes w) g1 = Inr x2"
    and b2: "res_on (?K2 x2) (tmp_on (git_commit_changes w) g1) = Inr sha"
    and b3: "tmp_on (?K1 x1) g1 = tmp_on (?K2 x2) (tmp_on (git_commit_changes w) g1)"
    and b4: "calls_on (?K1 x1) g1 =
               calls_on (git_commit_changes w) g1 @ calls_on (?K2 x2) (tmp_on (git_commit_changes w) g1)"
    by blast
  define g2 where "g2 = tmp_on (git_commit_changes w) g1"
  from bind_ok[OF steps_local(3) l3 b2[folded g2_def]] obtain x3 where
    c1: "res_on (git_point_origin w ?u) g2 = Inr x3"
    and c2: "res_on (git_upload w) (tmp_on (git_point_origin w ?u) g2) = Inr sha"
    and c3: "tmp_on (?K2 x2) g2 = tmp_on (git_upload w) (tmp_on (git_point_origin w ?u) g2)"
    and c4: "calls_on (?K2 x2) g2 =
               calls_on (git_point_origin w ?u) g2
               @ calls_on (git_upload w) (tmp_on (git_point_origin w ?u) g2)"
    by blast
  define g3 where "g3 = tmp_on (git_point_origin w ?u) g2"
  have final: "tmp_on (push_to_github w repo_url gh_token) f = tmp_on (git_upload w) g3"
    unfolding push_to_github_steps a3 g1 b3 g2_def[symmetric] c3 g3_def ..
  have calls: "calls_on (push_to_github w repo_url gh_token) f =
     calls_on (git_stage w) f @ calls_on (git_commit_changes w) g1
     @ calls_on (git_point_origin w ?u) g2 @ calls_on (git_upload w) g3"
    unfolding push_to_github_steps a4 g1 b4 g2_def[symmetric] c4 g3_def ..
  from staged_folder_simps(3)[of f] obtain r where
    "dotgit (staged_folder f) = Some r" "staged r = files f" by blast
  then have r: "dotgit g1 = Some r" "staged r = files g1"
    unfolding g1_def by (simp_all add: staged_folder_simps)
  have sc: "staged_changes w g1 = staged_changes w f"
    unfolding g1_def by (rule staged_changes_staged)
  have f1: "files g1 = files f" and cg1: "repo_commits g1 = repo_commits f"
    unfolding g1_def by (simp_all add: staged_folder_simps)
  have g2: "files g2 = files f \<and> map_option staged (dotgit g2) = Some (files f)
    \<and> repo_commits g2 =
           (if staged_changes w f = [] then repo_commits f
            else \<lparr>c_sha = commit_hash w (length (repo_commits f)), c_tree = files f\<rparr>
                 # repo_commits f)
    \<and> filter is_commit (calls_on (git_commit_changes w) g1) =
           (if staged_changes w f = [] then [] else [Subprocess GitCommit 0])"
  proof (cases "staged_changes w f = []")
    case True
    with sc have e: "staged_changes w g1 = []" by simp
    note k = commit_skipped[OF r e]
    from k(2) have "g2 = g1" unfolding g2_def .
    with True f1 cg1 r k(3) show ?thesis
      by (simp add: filter_empty_conv list_all_iff)
  next
    case False
    with sc have e: "staged_changes w g1 \<noteq> []" by simp
    from b1 have b1': "res_on (git_commit_changes w) g1 = Inr ()" by simp
    note k = commit_made[OF r e b1']
    from cg1 r have cr: "commits r = repo_commits f" by (simp add: repo_commits_def)
    from False f1 r k cr show ?thesis
      unfolding g2_def by (simp add: repo_commits_def is_commit_def)
  qed
  then have g2_files: "files g2 = files f"
    and g2_staged: "map_option staged (dotgit g2) = Some (files f)"
    and g2_commits: "repo_commits g2 =
           (if staged_changes w f = [] then repo_commits f
            else \<lparr>c_sha = commit_hash w (length (repo_commits f)), c_tree = files f\<rparr>
                 # repo_commits f)"
    and g2_calls: "filter is_commit (calls_on (git_commit_changes w) g1) =
           (if staged_changes w f = [] then [] else [Subprocess GitCommit 0])"
    by blast+
  have no: "filter is_commit (calls_on (git_stage w) f) = []"
    "filter is_commit (calls_on (git_point_origin w ?u) g2) = []"
    "filter is_commit (calls_on (git_upload w) g3) = []"
    using stage_no_commit[of w f] point_origin_keeps(4)[of w ?u g2] upload_keeps(4)[of w g3]
    by (simp_all add: filter_empty_conv list_all_iff)
  show "files (tmp_on (push_to_github w repo_url gh_token) f) = files f"
    unfolding final by (simp add: upload_keeps g3_def point_origin_keeps g2_files)
  show "map_option staged (dotgit (tmp_on (push_to_github w repo_url gh_token) f)) = Some (files f)"
    unfolding final by (simp add: upload_keeps g3_def point_origin_keeps g2_staged)
  show cm: "repo_commits (tmp_on (push_to_github w repo_url gh_token) f) =
           (if staged_changes w f = [] then repo_commits f
            else \<lparr>c_sha = commit_hash w (length (repo_commits f)), c_tree = files f\<rparr>
                 # repo_commits f)"
    unfolding final by (simp add: upload_keeps g3_def point_origin_keeps g2_commits)
  from upload_sha[OF c2[folded g3_def]]
  show "repo_commits (tmp_on (push_to_github w repo_url gh_token) f) \<noteq> []"
    and "sha = c_sha (hd (repo_commits (tmp_on (push_to_github w repo_url gh_token) f)))"
    unfolding final by (simp_all add: upload_keeps)
  show "filter is_commit (calls_on (push_to_github w repo_url gh_token) f) =
           (if staged_changes w f = [] then [] else [Subprocess GitCommit 0])"
    unfolding calls by (simp add: no g2_calls)
qed


lemma push_fresh:
  assumes nf: "\<And>op. \<not> git_fault w op" and f: "dotgit f = None" "files f \<noteq> []"
  shows "res_on (push_to_github w repo_url gh_token) f = Inr (commit_hash w 0)"
    and "calls_on (push_to_github w repo_url gh_token) f =
      [Subprocess GitInit 0, Subprocess GitConfig 0, Subprocess GitConfig 0, Subprocess GitAdd 0,
       Subprocess GitStatus 0, Subprocess GitCommit 0, Subprocess GitRemoteSetUrl 2,
       Subprocess GitRemoteAdd 0, Subprocess GitBranch 0, Subprocess GitPush 0,
       Subprocess GitRevParse 0]"
    and "out_on (push_to_github w repo_url gh_token) f = []"
    and "tmp_on (push_to_github w repo_url gh_token) f =
      f\<lparr>dotgit := Some \<lparr>staged = files f,
                          commits = [\<lparr>c_sha = commit_hash w 0, c_tree = files f\<rparr>],
                          origin = Some (with_token gh_token repo_url),
                          cur_branch = ''main''\<rparr>\<rparr>"
  unfolding push_to_github_def Let_def
  using changed_from_empty[OF f(2)]
  by (simp_all add: exec git_sems nf f)

lemma push_unchanged:
  assumes nf: "\<And>op. \<not> git_fault w op" and f: "dotgit f = Some r" "staged r = files f"
    "changed (head_tree r) (files f) = []" "commits r = c # cs" "origin r = Some u"
  shows "res_on (push_to_github w repo_url gh_token) f = Inr (c_sha c)"
  unfolding push_to_github_def Let_def
  using f(3)
  by (simp add: exec git_sems nf f changed_same)

lemma staged_changes_after:
  assumes ok: "res_on (push_to_github w repo_url gh_token) f = Inr sha"
  shows "staged_changes w (tmp_on (push_to_github w repo_url gh_token) f) = []"
proof (cases "staged_changes w f = []")
  case True
  then show ?thesis
    by (simp add: staged_changes_def[of w "tmp_on (push_to_github w repo_url gh_token) f"]
        push_effect(1,3)[OF ok]) (simp add: staged_changes_def split: if_splits)
next
  case False
  then show ?thesis
    by (simp add: staged_changes_def[of w "tmp_on (push_to_github w repo_url gh_token) f"]
        push_effect(1,3)[OF ok] changed_same)
qed

text \<open>
  Claim C6. A publish that returns has committed exactly when \<open>git status\<close> showed
  staged changes. So a second publish of the unchanged workspace, when it returns, runs
  no \<open>git commit\<close>, leaves the commits as they are, and returns the commit identifier
  that the first publish returned.
\<close>

theorem publish_unchanged_twice:
  assumes first: "push_to_github w repo_url gh_token s = (Inr sha1, s1)"
    and second: "push_to_github w repo_url gh_token s1 = (Inr sha2, s2)"
  shows "sha2 = sha1
    \<and> repo_commits (tmp s2) = repo_commits (tmp s1)
    \<and> filter is_commit (drop (length (calls s1)) (calls s2)) = []
    \<and> filter is_commit (drop (length (calls s)) (calls s1)) =
        (if staged_changes w (tmp s) = [] then [] else [Subprocess GitCommit 0])
    \<and> length (repo_commits (tmp s1)) =
        length (repo_commits (tmp s)) + (if staged_changes w (tmp s) = [] then 0 else 1)"
proof -
  note run = tmp_local_run[OF push_local, of w repo_url gh_token]
  from first run[of s] have r1: "res_on (push_to_github w repo_url gh_token) (tmp s) = Inr sha1"
    and t1: "tmp s1 = tmp_on (push_to_github w repo_url gh_token) (tmp s)"
    and c1: "calls s1 = calls s @ calls_on (push_to_github w repo_url gh_token) (tmp s)"
    by auto
  from second run[of s1] have r2: "res_on (push_to_github w repo_url gh_token) (tmp s1) = Inr sha2"
    and t2: "tmp s2 = tmp_on (push_to_github w repo_url gh_token) (tmp s1)"
    and c2: "calls s2 = calls s1 @ calls_on (push_to_github w repo_url gh_token) (tmp s1)"
    by auto
  have unchanged: "staged_changes w (tmp s1) = []"
    unfolding t1 by (rule staged_changes_after[OF r1])
  note e1 = push_effect[OF r1]
  note e2 = push_effect[OF r2]
  have same: "repo_commits (tmp s2) = repo_commits (tmp s1)"
    unfolding t2 e2(3) by (simp add: unchanged)
  have sha: "sha2 = sha1"
    using e2(5) e1(5) same unfolding t2 t1 by simp
  have none: "filter is_commit (drop (length (calls s1)) (calls s2)) = []"
    unfolding c2 by (simp add: e2(6) unchanged)
  have one: "filter is_commit (drop (length (calls s)) (calls s1)) =
        (if staged_changes w (tmp s) = [] then [] else [Subprocess GitCommit 0])"
    unfolding c1 by (simp add: e1(6))
  have len: "length (repo_commits (tmp s1)) =
        length (repo_commits (tmp s)) + (if staged_changes w (tmp s) = [] then 0 else 1)"
    unfolding t1 e1(3) by simp
  from sha same none one len show ?thesis by blast
qed

theorem publish_unchanged_twice_witness:
  "fst (push_to_github demo_world ''https://github.com/octo/counter-app'' (Some ''ghp_TOKEN'')
          demo_workspace) = Inr (commit_hash demo_world 0)
   \<and> fst (push_to_github demo_world ''https://github.com/octo/counter-app'' (Some ''ghp_TOKEN'')
          (snd (push_to_github demo_world ''https://github.com/octo/counter-app''
                  (Some ''ghp_TOKEN'') demo_workspace))) = Inr (commit_hash demo_world 0)
   \<and> filter is_commit (calls (snd (push_to_github demo_world
          ''https://github.com/octo/counter-app'' (Some ''ghp_TOKEN'') demo_workspace)))
       = [Subprocess GitCommit 0]
   \<and> length (repo_commits (tmp (snd (push_to_github demo_world
          ''https://github.com/octo/counter-app'' (Some ''ghp_TOKEN'')
          (snd (push_to_github demo_world ''https://github.com/octo/counter-app''
                  (Some ''ghp_TOKEN'') demo_workspace)))))) = 1"
proof -
  let ?p = "push_to_github demo_world ''https://github.com/octo/counter-app'' (Some ''ghp_TOKEN'')"
  let ?f = "\<lparr>files = [(''index.html'', ''<!DOCTYPE html><p>new</p>'')], dotgit = None\<rparr>"
  have nf: "\<And>op. \<not> git_fault demo_world op" by (simp add: demo_world_def)
  have w: "tmp demo_workspace = ?f" "calls demo_workspace = []"
    by (simp_all add: demo_workspace_def)
  note fresh = push_fresh[of demo_world ?f "''https://github.com/octo/counter-app''" "Some ''ghp_TOKEN''",
      OF nf]
  note run = local_run[OF push_local, of demo_world "''https://github.com/octo/counter-app''"
      "Some ''ghp_TOKEN''"]
  have a: "fst (?p demo_workspace) = Inr (commit_hash demo_world 0)"
    unfolding run w by (rule fresh(1)) simp_all
  have t: "tmp (snd (?p demo_workspace)) =
     ?f\<lparr>dotgit := Some \<lparr>staged = files ?f,
                          commits = [\<lparr>c_sha = commit_hash demo_world 0, c_tree = files ?f\<rparr>],
                          origin = Some (with_token (Some ''ghp_TOKEN'') ''https://github.com/octo/counter-app''),
                          cur_branch = ''main''\<rparr>\<rparr>"
    by (subst tmp_local_run[OF push_local]) (simp add: w fresh(4))
  let ?c = "\<lparr>c_sha = commit_hash demo_world 0, c_tree = files ?f\<rparr>"
  let ?r = "\<lparr>staged = files ?f, commits = [?c],
             origin = Some (with_token (Some ''ghp_TOKEN'') ''https://github.com/octo/counter-app''),
             cur_branch = ''main''\<rparr>"
  have b: "fst (?p (snd (?p demo_workspace))) = Inr (commit_hash demo_world 0)"
  proof -
    have "res_on ?p (?f\<lparr>dotgit := Some ?r\<rparr>) = Inr (c_sha ?c)"
      by (rule push_unchanged[where r = ?r and cs = "[]"
            and u = "with_token (Some ''ghp_TOKEN'') ''https://github.com/octo/counter-app''", OF nf])
         (simp_all add: head_tree_def changed_same)
    then show ?thesis unfolding run(3) t by simp
  qed
  have st: "staged_changes demo_world (tmp demo_workspace) \<noteq> []"
    by (simp add: w staged_changes_def repo_commits_def demo_world_def changed_def)
  from a have h1: "?p demo_workspace = (Inr (commit_hash demo_world 0), snd (?p demo_workspace))"
    by (simp add: prod_eq_iff)
  from b have h2: "?p (snd (?p demo_workspace)) =
      (Inr (commit_hash demo_world 0), snd (?p (snd (?p demo_workspace))))"
    by (simp add: prod_eq_iff)
  note both = publish_unchanged_twice[OF h1 h2]
  from both st have c: "filter is_commit (calls (snd (?p demo_workspace))) = [Subprocess GitCommit 0]"
    by (simp add: w)
  from both st have d: "length (repo_commits (tmp (snd (?p (snd (?p demo_workspace)))))) = 1"
    by (simp add: w repo_commits_def)
  from a b c d show ?thesis by blast
qed

section \<open>Pages activation and the notification\<close>

lemma update_not_empty: "AList.update k v al \<noteq> []"
  by (cases al) (simp_all add: AList.update.simps)

text \<open>
  The inner \<open>try\<close> of the build flow on a fresh workspace, with git working: when pages
  activation is refused, reading \<open>pages_url\<close> raises, the handler prints the error and
  the function returns; the evaluator is not called.
\<close>

lemma build_publish_pages_refused:
  assumes nf: "\<And>op. \<not> git_fault w op" and f: "dotgit f = None" "files f \<noteq> []"
    and pages: "api_post w (pages_api_url cfg (rq_task task_data)) = Response status_code body"
    and refused: "status_code \<notin> set [201, 204, 409]"
  shows "calls_on (build_publish cfg w task_data repo_url) f =
      [Subprocess GitInit 0, Subprocess GitConfig 0, Subprocess GitConfig 0, Subprocess GitAdd 0,
       Subprocess GitStatus 0, Subprocess GitCommit 0, Subprocess GitRemoteSetUrl 2,
       Subprocess GitRemoteAdd 0, Subprocess GitBranch 0, Subprocess GitPush 0,
       Subprocess GitRevParse 0, ApiPost (pages_api_url cfg (rq_task task_data))]"
    and "res_on (build_publish cfg w task_data repo_url) f = Inr True"
    and "last (out_on (build_publish cfg w task_data repo_url) f) =
           cross_mark @ '' Git push error: '' @ exc_str (UnboundLocalError ''pages_url'')"
    and "out_on (build_publish cfg w task_data repo_url) f \<noteq> []"
  using refused unfolding build_publish_def Let_def
  by (simp_all add: exec push_fresh[OF nf f] pages_on pages_out_on pages)

text \<open>The same when pages activation succeeds: the evaluator is called.\<close>

lemma build_publish_pages_enabled:
  assumes nf: "\<And>op. \<not> git_fault w op" and f: "dotgit f = None" "files f \<noteq> []"
    and pages: "api_post w (pages_api_url cfg (rq_task task_data)) = Response status_code body"
    and enabled: "status_code \<in> set [201, 204, 409]"
  shows "calls_on (build_publish cfg w task_data repo_url) f =
      [Subprocess GitInit 0, Subprocess GitConfig 0, Subprocess GitConfig 0, Subprocess GitAdd 0,
       Subprocess GitStatus 0, Subprocess GitCommit 0, Subprocess GitRemoteSetUrl 2,
       Subprocess GitRemoteAdd 0, Subprocess GitBranch 0, Subprocess GitPush 0,
       Subprocess GitRevParse 0, ApiPost (pages_api_url cfg (rq_task task_data))]
      @ notify_calls w (rq_evaluation_url task_data)
                \<lparr>p_email = rq_email task_data, p_task = rq_task task_data,
                 p_round = rq_round task_data, p_nonce = rq_nonce task_data,
                 p_repo_url = repo_url, p_commit_sha = commit_hash w 0,
                 p_pages_url = ''https://'' @ fmt_opt (GITHUB_USERNAME cfg) @ ''.github.io/''
                               @ rq_task task_data @ ''/''\<rparr> [0, 1, 2, 3, 4]"
    and "res_on (build_publish cfg w task_data repo_url) f = Inr False"
proof -
  obtain b where n: "notify_result w (rq_evaluation_url task_data)
                \<lparr>p_email = rq_email task_data, p_task = rq_task task_data,
                 p_round = rq_round task_data, p_nonce = rq_nonce task_data,
                 p_repo_url = repo_url, p_commit_sha = commit_hash w 0,
                 p_pages_url = ''https://'' @ fmt_opt (GITHUB_USERNAME cfg) @ ''.github.io/''
                               @ rq_task task_data @ ''/''\<rparr> [0, 1, 2, 3, 4] = Inr b"
    using notify_result_total by blast
  show "calls_on (build_publish cfg w task_data repo_url) f =
      [Subprocess GitInit 0, Subprocess GitConfig 0, Subprocess GitConfig 0, Subprocess GitAdd 0,
       Subprocess GitStatus 0, Subprocess GitCommit 0, Subprocess GitRemoteSetUrl 2,
       Subprocess GitRemoteAdd 0, Subprocess GitBranch 0, Subprocess GitPush 0,
       Subprocess GitRevParse 0, ApiPost (pages_api_url cfg (rq_task task_data))]
      @ notify_calls w (rq_evaluation_url task_data)
                \<lparr>p_email = rq_email task_data, p_task = rq_task task_data,
                 p_round = rq_round task_data, p_nonce = rq_nonce task_data,
                 p_repo_url = repo_url, p_commit_sha = commit_hash w 0,
                 p_pages_url = ''https://'' @ fmt_opt (GITHUB_USERNAME cfg) @ ''.github.io/''
                               @ rq_task task_data @ ''/''\<rparr> [0, 1, 2, 3, 4]"
    using enabled unfolding build_publish_def Let_def
    by (simp add: exec push_fresh[OF nf f] pages_on pages_out_on pages notify_on
        split: sum.split)
  show "res_on (build_publish cfg w task_data repo_url) f = Inr False"
    using enabled n[simplified] unfolding build_publish_def Let_def
    by (simp add: exec push_fresh[OF nf f] pages_on pages_out_on pages notify_on
        split: sum.split)
qed


lemma build_flow_pages_refused:
  assumes nf: "\<And>op. \<not> git_fault w op"
    and chat: "res_on (call_aipipe w (build_prompt task_data)) t = Inr response"
    and msg: "res_on (first_choice_content response) t = Inr llm_message"
    and create: "api_post w create_api_url = Response 201 created"
    and pages: "api_post w (pages_api_url cfg (rq_task task_data)) = Response status_code body"
    and refused: "status_code \<notin> set [201, 204, 409]"
  shows "calls_on (build_flow cfg w task_data) t =
      [ChatPost (build_prompt task_data), ApiPost create_api_url,
       Subprocess GitInit 0, Subprocess GitConfig 0, Subprocess GitConfig 0, Subprocess GitAdd 0,
       Subprocess GitStatus 0, Subprocess GitCommit 0, Subprocess GitRemoteSetUrl 2,
       Subprocess GitRemoteAdd 0, Subprocess GitBranch 0, Subprocess GitPush 0,
       Subprocess GitRevParse 0, ApiPost (pages_api_url cfg (rq_task task_data))]"
    and "last (out_on (build_flow cfg w task_data) t) =
           cross_mark @ '' Git push error: '' @ exc_str (UnboundLocalError ''pages_url'')"
proof -
  note p = build_publish_pages_refused[OF nf _ _ pages refused]
  have ws_calls: "calls_on (build_workspace cfg w task_data llm_message) empty_folder =
      [ApiPost create_api_url,
       Subprocess GitInit 0, Subprocess GitConfig 0, Subprocess GitConfig 0, Subprocess GitAdd 0,
       Subprocess GitStatus 0, Subprocess GitCommit 0, Subprocess GitRemoteSetUrl 2,
       Subprocess GitRemoteAdd 0, Subprocess GitBranch 0, Subprocess GitPush 0,
       Subprocess GitRevParse 0, ApiPost (pages_api_url cfg (rq_task task_data))]"
    and ws_res: "res_on (build_workspace cfg w task_data llm_message) empty_folder = Inr True"
    and ws_out: "last (out_on (build_workspace cfg w task_data llm_message) empty_folder) =
           cross_mark @ '' Git push error: '' @ exc_str (UnboundLocalError ''pages_url'')"
    and ws_ne: "out_on (build_workspace cfg w task_data llm_message) empty_folder \<noteq> []"
    unfolding build_workspace_def Let_def
    by (simp_all add: exec build_publish_local create_on create_out_on create p
        empty_folder_def)
  show "calls_on (build_flow cfg w task_data) t =
      [ChatPost (build_prompt task_data), ApiPost create_api_url,
       Subprocess GitInit 0, Subprocess GitConfig 0, Subprocess GitConfig 0, Subprocess GitAdd 0,
       Subprocess GitStatus 0, Subprocess GitCommit 0, Subprocess GitRemoteSetUrl 2,
       Subprocess GitRemoteAdd 0, Subprocess GitBranch 0, Subprocess GitPush 0,
       Subprocess GitRevParse 0, ApiPost (pages_api_url cfg (rq_task task_data))]"
    by (simp add: build_flow_calls chat msg ws_calls)
  show "last (out_on (build_flow cfg w task_data) t) =
           cross_mark @ '' Git push error: '' @ exc_str (UnboundLocalError ''pages_url'')"
    unfolding build_flow_def Let_def
    by (simp add: exec build_workspace_local call_aipipe_on(2-4) first_choice_on(2-4)
        chat msg ws_res ws_out ws_ne)
qed

lemma build_flow_pages_enabled:
  assumes nf: "\<And>op. \<not> git_fault w op"
    and chat: "res_on (call_aipipe w (build_prompt task_data)) t = Inr response"
    and msg: "res_on (first_choice_content response) t = Inr llm_message"
    and create: "api_post w create_api_url = Response 201 created"
    and pages: "api_post w (pages_api_url cfg (rq_task task_data)) = Response status_code body"
    and enabled: "status_code \<in> set [201, 204, 409]"
  shows "calls_on (build_flow cfg w task_data) t =
      [ChatPost (build_prompt task_data), ApiPost create_api_url,
       Subprocess GitInit 0, Subprocess GitConfig 0, Subprocess GitConfig 0, Subprocess GitAdd 0,
       Subprocess GitStatus 0, Subprocess GitCommit 0, Subprocess GitRemoteSetUrl 2,
       Subprocess GitRemoteAdd 0, Subprocess GitBranch 0, Subprocess GitPush 0,
       Subprocess GitRevParse 0, ApiPost (pages_api_url cfg (rq_task task_data))]
      @ notify_calls w (rq_evaluation_url task_data)
                \<lparr>p_email = rq_email task_data, p_task = rq_task task_data,
                 p_round = rq_round task_data, p_nonce = rq_nonce task_data,
                 p_repo_url = ''https://github.com/'' @ fmt_opt (GITHUB_USERNAME cfg) @ ''/''
                               @ rq_task task_data,
                 p_commit_sha = commit_hash w 0,
                 p_pages_url = ''https://'' @ fmt_opt (GITHUB_USERNAME cfg) @ ''.github.io/''
                               @ rq_task task_data @ ''/''\<rparr> [0, 1, 2, 3, 4]"
proof -
  note p = build_publish_pages_enabled[OF nf _ _ pages enabled]
  have ws_calls: "calls_on (build_workspace cfg w task_data llm_message) empty_folder =
      [ApiPost create_api_url,
       Subprocess GitInit 0, Subprocess GitConfig 0, Subprocess GitConfig 0, Subprocess GitAdd 0,
       Subprocess GitStatus 0, Subprocess GitCommit 0, Subprocess GitRemoteSetUrl 2,
       Subprocess GitRemoteAdd 0, Subprocess GitBranch 0, Subprocess GitPush 0,
       Subprocess GitRevParse 0, ApiPost (pages_api_url cfg (rq_task task_data))]
      @ notify_calls w (rq_evaluation_url task_data)
                \<lparr>p_email = rq_email task_data, p_task = rq_task task_data,
                 p_round = rq_round task_data, p_nonce = rq_nonce task_data,
                 p_repo_url = ''https://github.com/'' @ fmt_opt (GITHUB_USERNAME cfg) @ ''/''
                               @ rq_task task_data,
                 p_commit_sha = commit_hash w 0,
                 p_pages_url = ''https://'' @ fmt_opt (GITHUB_USERNAME cfg) @ ''.github.io/''
                               @ rq_task task_data @ ''/''\<rparr> [0, 1, 2, 3, 4]"
    unfolding build_workspace_def Let_def
    by (simp add: exec build_publish_local create_on create_out_on create p
        empty_folder_def)
  show ?thesis
    by (simp add: build_flow_calls chat msg ws_calls)
qed

lemma demo_generation:
  assumes "chat_post w = chat_post demo_world" and "chat_json w = chat_json demo_world"
  shows "res_on (call_aipipe w prompt) t =
           Inr \<lparr>resp_repr = ''{}'', choices = Some [Some ''<!DOCTYPE html><p>new</p>'']\<rparr>"
    and "res_on (first_choice_content
           \<lparr>resp_repr = ''{}'', choices = Some [Some ''<!DOCTYPE html><p>new</p>'']\<rparr>) t =
           Inr ''<!DOCTYPE html><p>new</p>''"
  by (simp_all add: call_aipipe_on first_choice_on assms demo_world_def)

text \<open>
  Claim C2 fails on the code. The first half holds: \<open>enable_github_pages\<close> returns true on
  201, 204 and 409 and false on every other status. The second half does not: the name
  \<open>pages_url\<close> is bound only when activation returned true, and the notification payload reads
  it. On the sample round-1 task, with the hosting API answering 403 to the activation
  request, the publish succeeds (\<open>git push\<close> exits with 0), activation returns false, the
  pipeline prints the error raised by the unbound name and returns, and no POST to the
  evaluator is attempted. With activation answering 201 the same task is notified once.
\<close>

theorem pages_refusal_skips_notification:
  "api_post world_pages_forbidden (pages_api_url demo_config (rq_task demo_task))
       = Response 403 ''Forbidden''
   \<and> fst (enable_github_pages demo_config world_pages_forbidden (rq_task demo_task)
            (GITHUB_TOKEN demo_config) ''main'' machine0) = Inr False
   \<and> Subprocess GitPush 0
       \<in> set (calls (snd (process_task_background demo_config world_pages_forbidden demo_task machine0)))
   \<and> attempts (calls (snd (process_task_background demo_config world_pages_forbidden demo_task machine0)))
       = 0
   \<and> last (out (snd (process_task_background demo_config world_pages_forbidden demo_task machine0)))
       = cross_mark @ '' Git push error: '' @ exc_str (UnboundLocalError ''pages_url'')
   \<and> fst (process_task_background demo_config world_pages_forbidden demo_task machine0) = Inr ()
   \<and> attempts (calls (snd (process_task_background demo_config demo_world demo_task machine0)))
       = 1"
proof -
  have r': "rq_round demo_task \<noteq> 2"
    by (simp add: demo_task_def)
  have nf: "\<And>op. \<not> git_fault world_pages_forbidden op" "\<And>op. \<not> git_fault demo_world op"
    by (simp_all add: world_pages_forbidden_def demo_world_def)
  have g: "chat_post world_pages_forbidden = chat_post demo_world"
      "chat_json world_pages_forbidden = chat_json demo_world"
    by (simp_all add: world_pages_forbidden_def)
  have cr: "api_post world_pages_forbidden create_api_url = Response 201 ''{}''"
      "api_post demo_world create_api_url = Response 201 ''{}''"
    by (simp_all add: world_pages_forbidden_def demo_world_def)
  have pg: "api_post world_pages_forbidden (pages_api_url demo_config (rq_task demo_task))
       = Response 403 ''Forbidden''"
    by (simp add: world_pages_forbidden_def pages_api_url_def create_api_url_def demo_config_def
        demo_task_def)
  have pg': "api_post demo_world (pages_api_url demo_config (rq_task demo_task))
       = Response 201 ''{}''"
    by (simp add: demo_world_def)
  have no: "(403::nat) \<notin> set [201, 204, 409]" and yes: "(201::nat) \<in> set [201, 204, 409]"
    by simp_all
  have a: "fst (enable_github_pages demo_config world_pages_forbidden (rq_task demo_task)
            (GITHUB_TOKEN demo_config) ''main'' machine0) = Inr False"
    by (simp add: enable_github_pages_statuses[OF pg])
  note refused = build_flow_pages_refused[OF nf(1) demo_generation[OF g] cr(1) pg no,
      where t = empty_folder]
  note enabled = build_flow_pages_enabled[OF nf(2) demo_generation[OF refl refl] cr(2) pg' yes,
      where t = empty_folder]
  have ne: "out_on (build_flow demo_config world_pages_forbidden demo_task) empty_folder \<noteq> []"
    using flow_out_head(2)[of demo_config world_pages_forbidden demo_task empty_folder] by auto
  have b: "Subprocess GitPush 0
       \<in> set (calls (snd (process_task_background demo_config world_pages_forbidden demo_task machine0)))"
    and c: "attempts (calls (snd (process_task_background demo_config world_pages_forbidden demo_task machine0)))
       = 0"
    unfolding process_round(2)[OF r'] flow_run tmp_machine0 refused(1)
    by (simp_all add: machine0_def attempts_def is_post_def)
  have d: "last (out (snd (process_task_background demo_config world_pages_forbidden demo_task machine0)))
       = cross_mark @ '' Git push error: '' @ exc_str (UnboundLocalError ''pages_url'')"
    unfolding process_round(2)[OF r'] flow_run tmp_machine0
    using refused(2) ne by (simp add: machine0_def)
  have e: "fst (process_task_background demo_config world_pages_forbidden demo_task machine0) = Inr ()"
    by (simp add: process_task_background_result r' demo_generation(1)[OF g])
  have f: "attempts (calls (snd (process_task_background demo_config demo_world demo_task machine0)))
       = 1"
    unfolding process_round(2)[OF r'] flow_run tmp_machine0 enabled
    by (simp add: machine0_def attempts_def is_post_def notify_eval succeeds_def demo_world_def)
  from pg a b c d e f show ?thesis by blast
qed

section \<open>Order of the revision flow\<close>

lemma tail_nth:
  assumes "list_all (\<lambda>c. \<not> is_fetch c \<and> \<not> is_generate c) rest" and "i < length rest"
  shows "\<not> is_fetch (rest ! i)" and "\<not> is_generate (rest ! i)"
  using assms by (simp_all add: list_all_length)

lemma clone_on:
  assumes nf: "\<And>op. \<not> git_fault w op"
  shows "res_on (clone_repo cfg w repo_name token username) empty_folder = Inr ()"
    and "calls_on (clone_repo cfg w repo_name token username) empty_folder = [Subprocess GitClone 0]"
    and "out_on (clone_repo cfg w repo_name token username) empty_folder = []"
    and "files (tmp_on (clone_repo cfg w repo_name token username) empty_folder) = cloned_tree w"
    and "\<exists>r u. dotgit (tmp_on (clone_repo cfg w repo_name token username) empty_folder) = Some r
           \<and> origin r = Some u \<and> commits r = remote_commits w"
  unfolding clone_repo_def Let_def cloned_tree_def
  by (simp_all add: exec git_sems nf empty_folder_def)

lemma push_cloned:
  assumes nf: "\<And>op. \<not> git_fault w op"
    and f: "dotgit f = Some r" "origin r = Some u"
    and c: "commits r \<noteq> [] \<or> changed (head_tree r) (files f) \<noteq> []"
  shows "calls_on (push_to_github w repo_url gh_token) f =
      [Subprocess GitConfig 0, Subprocess GitConfig 0, Subprocess GitAdd 0, Subprocess GitStatus 0]
      @ (if changed (head_tree r) (files f) = [] then [] else [Subprocess GitCommit 0])
      @ [Subprocess GitRemoteSetUrl 0, Subprocess GitBranch 0, Subprocess GitPush 0,
         Subprocess GitRevParse 0]"
proof (cases "changed (head_tree r) (files f) = []")
  case True
  with c obtain k ks where "commits r = k # ks" by (cases "commits r") auto
  with True show ?thesis
    unfolding push_to_github_def Let_def
    by (simp add: exec git_sems nf f changed_same)
next
  case False
  then show ?thesis
    unfolding push_to_github_def Let_def
    by (simp add: exec git_sems nf f changed_same)
qed

text \<open>
  With git working, the revision workspace clones, stages, commits when the revised
  document differs from the cloned one, and pushes.
\<close>

lemma revision_workspace_publishes:
  assumes nf: "\<And>op. \<not> git_fault w op"
  shows "\<exists>rest. calls_on (revision_workspace cfg w task_data revised_html) empty_folder =
      [Subprocess GitClone 0, Subprocess GitConfig 0, Subprocess GitConfig 0,
       Subprocess GitAdd 0, Subprocess GitStatus 0]
      @ (if changed (cloned_tree w) (AList.update ''index.html'' revised_html (cloned_tree w)) = []
         then [] else [Subprocess GitCommit 0])
      @ [Subprocess GitRemoteSetUrl 0, Subprocess GitBranch 0, Subprocess GitPush 0,
         Subprocess GitRevParse 0] @ rest"
proof -
  define F where "F = tmp_on (clone_repo cfg w (rq_task task_data) (GITHUB_TOKEN cfg)
                               (GITHUB_USERNAME cfg)) empty_folder"
  define G where "G = F\<lparr>files := AList.update ''index.html'' revised_html (files F)\<rparr>"
  from clone_on(5)[OF nf] obtain r u where
    r: "dotgit F = Some r" "origin r = Some u" "commits r = remote_commits w"
    unfolding F_def by blast
  have fF: "files F = cloned_tree w"
    unfolding F_def by (rule clone_on(4)[OF nf])
  have g: "dotgit G = Some r" "files G \<noteq> []"
    "files G = AList.update ''index.html'' revised_html (cloned_tree w)"
    by (simp_all add: G_def r update_not_empty fF)
  have h: "head_tree r = cloned_tree w"
    by (simp add: head_tree_def cloned_tree_def r)
  have c: "commits r \<noteq> [] \<or> changed (head_tree r) (files G) \<noteq> []"
  proof (cases "commits r")
    case Nil
    then have "head_tree r = []" by (simp add: head_tree_def)
    with changed_from_empty[OF g(2)] show ?thesis by simp
  next
    case (Cons k ks)
    then show ?thesis by simp
  qed
  have p: "calls_on (push_to_github w
             (''https://github.com/'' @ fmt_opt (GITHUB_USERNAME cfg) @ ''/'' @ rq_task task_data)
             (GITHUB_TOKEN cfg)) G =
      [Subprocess GitConfig 0, Subprocess GitConfig 0, Subprocess GitAdd 0, Subprocess GitStatus 0]
      @ (if changed (cloned_tree w) (AList.update ''index.html'' revised_html (cloned_tree w)) = []
         then [] else [Subprocess GitCommit 0])
      @ [Subprocess GitRemoteSetUrl 0, Subprocess GitBranch 0, Subprocess GitPush 0,
         Subprocess GitRevParse 0]"
    unfolding push_cloned[OF nf g(1) r(2) c] h g(3) ..
  have "\<exists>rest. calls_on (revision_workspace cfg w task_data revised_html) empty_folder =
          Subprocess GitClone 0 # calls_on (push_to_github w
             (''https://github.com/'' @ fmt_opt (GITHUB_USERNAME cfg) @ ''/'' @ rq_task task_data)
             (GITHUB_TOKEN cfg)) G @ rest"
    unfolding revision_workspace_def Let_def
    by (simp add: exec clone_on(1-3)[OF nf] F_def[symmetric] G_def[symmetric]
        split: sum.split)
  then show ?thesis
    unfolding p by simp
qed

lemma revision_flow_publishes:
  assumes "http_get w (prior_document_url cfg task_data) = Response 200 body"
    and "decode_content w body = Inr existing_code"
    and "chat_post w (revision_prompt existing_code (rq_brief task_data) (rq_checks task_data))
           = Response status_code reply"
    and "200 \<le> status_code" and "status_code < 300"
    and "chat_json w reply = Inr response"
    and "choices response = Some (Some revised_html # others)"
    and nf: "\<And>op. \<not> git_fault w op"
  shows "\<exists>rest. calls_on (revision_flow cfg w task_data) t =
      [HttpGet (prior_document_url cfg task_data),
       ChatPost (revision_prompt existing_code (rq_brief task_data) (rq_checks task_data)),
       Subprocess GitClone 0, Subprocess GitConfig 0, Subprocess GitConfig 0,
       Subprocess GitAdd 0, Subprocess GitStatus 0]
      @ (if changed (cloned_tree w) (AList.update ''index.html'' revised_html (cloned_tree w)) = []
         then [] else [Subprocess GitCommit 0])
      @ [Subprocess GitRemoteSetUrl 0, Subprocess GitBranch 0, Subprocess GitPush 0,
         Subprocess GitRevParse 0] @ rest"
proof -
  from revision_workspace_publishes[OF nf, of cfg task_data revised_html] obtain rest where
    ws: "calls_on (revision_workspace cfg w task_data revised_html) empty_folder =
      [Subprocess GitClone 0, Subprocess GitConfig 0, Subprocess GitConfig 0,
       Subprocess GitAdd 0, Subprocess GitStatus 0]
      @ (if changed (cloned_tree w) (AList.update ''index.html'' revised_html (cloned_tree w)) = []
         then [] else [Subprocess GitCommit 0])
      @ [Subprocess GitRemoteSetUrl 0, Subprocess GitBranch 0, Subprocess GitPush 0,
         Subprocess GitRevParse 0] @ rest"
    by blast
  have f: "res_on (fetch_github_file cfg w (rq_task task_data) ''index.html'' (GITHUB_TOKEN cfg)
                     ''main'' (GITHUB_USERNAME cfg)) t = Inr existing_code"
    using assms(1,2) by (simp add: fetch_on prior_document_url_def)
  have g: "res_on (call_aipipe w
             (revision_prompt existing_code (rq_brief task_data) (rq_checks task_data))) t
           = Inr response"
    using assms(3-6) by (simp add: call_aipipe_on)
  have m: "res_on (first_choice_content response) t = Inr revised_html"
    using assms(7) by (simp add: first_choice_on)
  show ?thesis
    unfolding revision_flow_calls f g m sum.case ws by simp
qed

text \<open>
  Claim C5. In the revision flow the fetch of the published document is the first call
  and the only fetch. A generation call, when there is one, is the second call: it comes
  after the fetch, the fetch answered 200 with a document that decoded, and the prompt is
  the revision prompt built from that document, the new brief and the new checks. A push
  comes after the generation call; and when the fetch and the generation succeed and git
  works, the flow does publish: after the generation call it clones, stages, commits when
  the revised document differs from the cloned one, and runs \<open>git push\<close>, which exits
  with 0. The revision prompt holds the fetched document, the brief and every check
  verbatim.
\<close>

theorem revision_flow_fetch_generate_publish:
  fixes cfg w task_data s
  assumes "rq_round task_data = 2"
  defines "cs \<equiv> drop (length (calls s)) (calls (snd (process_task_background cfg w task_data s)))"
  shows "calls (snd (process_task_background cfg w task_data s)) = calls s @ cs
    \<and> (\<exists>rest. cs = HttpGet (prior_document_url cfg task_data) # rest
          \<and> list_all (\<lambda>c. \<not> is_fetch c) rest)
    \<and> (\<forall>i p. i < length cs \<and> cs ! i = ChatPost p \<longrightarrow>
          i = 1
          \<and> (\<exists>body existing_code.
                http_get w (prior_document_url cfg task_data) = Response 200 body
                \<and> decode_content w body = Inr existing_code
                \<and> p = revision_prompt existing_code (rq_brief task_data) (rq_checks task_data)
                \<and> sublist existing_code p))
    \<and> (\<forall>i. i < length cs \<and> is_push (cs ! i) \<longrightarrow> 1 < i \<and> is_generate (cs ! 1))
    \<and> (\<forall>body existing_code status_code reply response revised_html others.
          http_get w (prior_document_url cfg task_data) = Response 200 body
          \<and> decode_content w body = Inr existing_code
          \<and> chat_post w (revision_prompt existing_code (rq_brief task_data) (rq_checks task_data))
               = Response status_code reply
          \<and> 200 \<le> status_code \<and> status_code < 300
          \<and> chat_json w reply = Inr response
          \<and> choices response = Some (Some revised_html # others)
          \<and> (\<forall>op. \<not> git_fault w op)
          \<longrightarrow> (\<exists>rest. cs =
                [HttpGet (prior_document_url cfg task_data),
                 ChatPost (revision_prompt existing_code (rq_brief task_data) (rq_checks task_data)),
                 Subprocess GitClone 0, Subprocess GitConfig 0, Subprocess GitConfig 0,
                 Subprocess GitAdd 0, Subprocess GitStatus 0]
                @ (if changed (cloned_tree w)
                        (AList.update ''index.html'' revised_html (cloned_tree w)) = []
                   then [] else [Subprocess GitCommit 0])
                @ [Subprocess GitRemoteSetUrl 0, Subprocess GitBranch 0, Subprocess GitPush 0,
                   Subprocess GitRevParse 0] @ rest))
    \<and> (\<forall>existing_code.
          sublist existing_code
            (revision_prompt existing_code (rq_brief task_data) (rq_checks task_data))
          \<and> sublist (rq_brief task_data)
            (revision_prompt existing_code (rq_brief task_data) (rq_checks task_data))
          \<and> (\<forall>c \<in> set (rq_checks task_data). sublist c
            (revision_prompt existing_code (rq_brief task_data) (rq_checks task_data))))"
proof -
  have cs: "cs = calls_on (revision_flow cfg w task_data) (tmp s)"
    and run: "calls (snd (process_task_background cfg w task_data s)) = calls s @ cs"
    unfolding cs_def process_round(1)[OF assms(1)] flow_run by simp_all
  have prompt: "sublist existing_code
            (revision_prompt existing_code (rq_brief task_data) (rq_checks task_data))
          \<and> sublist (rq_brief task_data)
            (revision_prompt existing_code (rq_brief task_data) (rq_checks task_data))
          \<and> (\<forall>c \<in> set (rq_checks task_data). sublist c
            (revision_prompt existing_code (rq_brief task_data) (rq_checks task_data)))"
    for existing_code
    using revision_prompt_parts[where existing_code = existing_code
          and new_brief = "rq_brief task_data" and checks = "rq_checks task_data"]
      sublist_bullet_member[where checks = "rq_checks task_data"]
    by (metis sublist_order.order.trans)
  from revision_flow_shape[of cfg w task_data "tmp s"]
  consider (failed) "cs = [HttpGet (prior_document_url cfg task_data)]"
    | (fetched) body existing_code rest where
        "http_get w (prior_document_url cfg task_data) = Response 200 body"
        "decode_content w body = Inr existing_code"
        "cs = HttpGet (prior_document_url cfg task_data)
             # ChatPost (revision_prompt existing_code (rq_brief task_data) (rq_checks task_data))
             # rest"
        "list_all (\<lambda>c. \<not> is_fetch c \<and> \<not> is_generate c) rest"
    unfolding cs by blast
  then have "(\<exists>rest. cs = HttpGet (prior_document_url cfg task_data) # rest
          \<and> list_all (\<lambda>c. \<not> is_fetch c) rest)
    \<and> (\<forall>i p. i < length cs \<and> cs ! i = ChatPost p \<longrightarrow>
          i = 1
          \<and> (\<exists>body existing_code.
                http_get w (prior_document_url cfg task_data) = Response 200 body
                \<and> decode_content w body = Inr existing_code
                \<and> p = revision_prompt existing_code (rq_brief task_data) (rq_checks task_data)
                \<and> sublist existing_code p))
    \<and> (\<forall>i. i < length cs \<and> is_push (cs ! i) \<longrightarrow> 1 < i \<and> is_generate (cs ! 1))"
  proof cases
    case failed
    then show ?thesis by (auto simp add: is_push_def nth_Cons')
  next
    case fetched
    have a: "\<exists>rest. cs = HttpGet (prior_document_url cfg task_data) # rest
          \<and> list_all (\<lambda>c. \<not> is_fetch c) rest"
      using fetched(3) not_fetch_tail[OF fetched(4)] by (simp add: is_fetch_def)
    have b: "i = 1 \<and> (\<exists>body existing_code.
                http_get w (prior_document_url cfg task_data) = Response 200 body
                \<and> decode_content w body = Inr existing_code
                \<and> p = revision_prompt existing_code (rq_brief task_data) (rq_checks task_data)
                \<and> sublist existing_code p)"
      if "i < length cs \<and> cs ! i = ChatPost p" for i p
    proof -
      consider "i = 0" | "i = 1" | "2 \<le> i" by linarith
      then show ?thesis
      proof cases
        case 1
        with that fetched(3) show ?thesis by simp
      next
        case 2
        with that fetched(3) have "p = revision_prompt existing_code (rq_brief task_data)
          (rq_checks task_data)" by simp
        with 2 fetched(1,2) prompt[of existing_code] show ?thesis by blast
      next
        case 3
        with that fetched(3) have "i - 2 < length rest" "rest ! (i - 2) = ChatPost p"
          by (auto simp add: nth_Cons' numeral_2_eq_2)
        then have "\<not> is_generate (ChatPost p)"
          using tail_nth(2)[OF fetched(4), of "i - 2"] by simp
        then show ?thesis by (simp add: is_generate_def)
      qed
    qed
    have c: "1 < i \<and> is_generate (cs ! 1)" if "i < length cs \<and> is_push (cs ! i)" for i
    proof -
      consider "i = 0" | "i = 1" | "2 \<le> i" by linarith
      then show ?thesis
      proof cases
        case 1
        with that fetched(3) show ?thesis by (simp add: is_push_def)
      next
        case 2
        with that fetched(3) show ?thesis by (simp add: is_push_def)
      next
        case 3
        with fetched(3) show ?thesis by (simp add: is_generate_def)
      qed
    qed
    from a b c show ?thesis by blast
  qed
  then have abc: "\<exists>rest. cs = HttpGet (prior_document_url cfg task_data) # rest
          \<and> list_all (\<lambda>c. \<not> is_fetch c) rest"
    "\<forall>i p. i < length cs \<and> cs ! i = ChatPost p \<longrightarrow>
          i = 1
          \<and> (\<exists>body existing_code.
                http_get w (prior_document_url cfg task_data) = Response 200 body
                \<and> decode_content w body = Inr existing_code
                \<and> p = revision_prompt existing_code (rq_brief task_data) (rq_checks task_data)
                \<and> sublist existing_code p)"
    "\<forall>i. i < length cs \<and> is_push (cs ! i) \<longrightarrow> 1 < i \<and> is_generate (cs ! 1)"
    by blast+
  have d: "\<forall>body existing_code status_code reply response revised_html others.
          http_get w (prior_document_url cfg task_data) = Response 200 body
          \<and> decode_content w body = Inr existing_code
          \<and> chat_post w (revision_prompt existing_code (rq_brief task_data) (rq_checks task_data))
               = Response status_code reply
          \<and> 200 \<le> status_code \<and> status_code < 300
          \<and> chat_json w reply = Inr response
          \<and> choices response = Some (Some revised_html # others)
          \<and> (\<forall>op. \<not> git_fault w op)
          \<longrightarrow> (\<exists>rest. cs =
                [HttpGet (prior_document_url cfg task_data),
                 ChatPost (revision_prompt existing_code (rq_brief task_data) (rq_checks task_data)),
                 Subprocess GitClone 0, Subprocess GitConfig 0, Subprocess GitConfig 0,
                 Subprocess GitAdd 0, Subprocess GitStatus 0]
                @ (if changed (cloned_tree w)
                        (AList.update ''index.html'' revised_html (cloned_tree w)) = []
                   then [] else [Subprocess GitCommit 0])
                @ [Subprocess GitRemoteSetUrl 0, Subprocess GitBranch 0, Subprocess GitPush 0,
                   Subprocess GitRevParse 0] @ rest)"
    unfolding cs using revision_flow_publishes[where cfg = cfg and w = w and task_data = task_data
        and t = "tmp s"]
    by blast
  have e: "\<forall>existing_code. sublist existing_code
            (revision_prompt existing_code (rq_brief task_data) (rq_checks task_data))
          \<and> sublist (rq_brief task_data)
            (revision_prompt existing_code (rq_brief task_data) (rq_checks task_data))
          \<and> (\<forall>c \<in> set (rq_checks task_data). sublist c
            (revision_prompt existing_code (rq_brief task_data) (rq_checks task_data)))"
    using prompt by blast
  show ?thesis
    by (intro conjI run abc d e)
qed


theorem revision_flow_fetch_generate_publish_witness:
  "rq_round demo_task_round2 = 2
   \<and> calls (snd (process_task_background demo_config demo_world demo_task_round2 machine0)) ! 0
       = HttpGet (prior_document_url demo_config demo_task_round2)
   \<and> calls (snd (process_task_background demo_config demo_world demo_task_round2 machine0)) ! 1
       = ChatPost (revision_prompt ''<!DOCTYPE html><p>old</p>'' (rq_brief demo_task_round2)
           (rq_checks demo_task_round2))
   \<and> calls (snd (process_task_background demo_config demo_world demo_task_round2 machine0)) ! 7
       = Subprocess GitCommit 0
   \<and> calls (snd (process_task_background demo_config demo_world demo_task_round2 machine0)) ! 10
       = Subprocess GitPush 0
   \<and> sublist ''<!DOCTYPE html><p>old</p>''
        (revision_prompt ''<!DOCTYPE html><p>old</p>'' (rq_brief demo_task_round2)
           (rq_checks demo_task_round2))"
proof -
  have r: "rq_round demo_task_round2 = 2"
    by (simp add: demo_task_round2_def)
  have m0: "calls machine0 = []" by (simp add: machine0_def)
  have hyp: "http_get demo_world (prior_document_url demo_config demo_task_round2)
        = Response 200 ''{}''
      \<and> decode_content demo_world ''{}'' = Inr ''<!DOCTYPE html><p>old</p>''
      \<and> chat_post demo_world (revision_prompt ''<!DOCTYPE html><p>old</p>''
            (rq_brief demo_task_round2) (rq_checks demo_task_round2)) = Response 200 ''{}''
      \<and> (200::nat) \<le> 200 \<and> (200::nat) < 300
      \<and> chat_json demo_world ''{}''
          = Inr \<lparr>resp_repr = ''{}'', choices = Some [Some ''<!DOCTYPE html><p>new</p>'']\<rparr>
      \<and> choices \<lparr>resp_repr = ''{}'', choices = Some [Some ''<!DOCTYPE html><p>new</p>'']\<rparr>
          = Some (Some ''<!DOCTYPE html><p>new</p>'' # [])
      \<and> (\<forall>op. \<not> git_fault demo_world op)"
    by (simp add: demo_world_def)
  have ch: "changed (cloned_tree demo_world)
              (AList.update ''index.html'' ''<!DOCTYPE html><p>new</p>'' (cloned_tree demo_world))
            \<noteq> []"
    by (simp add: cloned_tree_def demo_world_def changed_def)
  note t = revision_flow_fetch_generate_publish
    [where task_data = demo_task_round2 and cfg = demo_config and w = demo_world and s = machine0,
     OF r, unfolded m0 list.size drop_0]
  note d = t[THEN conjunct2, THEN conjunct2, THEN conjunct2, THEN conjunct2, THEN conjunct1,
      rule_format, OF hyp]
  from d ch obtain rest where
    c: "calls (snd (process_task_background demo_config demo_world demo_task_round2 machine0)) =
      [HttpGet (prior_document_url demo_config demo_task_round2),
       ChatPost (revision_prompt ''<!DOCTYPE html><p>old</p>'' (rq_brief demo_task_round2)
           (rq_checks demo_task_round2)),
       Subprocess GitClone 0, Subprocess GitConfig 0, Subprocess GitConfig 0,
       Subprocess GitAdd 0, Subprocess GitStatus 0, Subprocess GitCommit 0,
       Subprocess GitRemoteSetUrl 0, Subprocess GitBranch 0, Subprocess GitPush 0,
       Subprocess GitRevParse 0] @ rest"
    by auto
  from t have "\<forall>existing_code. sublist existing_code
            (revision_prompt existing_code (rq_brief demo_task_round2) (rq_checks demo_task_round2))"
    by blast
  then have "sublist ''<!DOCTYPE html><p>old</p>''
        (revision_prompt ''<!DOCTYPE html><p>old</p>'' (rq_brief demo_task_round2)
           (rq_checks demo_task_round2))"
    by (rule spec)
  with r show ?thesis unfolding c by simp
qed

section \<open>The credential and the printed lines\<close>












































end
